theory Spec2Isabelle imports Complex_Main "HOL-Library.Log_Nat" begin

section \<open>JavaScript numbers\<close>

text \<open>
  A JavaScript \<open>number\<close> is an IEEE 754 binary64 value: a finite value, \<open>Infinity\<close>,
  \<open>-Infinity\<close> or \<open>NaN\<close>. A finite value is modelled as the real it denotes. Every
  arithmetic operation of the source is the exact operation followed by \<open>round64\<close>:
  round to nearest, ties to the even significand, with 53 significant bits from
  \<open>2 powi (-1022)\<close> on, the fixed spacing \<open>2 powi (-1074)\<close> below that (gradual underflow,
  down to zero), and an infinity when the rounded magnitude reaches \<open>2 powi 1024\<close>. The
  sign of a zero is not kept: it can be observed only by dividing by a negative zero,
  and no negative zero arises from non-negative operands.
\<close>

datatype number = Fin real | PInf | NInf | NaN

definition rne :: "real \<Rightarrow> int" where
  \<comment> \<open>nearest integer, a tie going to the even neighbour\<close>
  "rne z = (let f = \<lfloor>z\<rfloor>; d = z - of_int f in
     if d < 1/2 then f else if 1/2 < d then f + 1 else if even f then f else f + 1)"

definition expo :: "real \<Rightarrow> int" where
  \<comment> \<open>for \<open>0 < x\<close>: the binary exponent \<open>e\<close> with \<open>2 powi e \<le> x < 2 powi (e + 1)\<close>\<close>
  "expo x = (if 1 \<le> x then bitlen \<lfloor>x\<rfloor> - 1 else - bitlen (\<lceil>1 / x\<rceil> - 1))"

definition fl :: "real \<Rightarrow> real" where
  \<comment> \<open>rounding to 53 significant bits, whatever the exponent\<close>
  "fl x = (if x = 0 then 0 else
     let u = 2 powi (expo \<bar>x\<bar> - 52) in sgn x * (of_int (rne (\<bar>x\<bar> / u)) * u))"

definition min_subnormal :: real where
  \<comment> \<open>the spacing of the numbers below \<open>min_normal\<close>, and the least positive number\<close>
  "min_subnormal = 2 powi (- 1074)"

definition min_normal :: real where
  \<comment> \<open>from here on a number has 53 significant bits\<close>
  "min_normal = 2 powi (- 1022)"

definition overflow_threshold :: real where
  \<comment> \<open>a rounded magnitude that reaches it is an infinity\<close>
  "overflow_threshold = 2 powi 1024"

definition round_magnitude :: "real \<Rightarrow> real" where
  \<comment> \<open>the rounded magnitude, before the test for overflow\<close>
  "round_magnitude a =
     (if a < min_normal then of_int (rne (a / min_subnormal)) * min_subnormal else fl a)"

definition round64 :: "real \<Rightarrow> number" where
  "round64 x =
     (if overflow_threshold \<le> round_magnitude \<bar>x\<bar> then (if 0 < x then PInf else NInf)
      else Fin (sgn x * round_magnitude \<bar>x\<bar>))"

fun fadd :: "number \<Rightarrow> number \<Rightarrow> number" where
  "fadd NaN b = NaN"
| "fadd a NaN = NaN"
| "fadd PInf NInf = NaN"
| "fadd NInf PInf = NaN"
| "fadd PInf b = PInf"
| "fadd a PInf = PInf"
| "fadd NInf b = NInf"
| "fadd a NInf = NInf"
| "fadd (Fin x) (Fin y) = round64 (x + y)"

fun fmul :: "number \<Rightarrow> number \<Rightarrow> number" where
  "fmul NaN b = NaN"
| "fmul a NaN = NaN"
| "fmul (Fin x) (Fin y) = round64 (x * y)"
| "fmul (Fin x) PInf = (if x = 0 then NaN else if 0 < x then PInf else NInf)"
| "fmul (Fin x) NInf = (if x = 0 then NaN else if 0 < x then NInf else PInf)"
| "fmul PInf (Fin y) = (if y = 0 then NaN else if 0 < y then PInf else NInf)"
| "fmul NInf (Fin y) = (if y = 0 then NaN else if 0 < y then NInf else PInf)"
| "fmul PInf PInf = PInf"
| "fmul NInf NInf = PInf"
| "fmul PInf NInf = NInf"
| "fmul NInf PInf = NInf"

fun fdiv :: "number \<Rightarrow> number \<Rightarrow> number" where
  "fdiv NaN b = NaN"
| "fdiv a NaN = NaN"
| "fdiv (Fin x) (Fin y) =
     (if y = 0 then (if x = 0 then NaN else if 0 < x then PInf else NInf)
      else round64 (x / y))"
| "fdiv (Fin x) PInf = Fin 0"
| "fdiv (Fin x) NInf = Fin 0"
| "fdiv PInf (Fin y) = (if 0 \<le> y then PInf else NInf)"
| "fdiv NInf (Fin y) = (if 0 \<le> y then NInf else PInf)"
| "fdiv PInf PInf = NaN"
| "fdiv PInf NInf = NaN"
| "fdiv NInf PInf = NaN"
| "fdiv NInf NInf = NaN"

fun js_le :: "number \<Rightarrow> number \<Rightarrow> bool" where
  \<comment> \<open>the comparison \<open>a <= b\<close>, false whenever an operand is \<open>NaN\<close>\<close>
  "js_le NaN b = False"
| "js_le a NaN = False"
| "js_le (Fin x) (Fin y) = (x \<le> y)"
| "js_le NInf b = True"
| "js_le a PInf = True"
| "js_le PInf b = False"
| "js_le a NInf = False"

fun js_lt :: "number \<Rightarrow> number \<Rightarrow> bool" where
  \<comment> \<open>the comparison \<open>a < b\<close>\<close>
  "js_lt NaN b = False"
| "js_lt a NaN = False"
| "js_lt (Fin x) (Fin y) = (x < y)"
| "js_lt PInf b = False"
| "js_lt a NInf = False"
| "js_lt NInf b = True"
| "js_lt a PInf = True"

fun Math_max :: "number \<Rightarrow> number \<Rightarrow> number" where
  "Math_max NaN b = NaN"
| "Math_max a NaN = NaN"
| "Math_max a b = (if js_le a b then b else a)"

fun Math_min :: "number \<Rightarrow> number \<Rightarrow> number" where
  "Math_min NaN b = NaN"
| "Math_min a NaN = NaN"
| "Math_min a b = (if js_le a b then a else b)"

fun Math_floor :: "number \<Rightarrow> number" where
  "Math_floor (Fin x) = Fin (of_int \<lfloor>x\<rfloor>)"
| "Math_floor a = a"

fun Math_ceil :: "number \<Rightarrow> number" where
  "Math_ceil (Fin x) = Fin (of_int \<lceil>x\<rceil>)"
| "Math_ceil a = a"

fun toFixed2 :: "number \<Rightarrow> number" where
  \<comment> \<open>\<open>Number(x.toFixed(2))\<close>. A value that is not finite is printed by name and read
      back unchanged. Of a finite one the sign is split off; a magnitude from \<open>10^21\<close> on
      is printed in full and read back unchanged; a smaller one is printed as \<open>n / 100\<close>
      for the integer \<open>n\<close> nearest to \<open>100 * x\<close> (the larger of two nearest), and the
      decimal string is read back as the nearest number\<close>
  "toFixed2 (Fin x) =
     (if 10 ^ 21 \<le> \<bar>x\<bar> then Fin x
      else round64 (sgn x * (of_int \<lfloor>\<bar>x\<bar> * 100 + 1/2\<rfloor> / 100)))"
| "toFixed2 a = a"

section \<open>src/util/tps.ts\<close>

record TPSCalculationParams =
  generationTimeSeconds :: number
  statusPollIntervalSeconds :: number
  imagesPerSession :: number
  averageThinkTimeSeconds :: "number option"
  safetyFactorPercent :: "number option"
  burstTrafficMultiplier :: "number option"
  maxWorkers :: number

record TPSMultipliers =
  runCallsPerSecondPerUser :: number
  statusCallsPerSecondPerUser :: number

record TPSMetrics =
  statusChecksPerGeneration :: number
  sessionDurationSeconds :: number
  runCallsPerSession :: number
  statusCallsPerSession :: number
  cycleTimeSeconds :: number
  maxSupportedUsers :: number
  workerLimitedTPS :: number

record TPSLimits =
  runTPS :: number
  statusTPS :: number
  runTPSBurst :: number
  statusTPSBurst :: number

record TPSDetails =
  multipliers :: TPSMultipliers
  metrics :: TPSMetrics
  safetyFactor :: "number option"
  burstTrafficFactor :: "number option"

record TPSCalculationResult =
  limits :: TPSLimits
  details :: TPSDetails
  inputs :: TPSCalculationParams

subsection \<open>The destructured parameters\<close>

text \<open>
  An optional field that is absent (\<open>None\<close>) takes the default of the parameter list:
  \<open>averageThinkTimeSeconds = 15\<close>, \<open>safetyFactorPercent = 0\<close>,
  \<open>burstTrafficMultiplier = 2\<close>.
\<close>

definition arg_averageThinkTimeSeconds :: "TPSCalculationParams \<Rightarrow> number" where
  "arg_averageThinkTimeSeconds p =
     (case averageThinkTimeSeconds p of None \<Rightarrow> Fin 15 | Some v \<Rightarrow> v)"

definition arg_safetyFactorPercent :: "TPSCalculationParams \<Rightarrow> number" where
  "arg_safetyFactorPercent p =
     (case safetyFactorPercent p of None \<Rightarrow> Fin 0 | Some v \<Rightarrow> v)"

definition arg_burstTrafficMultiplier :: "TPSCalculationParams \<Rightarrow> number" where
  "arg_burstTrafficMultiplier p =
     (case burstTrafficMultiplier p of None \<Rightarrow> Fin 2 | Some v \<Rightarrow> v)"

subsection \<open>The local constants of \<open>calculateTPS\<close>, in the order of the source\<close>

definition c_statusChecksPerGeneration :: "TPSCalculationParams \<Rightarrow> number" where
  "c_statusChecksPerGeneration p =
     fdiv (generationTimeSeconds p) (statusPollIntervalSeconds p)"

definition c_sessionDurationSeconds :: "TPSCalculationParams \<Rightarrow> number" where
  "c_sessionDurationSeconds p = fmul (imagesPerSession p) (generationTimeSeconds p)"

definition c_runCallsPerSession :: "TPSCalculationParams \<Rightarrow> number" where
  "c_runCallsPerSession p = imagesPerSession p"

definition c_statusCallsPerSession :: "TPSCalculationParams \<Rightarrow> number" where
  "c_statusCallsPerSession p = fmul (imagesPerSession p) (c_statusChecksPerGeneration p)"

definition c_runCallsPerSecondPerUser :: "TPSCalculationParams \<Rightarrow> number" where
  "c_runCallsPerSecondPerUser p =
     fdiv (c_runCallsPerSession p) (c_sessionDurationSeconds p)"

definition c_statusCallsPerSecondPerUser :: "TPSCalculationParams \<Rightarrow> number" where
  "c_statusCallsPerSecondPerUser p =
     fdiv (c_statusCallsPerSession p) (c_sessionDurationSeconds p)"

definition c_cycleTimeSeconds :: "TPSCalculationParams \<Rightarrow> number" where
  "c_cycleTimeSeconds p = fadd (generationTimeSeconds p) (arg_averageThinkTimeSeconds p)"

definition c_workerUtilizationRatio :: "TPSCalculationParams \<Rightarrow> number" where
  "c_workerUtilizationRatio p = fdiv (generationTimeSeconds p) (c_cycleTimeSeconds p)"

definition c_maxSupportedUsers :: "TPSCalculationParams \<Rightarrow> number" where
  "c_maxSupportedUsers p = fdiv (maxWorkers p) (c_workerUtilizationRatio p)"

definition c_workerLimitedTPS :: "TPSCalculationParams \<Rightarrow> number" where
  "c_workerLimitedTPS p = Math_max (fdiv (maxWorkers p) (generationTimeSeconds p)) (Fin 1)"

definition c_safetyMultiplier :: "TPSCalculationParams \<Rightarrow> number" where
  "c_safetyMultiplier p = fadd (Fin 1) (fdiv (arg_safetyFactorPercent p) (Fin 100))"

definition c_runTPS :: "TPSCalculationParams \<Rightarrow> number" where
  "c_runTPS p =
     Math_min (fmul (fmul (c_runCallsPerSecondPerUser p) (c_maxSupportedUsers p))
                    (c_safetyMultiplier p))
              (c_workerLimitedTPS p)"

definition c_statusTPS :: "TPSCalculationParams \<Rightarrow> number" where
  "c_statusTPS p =
     fmul (fmul (c_statusCallsPerSecondPerUser p) (c_maxSupportedUsers p))
          (c_safetyMultiplier p)"

definition c_runTPSBurst :: "TPSCalculationParams \<Rightarrow> number" where
  "c_runTPSBurst p =
     Math_min (c_workerLimitedTPS p) (fmul (c_runTPS p) (arg_burstTrafficMultiplier p))"

definition c_statusTPSBurst :: "TPSCalculationParams \<Rightarrow> number" where
  "c_statusTPSBurst p = fmul (c_statusTPS p) (arg_burstTrafficMultiplier p)"

subsection \<open>The returned object\<close>

definition calculateTPS :: "TPSCalculationParams \<Rightarrow> TPSCalculationResult" where
  "calculateTPS p =
     \<lparr> limits =
         \<lparr> runTPS = Math_max (Fin 1) (toFixed2 (c_runTPS p)),
           statusTPS = Math_max (Fin 1) (toFixed2 (c_statusTPS p)),
           runTPSBurst = Math_max (Fin 1) (Math_floor (c_runTPSBurst p)),
           statusTPSBurst = Math_max (Fin 1) (Math_floor (c_statusTPSBurst p)) \<rparr>,
       details =
         \<lparr> multipliers =
             \<lparr> runCallsPerSecondPerUser = c_runCallsPerSecondPerUser p,
               statusCallsPerSecondPerUser = c_statusCallsPerSecondPerUser p \<rparr>,
           metrics =
             \<lparr> statusChecksPerGeneration = c_statusChecksPerGeneration p,
               sessionDurationSeconds = c_sessionDurationSeconds p,
               runCallsPerSession = c_runCallsPerSession p,
               statusCallsPerSession = c_statusCallsPerSession p,
               cycleTimeSeconds = c_cycleTimeSeconds p,
               maxSupportedUsers = c_maxSupportedUsers p,
               workerLimitedTPS = c_workerLimitedTPS p \<rparr>,
           safetyFactor = Some (arg_safetyFactorPercent p),
           burstTrafficFactor = Some (arg_burstTrafficMultiplier p) \<rparr>,
       inputs =
         \<lparr> generationTimeSeconds = generationTimeSeconds p,
           statusPollIntervalSeconds = statusPollIntervalSeconds p,
           imagesPerSession = imagesPerSession p,
           averageThinkTimeSeconds = Some (arg_averageThinkTimeSeconds p),
           safetyFactorPercent = Some (arg_safetyFactorPercent p),
           burstTrafficMultiplier = Some (arg_burstTrafficMultiplier p),
           maxWorkers = maxWorkers p \<rparr> \<rparr>"

subsection \<open>Valid inputs\<close>

text \<open>
  The inputs the specification calls valid: finite numbers, with
  \<open>generationTimeSeconds\<close>, \<open>statusPollIntervalSeconds\<close>, \<open>imagesPerSession\<close> and
  \<open>maxWorkers\<close> positive, \<open>averageThinkTimeSeconds\<close> and \<open>safetyFactorPercent\<close> not
  negative, and \<open>burstTrafficMultiplier\<close> at least 1.
\<close>

fun finite_above :: "real \<Rightarrow> number \<Rightarrow> bool" where
  "finite_above c (Fin x) = (c < x)"
| "finite_above c a = False"

fun finite_from :: "real \<Rightarrow> number \<Rightarrow> bool" where
  "finite_from c (Fin x) = (c \<le> x)"
| "finite_from c a = False"

definition valid_params :: "TPSCalculationParams \<Rightarrow> bool" where
  "valid_params p \<longleftrightarrow>
     finite_above 0 (generationTimeSeconds p) \<and> finite_above 0 (statusPollIntervalSeconds p) \<and>
     finite_above 0 (imagesPerSession p) \<and> finite_above 0 (maxWorkers p) \<and>
     finite_from 0 (arg_averageThinkTimeSeconds p) \<and> finite_from 0 (arg_safetyFactorPercent p) \<and>
     finite_from 1 (arg_burstTrafficMultiplier p)"

subsection \<open>Notions used in the proofs\<close>

definition nn_or_NaN :: "number \<Rightarrow> bool" where
  \<comment> \<open>\<open>NaN\<close>, or a number that is not negative\<close>
  "nn_or_NaN a \<longleftrightarrow> a = NaN \<or> js_le (Fin 0) a"

definition le_or_NaN :: "number \<Rightarrow> number \<Rightarrow> bool" where
  \<comment> \<open>\<open>a <= b\<close>, unless one of them is \<open>NaN\<close>\<close>
  "le_or_NaN a b \<longleftrightarrow> a = NaN \<or> b = NaN \<or> js_le a b"

fun is_double :: "number \<Rightarrow> bool" where
  \<comment> \<open>a real that rounding leaves as it is\<close>
  "is_double (Fin x) = (round64 x = Fin x)"
| "is_double a = True"

definition exact_products :: "TPSCalculationParams \<Rightarrow> bool" where
  \<comment> \<open>the two products by \<open>imagesPerSession\<close> are finite and were not changed by rounding\<close>
  "exact_products p =
     (case (imagesPerSession p, generationTimeSeconds p, c_statusChecksPerGeneration p) of
        (Fin n, Fin g, Fin s) \<Rightarrow>
          c_sessionDurationSeconds p = Fin (n * g) \<and> c_statusCallsPerSession p = Fin (n * s)
      | _ \<Rightarrow> False)"

fun finite_between :: "real \<Rightarrow> real \<Rightarrow> number \<Rightarrow> bool" where
  "finite_between lo hi (Fin x) = (lo \<le> x \<and> x \<le> hi)"
| "finite_between lo hi a = False"

definition in_range :: "TPSCalculationParams \<Rightarrow> bool" where
  \<comment> \<open>valid inputs between \<open>2 powi (-100)\<close> and \<open>2 powi 100\<close>, about \<open>1.27e30\<close>\<close>
  "in_range p \<longleftrightarrow>
     finite_between (2 powi (- 100)) (2 powi 100) (generationTimeSeconds p) \<and>
     finite_between (2 powi (- 100)) (2 powi 100) (statusPollIntervalSeconds p) \<and>
     finite_between (2 powi (- 100)) (2 powi 100) (imagesPerSession p) \<and>
     finite_between (2 powi (- 100)) (2 powi 100) (maxWorkers p) \<and>
     finite_between 0 (2 powi 100) (arg_averageThinkTimeSeconds p) \<and>
     finite_between 0 (2 powi 100) (arg_safetyFactorPercent p) \<and>
     finite_between 1 (2 powi 100) (arg_burstTrafficMultiplier p)"

definition band :: "int \<Rightarrow> number \<Rightarrow> bool" where
  "band k a = finite_between (2 powi (- k)) (2 powi k) a"

subsection \<open>Concrete workloads\<close>

definition scenario_params :: TPSCalculationParams where
  "scenario_params =
     \<lparr> generationTimeSeconds = Fin 30, statusPollIntervalSeconds = Fin 5,
       imagesPerSession = Fin 4, averageThinkTimeSeconds = Some (Fin 15),
       safetyFactorPercent = Some (Fin 0), burstTrafficMultiplier = Some (Fin 2),
       maxWorkers = Fin 10 \<rparr>"

definition ceiling_params :: TPSCalculationParams where
  "ceiling_params =
     \<lparr> generationTimeSeconds = Fin 3, statusPollIntervalSeconds = Fin 1,
       imagesPerSession = Fin 1, averageThinkTimeSeconds = None,
       safetyFactorPercent = None, burstTrafficMultiplier = None, maxWorkers = Fin 8 \<rparr>"

definition slow_poll_params :: TPSCalculationParams where
  "slow_poll_params =
     \<lparr> generationTimeSeconds = Fin 30, statusPollIntervalSeconds = Fin 100,
       imagesPerSession = Fin 4, averageThinkTimeSeconds = None,
       safetyFactorPercent = None, burstTrafficMultiplier = None, maxWorkers = Fin 10 \<rparr>"

definition unit_burst_params :: TPSCalculationParams where
  "unit_burst_params =
     \<lparr> generationTimeSeconds = Fin 1000, statusPollIntervalSeconds = Fin 1000,
       imagesPerSession = Fin 1, averageThinkTimeSeconds = Some (Fin 0),
       safetyFactorPercent = None, burstTrafficMultiplier = Some (Fin 1),
       maxWorkers = Fin 1999 \<rparr>"

definition session_params :: TPSCalculationParams where
  "session_params =
     \<lparr> generationTimeSeconds = Fin 38, statusPollIntervalSeconds = Fin 5,
       imagesPerSession = Fin 5, averageThinkTimeSeconds = Some (Fin 57),
       safetyFactorPercent = None, burstTrafficMultiplier = None, maxWorkers = Fin 53 \<rparr>"

text \<open>
  Two large numbers, both powers of two and so exactly representable: \<open>big\<close> is about
  \<open>4.15e180\<close> and \<open>huge\<close> about \<open>8.99e307\<close>. The product \<open>big * big\<close> is beyond the
  largest number.
\<close>

definition big :: real where
  "big = 2 powi 600"

definition huge :: real where
  "huge = 2 powi 1023"

definition overflow_params :: TPSCalculationParams where
  "overflow_params =
     \<lparr> generationTimeSeconds = Fin big, statusPollIntervalSeconds = Fin 1,
       imagesPerSession = Fin big, averageThinkTimeSeconds = Some (Fin big),
       safetyFactorPercent = None, burstTrafficMultiplier = None, maxWorkers = Fin 1 \<rparr>"


section \<open>lambdas/get-upload-url/main.js\<close>

text \<open>
  The handler is a function of the request and of what it reads from outside: the
  bucket name, the clock and \<open>createPresignedPost\<close>, which either throws or returns
  the URL and the form fields. The request enters as the outcome of
  \<open>JSON.parse(event.body || "{}")\<close>: \<open>Inl\<close> when the text is not JSON, otherwise the
  parsed value, which is never \<open>undefined\<close> (an absent or empty body parses as the empty
  object). An object is the list of its properties, each name once. Everything from
  \<open>JSON.parse\<close> on is inside the \<open>try\<close> block, so each throw becomes the response of the
  \<open>catch\<close> block. The result pairs the response with the calls of
  \<open>createPresignedPost\<close> that were made. The file key, the string made of \<open>Date.now()\<close>,
  a dash and \<open>fileName\<close>, is kept as its two parts; whether building it throws is
  modelled. The CORS headers, which no branch depends on, are left out.
\<close>

datatype js_value = JUndefined | JNull | JBool bool | JNum real | JStr string
  | JArr "js_value list" | JObj "(string \<times> js_value) list"

datatype js_error = SyntaxError string | TypeError string | Error string

fun message :: "js_error \<Rightarrow> string" where
  "message (SyntaxError m) = m"
| "message (TypeError m) = m"
| "message (Error m) = m"

datatype file_key = FileKey nat js_value

datatype condition = ContentLengthRange nat nat | EqCondition string js_value

record post_params =
  Bucket :: "string option"
  Key :: file_key
  Conditions :: "condition list"
  Fields :: "(string \<times> js_value) list"
  Expires :: nat

record presigned_post =
  url :: string
  form_fields :: "(string \<times> string) list"

record event =
  parsed_body :: "js_error + js_value"

record env =
  S3_BUCKET_NAME :: "string option"
  Date_now :: nat
  createPresignedPost :: "post_params \<Rightarrow> js_error + presigned_post"

datatype response_body =
  ErrorBody string "string option"
  | UploadBody string "(string \<times> string) list" file_key

record response =
  statusCode :: nat
  body :: response_body

definition ALLOWED_FILE_TYPES :: "string list" where
  "ALLOWED_FILE_TYPES = [''image/png'', ''image/jpeg'']"

definition FIVE_MIB_BYTES :: nat where
  "FIVE_MIB_BYTES = 5 * 1024 * 1024"

definition MAX_FILE_SIZE :: nat where
  "MAX_FILE_SIZE = FIVE_MIB_BYTES"

text \<open>
  Reading a property throws on \<open>null\<close> and \<open>undefined\<close>; on a string, number, boolean
  or array the names read here are not defined. \<open>!v\<close> is the negation of \<open>truthy v\<close>,
  and \<open>includes\<close> finds a value only if it is one of the strings of the array.
\<close>

fun read_property :: "js_value \<Rightarrow> string \<Rightarrow> js_value" where
  \<comment> \<open>the value of \<open>v.k\<close> for a \<open>v\<close> that is neither \<open>null\<close> nor \<open>undefined\<close>\<close>
  "read_property (JObj kvs) k = (case map_of kvs k of None \<Rightarrow> JUndefined | Some v \<Rightarrow> v)"
| "read_property v k = JUndefined"

definition get_property :: "js_value \<Rightarrow> string \<Rightarrow> js_error + js_value" where
  "get_property v k =
     (if v = JNull then
        Inl (TypeError (''Cannot read properties of null (reading '' @ [CHR 0x27] @ k
                          @ [CHR 0x27] @ '')''))
      else if v = JUndefined then
        Inl (TypeError (''Cannot read properties of undefined (reading '' @ [CHR 0x27] @ k
                          @ [CHR 0x27] @ '')''))
      else Inr (read_property v k))"

fun truthy :: "js_value \<Rightarrow> bool" where
  "truthy JUndefined = False"
| "truthy JNull = False"
| "truthy (JBool b) = b"
| "truthy (JNum n) = (n \<noteq> 0)"
| "truthy (JStr s) = (s \<noteq> [])"
| "truthy (JArr vs) = True"
| "truthy (JObj kvs) = True"

fun array_includes :: "string list \<Rightarrow> js_value \<Rightarrow> bool" where
  "array_includes xs (JStr s) = (s \<in> set xs)"
| "array_includes xs v = False"

text \<open>
  The template string converts \<open>fileName\<close> to a string. For an object that is a call of
  its \<open>toString\<close>, then of its \<open>valueOf\<close>: a parsed object with a property \<open>toString\<close> of
  its own has no callable one, and the inherited \<open>valueOf\<close> returns the object, so the
  conversion throws. An array converts its elements, \<open>null\<close> as the empty string.
\<close>

fun string_conversion_throws :: "js_value \<Rightarrow> bool" where
  "string_conversion_throws (JObj kvs) = (map_of kvs ''toString'' \<noteq> None)"
| "string_conversion_throws (JArr vs) = (\<exists>v \<in> set vs. string_conversion_throws v)"
| "string_conversion_throws v = False"

definition bad_request :: "string \<Rightarrow> response" where
  "bad_request msg = \<lparr> statusCode = 400, body = ErrorBody msg None \<rparr>"

definition server_error :: "js_error \<Rightarrow> response" where
  "server_error e =
     \<lparr> statusCode = 500, body = ErrorBody ''Failed to generate upload URL'' (Some (message e)) \<rparr>"

definition make_post_params :: "env \<Rightarrow> js_value \<Rightarrow> js_value \<Rightarrow> post_params" where
  "make_post_params en fileName fileType =
     \<lparr> Bucket = S3_BUCKET_NAME en,
       Key = FileKey (Date_now en) fileName,
       Conditions = [ContentLengthRange 0 MAX_FILE_SIZE, EqCondition ''$Content-Type'' fileType],
       Fields = [(''Content-Type'', fileType)],
       Expires = 180 \<rparr>"

definition handler :: "env \<Rightarrow> event \<Rightarrow> response \<times> post_params list" where
  "handler en ev =
     (case parsed_body ev of
        Inl e \<Rightarrow> (server_error e, [])
      | Inr b \<Rightarrow>
          (case get_property b ''fileName'' of
             Inl e \<Rightarrow> (server_error e, [])
           | Inr fileName \<Rightarrow>
               (case get_property b ''fileType'' of
                  Inl e \<Rightarrow> (server_error e, [])
                | Inr fileType \<Rightarrow>
                    if \<not> truthy fileName \<or> \<not> truthy fileType then
                      (bad_request ''fileName and fileType are required'', [])
                    else if \<not> array_includes ALLOWED_FILE_TYPES fileType then
                      (bad_request ''Invalid file type. Allowed types: image/png, image/jpeg'', [])
                    else if string_conversion_throws fileName then
                      (server_error (TypeError ''Cannot convert object to primitive value''), [])
                    else
                      let postParams = make_post_params en fileName fileType in
                      (case createPresignedPost en postParams of
                         Inl e \<Rightarrow> (server_error e, [postParams])
                       | Inr post \<Rightarrow>
                           (\<lparr> statusCode = 200,
                              body = UploadBody (url post) (form_fields post) (Key postParams) \<rparr>,
                            [postParams])))))"

definition issues_authorization :: "response \<times> post_params list \<Rightarrow> bool" where
  "issues_authorization out =
     (case body (fst out) of UploadBody u f k \<Rightarrow> True | ErrorBody m d \<Rightarrow> False)"

definition client_error :: "response \<Rightarrow> bool" where
  "client_error r \<longleftrightarrow> 400 \<le> statusCode r \<and> statusCode r < 500"

subsection \<open>Concrete requests\<close>

definition example_env :: env where
  "example_env =
     \<lparr> S3_BUCKET_NAME = Some ''uploads'', Date_now = 1700000000000,
       createPresignedPost = (\<lambda>pp. Inr \<lparr> url = ''https://s3.example/uploads'', form_fields = [] \<rparr>) \<rparr>"

definition failing_env :: env where
  "failing_env = example_env \<lparr> createPresignedPost := (\<lambda>pp. Inl (Error ''AccessDenied'')) \<rparr>"

definition unparseable_event :: event where
  "unparseable_event = \<lparr> parsed_body = Inl (SyntaxError ''Unexpected end of JSON input'') \<rparr>"

definition null_event :: event where
  "null_event = \<lparr> parsed_body = Inr JNull \<rparr>"

definition png_event :: event where
  "png_event = \<lparr> parsed_body =
     Inr (JObj [(''fileName'', JStr ''a.png''), (''fileType'', JStr ''image/png'')]) \<rparr>"

definition gif_event :: event where
  "gif_event = \<lparr> parsed_body =
     Inr (JObj [(''fileName'', JStr ''a.gif''), (''fileType'', JStr ''image/gif'')]) \<rparr>"

definition nameless_event :: event where
  "nameless_event = \<lparr> parsed_body = Inr (JObj [(''fileType'', JStr ''image/png'')]) \<rparr>"

definition object_name_event :: event where
  "object_name_event = \<lparr> parsed_body =
     Inr (JObj [(''fileName'', JObj [(''toString'', JNum 1)]),
                (''fileType'', JStr ''image/png'')]) \<rparr>"


section \<open>Rounding with an unbounded exponent\<close>

lemma expo_bounds_ge1:
  assumes "1 \<le> x"
  shows "2 powi expo x \<le> x \<and> x < 2 powi (expo x + 1)"
proof -
  let ?n = "\<lfloor>x\<rfloor>"
  have n: "0 < ?n" using assms by linarith
  from bitlen_bounds[OF n] have b: "2 ^ nat (bitlen ?n - 1) \<le> ?n" "?n < 2 ^ nat (bitlen ?n)"
    by auto
  have bl: "1 \<le> bitlen ?n" using n bitlen_eq_zero_iff[of ?n] bitlen_nonneg[of ?n] by linarith
  have e: "expo x = bitlen ?n - 1" using assms by (simp add: expo_def)
  have "(2::real) powi (bitlen ?n - 1) = 2 ^ nat (bitlen ?n - 1)"
    using bl by (simp add: power_int_def)
  moreover have "(2::real) ^ nat (bitlen ?n - 1) \<le> of_int ?n"
    using b(1) by (metis of_int_le_iff of_int_numeral of_int_power)
  moreover have "of_int ?n \<le> x" by simp
  ultimately have lo: "2 powi expo x \<le> x" unfolding e by linarith
  have pw: "(2::real) powi (bitlen ?n) = 2 ^ nat (bitlen ?n)"
    using bl by (simp add: power_int_def)
  have "of_int (?n + 1) \<le> (2::real) ^ nat (bitlen ?n)"
    using b(2) by (metis zless_imp_add1_zle of_int_le_iff of_int_numeral of_int_power)
  moreover have "x < of_int (?n + 1)" by linarith
  ultimately have "x < 2 ^ nat (bitlen ?n)" by linarith
  then have hi: "x < 2 powi (expo x + 1)" unfolding e using pw by simp
  show ?thesis using lo hi by simp
qed

lemma expo_bounds_lt1:
  assumes "0 < x" "x < 1"
  shows "2 powi expo x \<le> x \<and> x < 2 powi (expo x + 1)"
proof -
  let ?y = "1 / x"
  let ?m = "\<lceil>?y\<rceil> - 1"
  have y: "1 < ?y" using assms by simp
  have m: "0 < ?m" using y by linarith
  have my: "of_int ?m < ?y" "?y \<le> of_int ?m + 1" by linarith+
  from bitlen_bounds[OF m] have b: "2 ^ nat (bitlen ?m - 1) \<le> ?m" "?m < 2 ^ nat (bitlen ?m)"
    by auto
  have bl: "1 \<le> bitlen ?m" using m bitlen_eq_zero_iff[of ?m] bitlen_nonneg[of ?m] by linarith
  have e: "expo x = - bitlen ?m" using assms by (simp add: expo_def)
  have p1: "(2::real) powi (- bitlen ?m) = 1 / 2 ^ nat (bitlen ?m)"
    using bl by (simp add: power_int_def field_simps)
  have p2: "(2::real) powi (- bitlen ?m + 1) = 1 / 2 ^ nat (bitlen ?m - 1)"
    using bl by (simp add: power_int_def field_simps nat_diff_distrib)
  have "of_int (?m + 1) \<le> (2::real) ^ nat (bitlen ?m)"
    using b(2) by (metis zless_imp_add1_zle of_int_le_iff of_int_numeral of_int_power)
  then have "?y \<le> 2 ^ nat (bitlen ?m)" using my(2) by linarith
  then have lo: "1 / 2 ^ nat (bitlen ?m) \<le> x"
    using assms(1) by (simp add: field_simps)
  have "(2::real) ^ nat (bitlen ?m - 1) \<le> of_int ?m"
    using b(1) by (metis of_int_le_iff of_int_numeral of_int_power)
  then have "2 ^ nat (bitlen ?m - 1) < ?y" using my(1) by linarith
  then have hi: "x < 1 / 2 ^ nat (bitlen ?m - 1)"
    using assms(1) by (simp add: field_simps)
  show ?thesis using lo hi e p1 p2 by simp
qed

lemma expo_bounds:
  "0 < x \<Longrightarrow> 2 powi expo x \<le> x \<and> x < 2 powi (expo x + 1)"
  using expo_bounds_ge1[of x] expo_bounds_lt1[of x] by (cases "1 \<le> x") auto

lemma powi_two_mono: "a \<le> b \<Longrightarrow> (2::real) powi a \<le> 2 powi b"
  by (rule power_int_increasing) simp_all

lemma expo_unique:
  assumes "2 powi e \<le> x" "x < 2 powi (e + 1)"
  shows "expo x = e"
proof -
  have x: "0 < x" using assms(1) by (smt (verit) zero_less_power_int)
  note b = expo_bounds[OF x]
  have "\<not> expo x + 1 \<le> e"
  proof
    assume "expo x + 1 \<le> e"
    then have "(2::real) powi (expo x + 1) \<le> 2 powi e" by (rule powi_two_mono)
    then show False using b assms by linarith
  qed
  moreover have "\<not> e + 1 \<le> expo x"
  proof
    assume "e + 1 \<le> expo x"
    then have "(2::real) powi (e + 1) \<le> 2 powi expo x" by (rule powi_two_mono)
    then show False using b assms by linarith
  qed
  ultimately show ?thesis by linarith
qed

lemma expo_mono: "0 < x \<Longrightarrow> x \<le> y \<Longrightarrow> expo x \<le> expo y"
proof (rule ccontr)
  assume x: "0 < x" and xy: "x \<le> y" and n: "\<not> expo x \<le> expo y"
  then have "expo y + 1 \<le> expo x" by simp
  then have "(2::real) powi (expo y + 1) \<le> 2 powi expo x" by (rule powi_two_mono)
  moreover have "y < 2 powi (expo y + 1)" using expo_bounds[of y] x xy by simp
  moreover have "2 powi expo x \<le> x" using expo_bounds[OF x] by simp
  ultimately show False using xy by linarith
qed

lemma rne_bounds: "\<lfloor>z\<rfloor> \<le> rne z \<and> rne z \<le> \<lfloor>z\<rfloor> + 1"
  by (simp add: rne_def Let_def)

lemma rne_of_int [simp]: "rne (of_int k) = k"
  by (simp add: rne_def Let_def)

lemma rne_mono:
  assumes "z \<le> z'"
  shows "rne z \<le> rne z'"
proof (cases "\<lfloor>z\<rfloor> = \<lfloor>z'\<rfloor>")
  case True
  then show ?thesis using assms by (auto simp: rne_def Let_def)
next
  case False
  then have "\<lfloor>z\<rfloor> + 1 \<le> \<lfloor>z'\<rfloor>" using assms floor_mono[OF assms] by linarith
  then show ?thesis using rne_bounds[of z] rne_bounds[of z'] by linarith
qed

lemma rne_ge: "of_int k \<le> z \<Longrightarrow> k \<le> rne z"
  using rne_mono[of "of_int k" z] by simp

lemma rne_le: "z \<le> of_int k \<Longrightarrow> rne z \<le> k"
  using rne_mono[of z "of_int k"] by simp

lemma fl_pos: "0 < x \<Longrightarrow> fl x = of_int (rne (x / 2 powi (expo x - 52))) * 2 powi (expo x - 52)"
  by (simp add: fl_def Let_def)

lemma fl_minus: "fl (- x) = - fl x"
  by (simp add: fl_def Let_def)

lemma fl_zero [simp]: "fl 0 = 0"
  by (simp add: fl_def)

lemma powi_split: "(2::real) powi e = 2 ^ 52 * 2 powi (e - 52)"
proof -
  have "(2::real) powi (52 + (e - 52)) = 2 powi 52 * 2 powi (e - 52)"
    by (rule power_int_add) simp
  then show ?thesis by simp
qed

lemma powi_split1: "(2::real) powi (e + 1) = 2 ^ 53 * 2 powi (e - 52)"
proof -
  have "(2::real) powi (53 + (e - 52)) = 2 powi 53 * 2 powi (e - 52)"
    by (rule power_int_add) simp
  then show ?thesis by (simp add: add.commute)
qed

lemma scaled_range:
  assumes "0 < x"
  shows "2 ^ 52 \<le> x / 2 powi (expo x - 52)" "x / 2 powi (expo x - 52) < 2 ^ 53"
proof -
  have u: "(0::real) < 2 powi (expo x - 52)" by simp
  from expo_bounds[OF assms] have b: "2 powi expo x \<le> x" "x < 2 powi (expo x + 1)" by auto
  have "(2::real) ^ 52 * 2 powi (expo x - 52) \<le> x" using b(1) powi_split[of "expo x"] by simp
  then show "2 ^ 52 \<le> x / 2 powi (expo x - 52)"
    using u by (simp add: pos_le_divide_eq)
  have "x < (2::real) ^ 53 * 2 powi (expo x - 52)" using b(2) powi_split1[of "expo x"] by simp
  then show "x / 2 powi (expo x - 52) < 2 ^ 53"
    using u by (simp add: pos_divide_less_eq)
qed

lemma rne_scaled_range:
  assumes "0 < x"
  shows "2 ^ 52 \<le> rne (x / 2 powi (expo x - 52))" "rne (x / 2 powi (expo x - 52)) \<le> 2 ^ 53"
proof -
  note r = scaled_range[OF assms]
  show "2 ^ 52 \<le> rne (x / 2 powi (expo x - 52))"
    by (rule rne_ge) (use r(1) in simp)
  show "rne (x / 2 powi (expo x - 52)) \<le> 2 ^ 53"
    by (rule rne_le) (use r(2) in simp)
qed

lemma fl_pos_bounds:
  assumes "0 < x"
  shows "2 powi expo x \<le> fl x" "fl x \<le> 2 powi (expo x + 1)"
proof -
  let ?u = "(2::real) powi (expo x - 52)"
  let ?m = "rne (x / ?u)"
  have u: "0 < ?u" by simp
  note r = rne_scaled_range[OF assms]
  have "(2::real) ^ 52 \<le> of_int ?m" using r(1) by (metis of_int_le_iff of_int_numeral of_int_power)
  then have "2 ^ 52 * ?u \<le> of_int ?m * ?u" using u by (simp only: mult_le_cancel_right_pos)
  then show "2 powi expo x \<le> fl x"
    using powi_split[of "expo x"] fl_pos[OF assms] by simp
  have "of_int ?m \<le> (2::real) ^ 53" using r(2) by (metis of_int_le_iff of_int_numeral of_int_power)
  then have "of_int ?m * ?u \<le> 2 ^ 53 * ?u" using u by (simp only: mult_le_cancel_right_pos)
  then show "fl x \<le> 2 powi (expo x + 1)"
    using powi_split1[of "expo x"] fl_pos[OF assms] by simp
qed

lemma fl_pos_gt0: "0 < x \<Longrightarrow> 0 < fl x"
  using fl_pos_bounds(1)[of x] by (smt (verit) zero_less_power_int)

lemma fl_mono_pos:
  assumes "0 < x" "x \<le> y"
  shows "fl x \<le> fl y"
proof (cases "expo x = expo y")
  case True
  have y: "0 < y" using assms by simp
  let ?u = "(2::real) powi (expo y - 52)"
  have "x / ?u \<le> y / ?u" using assms(2) by (simp add: divide_right_mono)
  then have "rne (x / ?u) \<le> rne (y / ?u)" by (rule rne_mono)
  then have "(of_int (rne (x / ?u)) :: real) \<le> of_int (rne (y / ?u))" by simp
  then have "of_int (rne (x / ?u)) * ?u \<le> of_int (rne (y / ?u)) * ?u"
    by (simp only: mult_le_cancel_right_pos zero_less_power_int zero_less_numeral)
  then show ?thesis using fl_pos[OF assms(1)] fl_pos[OF y] True by simp
next
  case False
  have y: "0 < y" using assms by simp
  have "expo x \<le> expo y" using expo_mono[OF assms] .
  then have "expo x + 1 \<le> expo y" using False by simp
  then have "(2::real) powi (expo x + 1) \<le> 2 powi expo y" by (rule powi_two_mono)
  then show ?thesis using fl_pos_bounds(2)[OF assms(1)] fl_pos_bounds(1)[OF y] by linarith
qed

lemma fl_nonneg: "0 \<le> x \<Longrightarrow> 0 \<le> fl x"
  using fl_pos_gt0[of x] by (cases "x = 0") auto

lemma fl_mono: "x \<le> y \<Longrightarrow> fl x \<le> fl y"
proof -
  assume xy: "x \<le> y"
  consider "0 < x" | "x \<le> 0" "0 \<le> y" | "y < 0" by linarith
  then show ?thesis
  proof cases
    case 1
    then show ?thesis using xy by (rule fl_mono_pos)
  next
    case 2
    have "fl x \<le> 0" using fl_nonneg[of "- x"] 2(1) by (simp add: fl_minus)
    moreover have "0 \<le> fl y" using 2(2) by (rule fl_nonneg)
    ultimately show ?thesis by linarith
  next
    case 3
    have "fl (- y) \<le> fl (- x)" using 3 xy by (intro fl_mono_pos) auto
    then show ?thesis by (simp add: fl_minus)
  qed
qed

lemma fl_exact:
  assumes "2 ^ 52 \<le> m" "m < 2 ^ 53"
  shows "fl (of_int m * 2 powi k) = of_int m * 2 powi k"
proof -
  let ?x = "of_int m * (2::real) powi k"
  have m0: "(0::real) < of_int m" using assms(1) by (smt (verit) of_int_0_less_iff zero_less_power)
  have x: "0 < ?x" using m0 by simp
  have lo: "(2::real) ^ 52 \<le> of_int m" using assms(1) by (metis of_int_le_iff of_int_numeral of_int_power)
  have hi: "of_int m < (2::real) ^ 53" using assms(2) by (metis of_int_less_iff of_int_numeral of_int_power)
  have "(2::real) powi (k + 52) = 2 ^ 52 * 2 powi k" by (simp add: power_int_add)
  then have a: "2 powi (k + 52) \<le> ?x" using lo by simp
  have "(2::real) powi (k + 52 + 1) = 2 ^ 53 * 2 powi k" by (simp add: power_int_add)
  then have b: "?x < 2 powi (k + 52 + 1)" using hi by simp
  have e: "expo ?x = k + 52" using a b by (rule expo_unique)
  show ?thesis using fl_pos[OF x] by (simp add: e)
qed

lemma fl_pow2: "fl (2 powi k) = 2 powi k"
proof -
  have "fl (of_int (2 ^ 52) * 2 powi (k - 52)) = of_int (2 ^ 52) * 2 powi (k - 52)"
    by (rule fl_exact) simp_all
  moreover have "of_int (2 ^ 52) * (2::real) powi (k - 52) = 2 powi k"
    using powi_split[of k] by simp
  ultimately show ?thesis by simp
qed

lemma fl_idem_pos:
  assumes "0 < x"
  shows "fl (fl x) = fl x"
proof -
  let ?u = "(2::real) powi (expo x - 52)"
  let ?m = "rne (x / ?u)"
  note r = rne_scaled_range[OF assms]
  show ?thesis
  proof (cases "?m < 2 ^ 53")
    case True
    have "fl (of_int ?m * ?u) = of_int ?m * ?u" using r(1) True by (rule fl_exact)
    then show ?thesis using fl_pos[OF assms] by simp
  next
    case False
    then have "?m = 2 ^ 53" using r(2) by linarith
    then have "fl x = 2 powi (expo x + 1)"
      using fl_pos[OF assms] powi_split1[of "expo x"] by simp
    then show ?thesis by (simp add: fl_pow2)
  qed
qed

lemma fl_idem [simp]: "fl (fl x) = fl x"
proof -
  consider "0 < x" | "x = 0" | "x < 0" by linarith
  then show ?thesis
  proof cases
    case 1 then show ?thesis by (rule fl_idem_pos)
  next
    case 2 then show ?thesis by simp
  next
    case 3
    then have "fl (fl (- x)) = fl (- x)" by (intro fl_idem_pos) simp
    then show ?thesis by (simp add: fl_minus)
  qed
qed

lemma fl_one [simp]: "fl 1 = 1"
  using fl_pow2[of 0] by simp

lemma fl_1e21 [simp]: "fl (10 ^ 21) = 10 ^ 21"
  by code_simp

section \<open>Rounding to binary64\<close>

lemma min_subnormal_pos: "0 < min_subnormal"
  by (simp add: min_subnormal_def)

lemma min_normal_eq: "min_normal = 2 ^ 52 * min_subnormal"
  unfolding min_normal_def min_subnormal_def using powi_split[of "- 1022"] by simp

lemma min_normal_pos: "0 < min_normal"
  unfolding min_normal_def by (rule zero_less_power_int) simp

lemma fl_min_normal: "fl min_normal = min_normal"
  unfolding min_normal_def by (rule fl_pow2)

lemma fl_overflow_threshold: "fl overflow_threshold = overflow_threshold"
  unfolding overflow_threshold_def by (rule fl_pow2)

lemma min_normal_le_pow2: "- 1022 \<le> k \<Longrightarrow> min_normal \<le> 2 powi k"
  unfolding min_normal_def by (rule powi_two_mono)

lemma pow2_lt_overflow: "k < 1024 \<Longrightarrow> 2 powi k < overflow_threshold"
  unfolding overflow_threshold_def by (rule power_int_strict_increasing) simp_all

lemma overflow_threshold_pos: "0 < overflow_threshold"
  unfolding overflow_threshold_def by (rule zero_less_power_int) simp

lemma rm_sub: "a < min_normal \<Longrightarrow>
    round_magnitude a = of_int (rne (a / min_subnormal)) * min_subnormal"
  by (simp add: round_magnitude_def)

lemma rm_normal: "min_normal \<le> a \<Longrightarrow> round_magnitude a = fl a"
  by (simp add: round_magnitude_def)

lemma rm_sub_le:
  assumes "0 \<le> a" "a < min_normal"
  shows "0 \<le> round_magnitude a" "round_magnitude a \<le> min_normal"
proof -
  let ?u = "min_subnormal"
  note u = min_subnormal_pos
  have "of_int 0 \<le> a / ?u" using assms(1) u by simp
  then have "0 \<le> rne (a / ?u)" by (rule rne_ge)
  then have "(0::real) \<le> of_int (rne (a / ?u))" by simp
  then have "0 \<le> of_int (rne (a / ?u)) * ?u" using u by (simp add: mult_nonneg_nonneg)
  then show "0 \<le> round_magnitude a" using rm_sub[OF assms(2)] by simp
  have "a < 2 ^ 52 * ?u" using assms(2) min_normal_eq by simp
  then have "a / ?u \<le> 2 ^ 52" using u by (simp add: pos_divide_le_eq)
  then have "a / ?u \<le> of_int (2 ^ 52)" by simp
  then have "rne (a / ?u) \<le> 2 ^ 52" by (rule rne_le)
  then have "(of_int (rne (a / ?u)) :: real) \<le> of_int (2 ^ 52)" by (simp only: of_int_le_iff)
  then have "of_int (rne (a / ?u)) * ?u \<le> of_int (2 ^ 52) * ?u"
    using u by (simp only: mult_le_cancel_right_pos)
  then show "round_magnitude a \<le> min_normal"
    using rm_sub[OF assms(2)] min_normal_eq by simp
qed

lemma rm_normal_ge:
  assumes "min_normal \<le> a"
  shows "min_normal \<le> round_magnitude a"
  using fl_mono[OF assms] rm_normal[OF assms] by (simp add: fl_min_normal)

lemma rm_nonneg: "0 \<le> a \<Longrightarrow> 0 \<le> round_magnitude a"
  using rm_sub_le(1)[of a] fl_nonneg[of a] by (cases "a < min_normal") (simp_all add: rm_normal)

lemma rm_mono:
  assumes "0 \<le> a" "a \<le> b"
  shows "round_magnitude a \<le> round_magnitude b"
proof -
  consider "b < min_normal" | "a < min_normal" "min_normal \<le> b" | "min_normal \<le> a"
    by linarith
  then show ?thesis
  proof cases
    case 1
    then have a: "a < min_normal" using assms(2) by linarith
    have "a / min_subnormal \<le> b / min_subnormal"
      using assms(2) min_subnormal_pos by (simp add: divide_right_mono)
    then have "rne (a / min_subnormal) \<le> rne (b / min_subnormal)" by (rule rne_mono)
    then have "(of_int (rne (a / min_subnormal)) :: real) \<le> of_int (rne (b / min_subnormal))"
      by (simp only: of_int_le_iff)
    then have "of_int (rne (a / min_subnormal)) * min_subnormal
        \<le> of_int (rne (b / min_subnormal)) * min_subnormal"
      using min_subnormal_pos by (simp only: mult_le_cancel_right_pos)
    then show ?thesis using rm_sub[OF a] rm_sub[OF 1] by simp
  next
    case 2
    then show ?thesis using rm_sub_le(2)[OF assms(1) 2(1)] rm_normal_ge[OF 2(2)] by linarith
  next
    case 3
    then have b: "min_normal \<le> b" using assms(2) by linarith
    show ?thesis using fl_mono[OF assms(2)] rm_normal[OF 3] rm_normal[OF b] by simp
  qed
qed

lemma rm_zero [simp]: "round_magnitude 0 = 0"
  using min_normal_pos rne_of_int[of 0] by (simp add: round_magnitude_def)

lemma rm_idem:
  assumes "0 \<le> a"
  shows "round_magnitude (round_magnitude a) = round_magnitude a"
proof (cases "a < min_normal")
  case True
  let ?u = "min_subnormal"
  let ?k = "rne (a / ?u)"
  have r: "round_magnitude a = of_int ?k * ?u" using rm_sub[OF True] .
  have le: "round_magnitude a \<le> min_normal" using rm_sub_le(2)[OF assms True] .
  show ?thesis
  proof (cases "round_magnitude a < min_normal")
    case True
    have "of_int ?k * ?u / ?u = (of_int ?k :: real)" using min_subnormal_pos by simp
    then have "rne (of_int ?k * ?u / ?u) = ?k" by (simp only: rne_of_int)
    then have "round_magnitude (of_int ?k * ?u) = of_int ?k * ?u"
      using True r rm_sub[of "of_int ?k * ?u"] by simp
    then show ?thesis using r by simp
  next
    case False
    then have e: "round_magnitude a = min_normal" using le by linarith
    have "round_magnitude min_normal = fl min_normal" by (simp add: rm_normal)
    then show ?thesis using e by (simp add: fl_min_normal)
  qed
next
  case False
  then have n: "min_normal \<le> a" by simp
  have "min_normal \<le> fl a" using rm_normal_ge[OF n] rm_normal[OF n] by simp
  then have "round_magnitude (fl a) = fl (fl a)" by (rule rm_normal)
  then show ?thesis using rm_normal[OF n] by simp
qed

lemma rm_pow2: "- 1022 \<le> k \<Longrightarrow> round_magnitude (2 powi k) = 2 powi k"
  using min_normal_le_pow2[of k] by (simp add: rm_normal fl_pow2)

lemma rm_one [simp]: "round_magnitude 1 = 1"
  using rm_pow2[of 0] by simp

lemma rm_overflow:
  assumes "overflow_threshold \<le> a"
  shows "overflow_threshold \<le> round_magnitude a"
proof -
  have "min_normal \<le> overflow_threshold"
    using min_normal_le_pow2[of 1024] by (simp add: overflow_threshold_def)
  then have "round_magnitude overflow_threshold = overflow_threshold"
    by (simp add: rm_normal fl_overflow_threshold)
  moreover have "round_magnitude overflow_threshold \<le> round_magnitude a"
    using overflow_threshold_pos assms by (intro rm_mono) simp_all
  ultimately show ?thesis by simp
qed

subsection \<open>\<open>round64\<close>\<close>

lemma round64_zero [simp]: "round64 0 = Fin 0"
  using overflow_threshold_pos by (simp add: round64_def)

lemma round64_not_NaN [simp]: "round64 x \<noteq> NaN"
  by (simp add: round64_def)

lemma round64_pos:
  assumes "0 \<le> x"
  shows "round64 x =
    (if overflow_threshold \<le> round_magnitude x then PInf else Fin (round_magnitude x))"
proof (cases "x = 0")
  case True
  then show ?thesis using overflow_threshold_pos by simp
next
  case False
  then have x: "0 < x" using assms by simp
  then show ?thesis by (simp add: round64_def)
qed

lemma round64_nonneg_cases:
  assumes "0 \<le> x"
  shows "round64 x = PInf \<or> (\<exists>y. round64 x = Fin y \<and> 0 \<le> y)"
  using rm_nonneg[OF assms] by (simp add: round64_pos[OF assms])

lemma round64_mono_nonneg:
  assumes "0 \<le> x" "x \<le> y"
  shows "js_le (round64 x) (round64 y)"
proof -
  have y: "0 \<le> y" using assms by simp
  have m: "round_magnitude x \<le> round_magnitude y" using assms by (rule rm_mono)
  show ?thesis using m by (simp add: round64_pos[OF assms(1)] round64_pos[OF y])
qed

lemma round64_exact_pow2:
  assumes "- 1022 \<le> k" "k < 1024"
  shows "round64 (2 powi k) = Fin (2 powi k)"
proof -
  have "\<not> overflow_threshold \<le> 2 powi k" using pow2_lt_overflow[OF assms(2)] by simp
  then show ?thesis by (simp add: round64_pos rm_pow2[OF assms(1)])
qed

lemma round64_one [simp]: "round64 1 = Fin 1"
  using round64_exact_pow2[of 0] by simp

lemma round64_overflow:
  assumes "overflow_threshold \<le> x"
  shows "round64 x = PInf"
proof -
  have x: "0 \<le> x" using assms overflow_threshold_pos by linarith
  show ?thesis using rm_overflow[OF assms] by (simp add: round64_pos[OF x])
qed

lemma round64_idem:
  assumes "0 \<le> x" "round64 x = Fin y"
  shows "round64 y = Fin y"
proof -
  have y: "y = round_magnitude x" "\<not> overflow_threshold \<le> round_magnitude x"
    using assms(2) by (simp_all add: round64_pos[OF assms(1)] split: if_splits)
  have y0: "0 \<le> y" using y(1) rm_nonneg[OF assms(1)] by simp
  have "round_magnitude y = y" using rm_idem[OF assms(1)] y(1) by simp
  then have "round64 y = (if overflow_threshold \<le> y then PInf else Fin y)"
    using round64_pos[OF y0] by simp
  then show ?thesis using y by simp
qed

lemma round64_normal:
  assumes "1 / 10 ^ 9 \<le> x" "x \<le> 10 ^ 9"
  shows "round64 x = Fin (fl x)"
proof -
  have "(2::real) powi (- 30) \<le> 1 / 10 ^ 9" by (simp add: power_int_minus field_simps)
  then have n: "min_normal \<le> x" using min_normal_le_pow2[of "- 30"] assms(1) by linarith
  have x: "0 \<le> x" using n min_normal_pos by linarith
  have "x \<le> 2 powi 30" using assms(2) by simp
  then have "fl x \<le> fl (2 powi 30)" by (rule fl_mono)
  then have "fl x \<le> 2 powi 30" by (simp only: fl_pow2)
  then have "\<not> overflow_threshold \<le> fl x" using pow2_lt_overflow[of 30] by linarith
  then show ?thesis by (simp add: round64_pos[OF x] rm_normal[OF n])
qed



section \<open>Order and arithmetic of numbers\<close>

lemma js_le_refl: "a \<noteq> NaN \<Longrightarrow> js_le a a"
  by (cases a) simp_all

lemma js_le_trans: "js_le a b \<Longrightarrow> js_le b c \<Longrightarrow> js_le a c"
  by (cases a; cases b; cases c) simp_all

lemma js_le_not_NaN: "js_le a b \<Longrightarrow> a \<noteq> NaN \<and> b \<noteq> NaN"
  by (cases a; cases b) simp_all

lemma round64_nn: "0 \<le> x \<Longrightarrow> js_le (Fin 0) (round64 x)"
  using round64_nonneg_cases[of x] by auto

lemma nn_round64 [simp]: "0 \<le> x \<Longrightarrow> nn_or_NaN (round64 x)"
  by (simp add: nn_or_NaN_def round64_nn)

lemma nn_Fin [simp]: "nn_or_NaN (Fin x) \<longleftrightarrow> 0 \<le> x"
  by (simp add: nn_or_NaN_def)

lemma nn_special [simp]: "nn_or_NaN PInf" "nn_or_NaN NaN" "\<not> nn_or_NaN NInf"
  by (simp_all add: nn_or_NaN_def)

lemma le_round64 [simp]: "0 \<le> x \<Longrightarrow> x \<le> y \<Longrightarrow> le_or_NaN (round64 x) (round64 y)"
  by (simp add: le_or_NaN_def round64_mono_nonneg)

lemma le_zero_round64 [simp]: "0 \<le> x \<Longrightarrow> le_or_NaN (Fin 0) (round64 x)"
  by (simp add: le_or_NaN_def round64_nn)

lemma le_NaN [simp]: "le_or_NaN NaN b" "le_or_NaN a NaN"
  by (simp_all add: le_or_NaN_def)

lemma le_Fin [simp]: "le_or_NaN (Fin x) (Fin y) \<longleftrightarrow> x \<le> y"
  by (simp add: le_or_NaN_def)

lemma le_special [simp]:
  "le_or_NaN a PInf \<longleftrightarrow> True" "le_or_NaN NInf b \<longleftrightarrow> True"
  "le_or_NaN PInf (Fin y) \<longleftrightarrow> False" "le_or_NaN PInf NInf \<longleftrightarrow> False"
  "le_or_NaN (Fin x) NInf \<longleftrightarrow> False"
  by (cases a; cases b; simp add: le_or_NaN_def)+

lemma le_round64_PInf [simp]: "le_or_NaN PInf (round64 x) \<longleftrightarrow> round64 x = PInf"
  by (cases "round64 x") simp_all

lemma le_refl [simp]: "le_or_NaN a a"
  by (cases a) simp_all

lemma le_or_NaN_D: "le_or_NaN a b \<Longrightarrow> a \<noteq> NaN \<Longrightarrow> b \<noteq> NaN \<Longrightarrow> js_le a b"
  by (simp add: le_or_NaN_def)

subsection \<open>Closure\<close>

lemma nn_fmul: "nn_or_NaN a \<Longrightarrow> nn_or_NaN b \<Longrightarrow> nn_or_NaN (fmul a b)"
  by (cases a; cases b) simp_all

lemma nn_fdiv: "nn_or_NaN a \<Longrightarrow> nn_or_NaN b \<Longrightarrow> nn_or_NaN (fdiv a b)"
  by (cases a; cases b) simp_all

lemma nn_fadd: "nn_or_NaN a \<Longrightarrow> nn_or_NaN b \<Longrightarrow> nn_or_NaN (fadd a b)"
  by (cases a; cases b) simp_all

lemma nn_Math_max: "nn_or_NaN a \<Longrightarrow> nn_or_NaN b \<Longrightarrow> nn_or_NaN (Math_max a b)"
  by (cases a; cases b) simp_all

lemma nn_Math_min: "nn_or_NaN a \<Longrightarrow> nn_or_NaN b \<Longrightarrow> nn_or_NaN (Math_min a b)"
  by (cases a; cases b) simp_all

lemma nn_Math_floor: "nn_or_NaN a \<Longrightarrow> nn_or_NaN (Math_floor a)"
  by (cases a) simp_all

lemma nn_toFixed2: "nn_or_NaN a \<Longrightarrow> nn_or_NaN (toFixed2 a)"
proof (cases a)
  case (Fin x)
  assume "nn_or_NaN a"
  then have x: "0 \<le> x" using Fin by simp
  then have "0 \<le> sgn x * (of_int \<lfloor>\<bar>x\<bar> * 100 + 1/2\<rfloor> / 100)"
    by (intro mult_nonneg_nonneg divide_nonneg_nonneg) (simp_all add: sgn_if)
  then show ?thesis using Fin x by simp
qed simp_all

subsection \<open>Monotonicity\<close>

lemma fmul_mono_left:
  "nn_or_NaN a \<Longrightarrow> nn_or_NaN a' \<Longrightarrow> nn_or_NaN b \<Longrightarrow> le_or_NaN a a' \<Longrightarrow>
     le_or_NaN (fmul a b) (fmul a' b)"
  by (cases a; cases a'; cases b) (auto simp: mult_right_mono)

lemma fmul_mono_right:
  "nn_or_NaN a \<Longrightarrow> nn_or_NaN b \<Longrightarrow> nn_or_NaN b' \<Longrightarrow> le_or_NaN b b' \<Longrightarrow>
     le_or_NaN (fmul a b) (fmul a b')"
  by (cases a; cases b; cases b') (auto simp: mult_left_mono)

lemma fdiv_mono_left:
  "nn_or_NaN a \<Longrightarrow> nn_or_NaN a' \<Longrightarrow> nn_or_NaN b \<Longrightarrow> le_or_NaN a a' \<Longrightarrow>
     le_or_NaN (fdiv a b) (fdiv a' b)"
  by (cases a; cases a'; cases b) (auto simp: divide_right_mono)

lemma fdiv_anti_right:
  "nn_or_NaN a \<Longrightarrow> nn_or_NaN b \<Longrightarrow> nn_or_NaN b' \<Longrightarrow> le_or_NaN b b' \<Longrightarrow>
     le_or_NaN (fdiv a b') (fdiv a b)"
proof (cases a; cases b; cases b')
  fix x y y'
  assume a: "a = Fin x" "b = Fin y" "b' = Fin y'"
    and n: "nn_or_NaN a" "nn_or_NaN b" "nn_or_NaN b'" and l: "le_or_NaN b b'"
  have x: "0 \<le> x" and y: "0 \<le> y" and yy: "y \<le> y'" using a n l by simp_all
  show ?thesis
  proof (cases "y = 0")
    case True
    then show ?thesis using a x by (cases "x = 0") simp_all
  next
    case False
    then have "x / y' \<le> x / y" using x y yy by (intro divide_left_mono) simp_all
    moreover have "0 \<le> x / y'" using x y yy by simp
    ultimately show ?thesis using a False y yy by simp
  qed
qed (auto simp: round64_nn)

lemma Math_max_mono:
  "le_or_NaN a a' \<Longrightarrow> le_or_NaN b b' \<Longrightarrow> le_or_NaN (Math_max a b) (Math_max a' b')"
  by (cases a; cases a'; cases b; cases b') auto

lemma Math_min_mono:
  "le_or_NaN a a' \<Longrightarrow> le_or_NaN b b' \<Longrightarrow> le_or_NaN (Math_min a b) (Math_min a' b')"
  by (cases a; cases a'; cases b; cases b') auto

lemma Math_floor_mono: "le_or_NaN a a' \<Longrightarrow> le_or_NaN (Math_floor a) (Math_floor a')"
  by (cases a; cases a') (auto simp: floor_mono)

lemma Math_floor_le: "le_or_NaN (Math_floor a) a"
  by (cases a) simp_all

lemma Math_min_le_right: "le_or_NaN (Math_min a b) b"
  by (cases a; cases b) auto

lemma Math_min_le_left: "le_or_NaN (Math_min a b) a"
  by (cases a; cases b) auto

lemma Math_max_ge_left: "le_or_NaN a (Math_max a b)"
  by (cases a; cases b) auto

lemma Math_max_one: "Math_max (Fin 1) a = NaN \<or> js_le (Fin 1) (Math_max (Fin 1) a)"
  by (cases a) auto

lemma Math_max_lub:
  "le_or_NaN a c \<Longrightarrow> le_or_NaN b c \<Longrightarrow> le_or_NaN (Math_max a b) c"
  by (cases a; cases b; cases c) auto

lemma le_or_NaN_trans:
  "le_or_NaN a b \<Longrightarrow> le_or_NaN b c \<Longrightarrow> b \<noteq> NaN \<Longrightarrow> le_or_NaN a c"
  by (cases a; cases b; cases c) auto

subsection \<open>\<open>toFixed(2)\<close>\<close>

lemma round64_1e21: "round64 (10 ^ 21) = Fin (10 ^ 21)"
proof -
  have n: "min_normal \<le> 10 ^ 21" using min_normal_le_pow2[of 0] by simp
  have f: "fl (10 ^ 21) = 10 ^ 21" by (rule fl_1e21)
  have "(10::real) ^ 21 < 2 powi 70" by simp
  then have o: "\<not> overflow_threshold \<le> 10 ^ 21" using pow2_lt_overflow[of 70] by linarith
  have "round_magnitude (10 ^ 21) = 10 ^ 21" using rm_normal[OF n] f by simp
  then have "round64 (10 ^ 21) = (if overflow_threshold \<le> 10 ^ 21 then PInf else Fin (10 ^ 21))"
    using round64_pos[of "10 ^ 21"] by simp
  then show ?thesis using o by simp
qed

lemma toFixed2_nonneg:
  "0 \<le> x \<Longrightarrow> x < 10 ^ 21 \<Longrightarrow> toFixed2 (Fin x) = round64 (of_int \<lfloor>x * 100 + 1/2\<rfloor> / 100)"
  by (cases "x = 0") (simp_all add: sgn_if)

lemma toFixed2_small_le:
  assumes "0 \<le> x" "x < 10 ^ 21"
  shows "js_le (toFixed2 (Fin x)) (Fin (10 ^ 21))"
proof -
  have "x * 100 + 1/2 < of_int (10 ^ 23 + 1)" using assms(2) by simp
  then have "\<lfloor>x * 100 + 1/2\<rfloor> < 10 ^ 23 + 1" by (simp only: floor_less_iff)
  then have "\<lfloor>x * 100 + 1/2\<rfloor> \<le> 10 ^ 23" by simp
  then have "(of_int \<lfloor>x * 100 + 1/2\<rfloor> :: real) \<le> of_int (10 ^ 23)" by (simp only: of_int_le_iff)
  then have le: "(of_int \<lfloor>x * 100 + 1/2\<rfloor> :: real) / 100 \<le> 10 ^ 21" by simp
  have "0 \<le> \<lfloor>x * 100 + 1/2\<rfloor>" using assms(1) by simp
  then have "(0::real) \<le> of_int \<lfloor>x * 100 + 1/2\<rfloor> / 100" by simp
  then have "js_le (round64 (of_int \<lfloor>x * 100 + 1/2\<rfloor> / 100)) (round64 (10 ^ 21))"
    using le by (rule round64_mono_nonneg)
  then show ?thesis using toFixed2_nonneg[OF assms] by (simp only: round64_1e21)
qed

lemma toFixed2_mono_Fin:
  assumes x: "0 \<le> x" and xy: "x \<le> y"
  shows "js_le (toFixed2 (Fin x)) (toFixed2 (Fin y))"
proof -
  have y: "0 \<le> y" using x xy by simp
  consider "y < 10 ^ 21" | "x < 10 ^ 21" "10 ^ 21 \<le> y" | "10 ^ 21 \<le> x" by linarith
  then show ?thesis
  proof cases
    case 1
    then have x': "x < 10 ^ 21" using xy by simp
    have "\<lfloor>x * 100 + 1/2\<rfloor> \<le> \<lfloor>y * 100 + 1/2\<rfloor>" using xy by (intro floor_mono) simp
    then have le: "(of_int \<lfloor>x * 100 + 1/2\<rfloor> :: real) / 100 \<le> of_int \<lfloor>y * 100 + 1/2\<rfloor> / 100"
      by (simp add: divide_right_mono)
    have "0 \<le> \<lfloor>x * 100 + 1/2\<rfloor>" using x by simp
    then have "(0::real) \<le> of_int \<lfloor>x * 100 + 1/2\<rfloor> / 100" by simp
    then have "js_le (round64 (of_int \<lfloor>x * 100 + 1/2\<rfloor> / 100))
        (round64 (of_int \<lfloor>y * 100 + 1/2\<rfloor> / 100))"
      using le by (rule round64_mono_nonneg)
    then show ?thesis using toFixed2_nonneg[OF x x'] toFixed2_nonneg[OF y 1] by simp
  next
    case 2
    have "js_le (Fin (10 ^ 21)) (toFixed2 (Fin y))" using 2(2) y by simp
    then show ?thesis using toFixed2_small_le[OF x 2(1)] js_le_trans by blast
  next
    case 3
    then have "10 ^ 21 \<le> y" using xy by simp
    then show ?thesis using 3 x y xy by simp
  qed
qed

lemma toFixed2_mono:
  "nn_or_NaN a \<Longrightarrow> nn_or_NaN a' \<Longrightarrow> le_or_NaN a a' \<Longrightarrow> le_or_NaN (toFixed2 a) (toFixed2 a')"
proof (cases a; cases a')
  fix x y
  assume a: "a = Fin x" "a' = Fin y" and n: "nn_or_NaN a" and l: "le_or_NaN a a'"
  have "js_le (toFixed2 (Fin x)) (toFixed2 (Fin y))"
    using a n l by (intro toFixed2_mono_Fin) simp_all
  then show ?thesis using a by (simp add: le_or_NaN_def)
qed (auto simp del: toFixed2.simps(1))

lemma toFixed2_one [simp]: "toFixed2 (Fin 1) = Fin 1"
  by simp

subsection \<open>Numbers that rounding leaves alone\<close>

lemma is_double_round64: "0 \<le> x \<Longrightarrow> is_double (round64 x)"
  using round64_idem[of x] by (cases "round64 x") simp_all

lemma is_double_one [simp]: "is_double (Fin 1)"
  by simp

lemma is_double_zero [simp]: "is_double (Fin 0)"
  by simp

lemma is_double_fmul: "nn_or_NaN a \<Longrightarrow> nn_or_NaN b \<Longrightarrow> is_double (fmul a b)"
  by (cases a; cases b) (simp_all add: is_double_round64)

lemma is_double_fdiv: "nn_or_NaN a \<Longrightarrow> nn_or_NaN b \<Longrightarrow> is_double (fdiv a b)"
  by (cases a; cases b) (simp_all add: is_double_round64)

lemma is_double_Math_max: "is_double a \<Longrightarrow> is_double b \<Longrightarrow> is_double (Math_max a b)"
  by (cases a; cases b) simp_all

lemma is_double_Math_min: "is_double a \<Longrightarrow> is_double b \<Longrightarrow> is_double (Math_min a b)"
  by (cases a; cases b) simp_all

lemma fmul_one: "is_double a \<Longrightarrow> fmul a (Fin 1) = a"
  by (cases a) simp_all

lemma Math_min_absorb: "Math_min b (Math_min a b) = Math_min a b"
  by (cases a; cases b) auto



section \<open>Lemmas about \<open>calculateTPS\<close>\<close>

lemmas c_defs = c_statusChecksPerGeneration_def c_sessionDurationSeconds_def
  c_runCallsPerSession_def c_statusCallsPerSession_def c_runCallsPerSecondPerUser_def
  c_statusCallsPerSecondPerUser_def c_cycleTimeSeconds_def c_workerUtilizationRatio_def
  c_maxSupportedUsers_def c_workerLimitedTPS_def c_safetyMultiplier_def c_runTPS_def
  c_statusTPS_def c_runTPSBurst_def c_statusTPSBurst_def

lemmas arg_defs = arg_averageThinkTimeSeconds_def arg_safetyFactorPercent_def
  arg_burstTrafficMultiplier_def

lemma finite_aboveD: "finite_above c a \<Longrightarrow> \<exists>x. a = Fin x \<and> c < x"
  by (cases a) simp_all

lemma finite_fromD: "finite_from c a \<Longrightarrow> \<exists>x. a = Fin x \<and> c \<le> x"
  by (cases a) simp_all

lemma valid_paramsD:
  assumes "valid_params p"
  obtains g s n w t f b where
    "generationTimeSeconds p = Fin g" "0 < g"
    "statusPollIntervalSeconds p = Fin s" "0 < s"
    "imagesPerSession p = Fin n" "0 < n"
    "maxWorkers p = Fin w" "0 < w"
    "arg_averageThinkTimeSeconds p = Fin t" "0 \<le> t"
    "arg_safetyFactorPercent p = Fin f" "0 \<le> f"
    "arg_burstTrafficMultiplier p = Fin b" "1 \<le> b"
  using assms unfolding valid_params_def
  by (metis finite_aboveD finite_fromD)

subsection \<open>The local constants are not negative\<close>

lemma nn_inputs:
  assumes "valid_params p"
  shows "nn_or_NaN (generationTimeSeconds p)" "nn_or_NaN (statusPollIntervalSeconds p)"
    "nn_or_NaN (imagesPerSession p)" "nn_or_NaN (maxWorkers p)"
    "nn_or_NaN (arg_averageThinkTimeSeconds p)" "nn_or_NaN (arg_safetyFactorPercent p)"
    "nn_or_NaN (arg_burstTrafficMultiplier p)"
  using valid_paramsD[OF assms] by (metis nn_Fin less_imp_le order_trans zero_le_one)+

lemma nn_statusChecksPerGeneration:
  "valid_params p \<Longrightarrow> nn_or_NaN (c_statusChecksPerGeneration p)"
  unfolding c_statusChecksPerGeneration_def by (intro nn_fdiv nn_inputs)

lemma nn_sessionDurationSeconds:
  "valid_params p \<Longrightarrow> nn_or_NaN (c_sessionDurationSeconds p)"
  unfolding c_sessionDurationSeconds_def by (intro nn_fmul nn_inputs)

lemma nn_statusCallsPerSession:
  "valid_params p \<Longrightarrow> nn_or_NaN (c_statusCallsPerSession p)"
  unfolding c_statusCallsPerSession_def
  by (intro nn_fmul nn_inputs nn_statusChecksPerGeneration)

lemma nn_runCallsPerSecondPerUser:
  "valid_params p \<Longrightarrow> nn_or_NaN (c_runCallsPerSecondPerUser p)"
  unfolding c_runCallsPerSecondPerUser_def c_runCallsPerSession_def
  by (intro nn_fdiv nn_inputs nn_sessionDurationSeconds)

lemma nn_statusCallsPerSecondPerUser:
  "valid_params p \<Longrightarrow> nn_or_NaN (c_statusCallsPerSecondPerUser p)"
  unfolding c_statusCallsPerSecondPerUser_def
  by (intro nn_fdiv nn_statusCallsPerSession nn_sessionDurationSeconds)

lemma nn_cycleTimeSeconds:
  "valid_params p \<Longrightarrow> nn_or_NaN (c_cycleTimeSeconds p)"
  unfolding c_cycleTimeSeconds_def by (intro nn_fadd nn_inputs)

lemma nn_workerUtilizationRatio:
  "valid_params p \<Longrightarrow> nn_or_NaN (c_workerUtilizationRatio p)"
  unfolding c_workerUtilizationRatio_def by (intro nn_fdiv nn_inputs nn_cycleTimeSeconds)

lemma nn_maxSupportedUsers:
  "valid_params p \<Longrightarrow> nn_or_NaN (c_maxSupportedUsers p)"
  unfolding c_maxSupportedUsers_def by (intro nn_fdiv nn_inputs nn_workerUtilizationRatio)

lemma nn_safetyMultiplier:
  "valid_params p \<Longrightarrow> nn_or_NaN (c_safetyMultiplier p)"
  unfolding c_safetyMultiplier_def by (intro nn_fadd nn_fdiv nn_inputs) simp_all

lemma nn_run_product:
  "valid_params p \<Longrightarrow>
     nn_or_NaN (fmul (fmul (c_runCallsPerSecondPerUser p) (c_maxSupportedUsers p))
                     (c_safetyMultiplier p))"
  by (intro nn_fmul nn_runCallsPerSecondPerUser nn_maxSupportedUsers nn_safetyMultiplier)

lemma nn_statusTPS: "valid_params p \<Longrightarrow> nn_or_NaN (c_statusTPS p)"
  unfolding c_statusTPS_def
  by (intro nn_fmul nn_statusCallsPerSecondPerUser nn_maxSupportedUsers nn_safetyMultiplier)

lemma workerLimitedTPS_cases:
  assumes "valid_params p"
  shows "c_workerLimitedTPS p = PInf \<or> (\<exists>x. c_workerLimitedTPS p = Fin x \<and> 1 \<le> x)"
proof -
  from valid_paramsD[OF assms] obtain g w where
    gw: "generationTimeSeconds p = Fin g" "0 < g" "maxWorkers p = Fin w" "0 < w"
    by metis
  have "0 \<le> w / g" using gw by simp
  from round64_nonneg_cases[OF this] show ?thesis
  proof
    assume "round64 (w / g) = PInf"
    then show ?thesis using gw by (simp add: c_workerLimitedTPS_def)
  next
    assume "\<exists>y. round64 (w / g) = Fin y \<and> 0 \<le> y"
    then obtain y where y: "round64 (w / g) = Fin y" by blast
    show ?thesis using gw y by (cases "y \<le> 1") (simp_all add: c_workerLimitedTPS_def)
  qed
qed

lemma workerLimitedTPS_not_NaN: "valid_params p \<Longrightarrow> c_workerLimitedTPS p \<noteq> NaN"
  using workerLimitedTPS_cases[of p] by auto

lemma workerLimitedTPS_ge1: "valid_params p \<Longrightarrow> js_le (Fin 1) (c_workerLimitedTPS p)"
  using workerLimitedTPS_cases[of p] by auto

lemma nn_workerLimitedTPS: "valid_params p \<Longrightarrow> nn_or_NaN (c_workerLimitedTPS p)"
  using workerLimitedTPS_cases[of p] by auto

lemma nn_runTPS: "valid_params p \<Longrightarrow> nn_or_NaN (c_runTPS p)"
  unfolding c_runTPS_def by (intro nn_Math_min nn_run_product nn_workerLimitedTPS)

subsection \<open>The ceiling\<close>

lemma toFixed2_not_NaN: "a \<noteq> NaN \<Longrightarrow> toFixed2 a \<noteq> NaN"
  by (cases a) simp_all

lemma runTPS_limit_le:
  assumes V: "valid_params p"
  shows "le_or_NaN (Math_max (Fin 1) (toFixed2 (c_runTPS p))) (toFixed2 (c_workerLimitedTPS p))"
proof (rule Math_max_lub)
  have "le_or_NaN (Fin 1) (c_workerLimitedTPS p)"
    using workerLimitedTPS_ge1[OF V] by (simp add: le_or_NaN_def)
  then have "le_or_NaN (toFixed2 (Fin 1)) (toFixed2 (c_workerLimitedTPS p))"
    by (intro toFixed2_mono nn_workerLimitedTPS[OF V]) simp_all
  then show "le_or_NaN (Fin 1) (toFixed2 (c_workerLimitedTPS p))" by simp
  have "le_or_NaN (c_runTPS p) (c_workerLimitedTPS p)"
    unfolding c_runTPS_def by (rule Math_min_le_right)
  then show "le_or_NaN (toFixed2 (c_runTPS p)) (toFixed2 (c_workerLimitedTPS p))"
    by (intro toFixed2_mono nn_runTPS[OF V] nn_workerLimitedTPS[OF V])
qed

lemma floor_min_le: "le_or_NaN (Math_floor (Math_min b a)) b"
  by (cases a; cases b) (auto intro: order_trans[OF of_int_floor_le])

lemma runTPSBurst_limit_le:
  assumes V: "valid_params p"
  shows "le_or_NaN (Math_max (Fin 1) (Math_floor (c_runTPSBurst p))) (c_workerLimitedTPS p)"
proof (rule Math_max_lub)
  show "le_or_NaN (Fin 1) (c_workerLimitedTPS p)"
    using workerLimitedTPS_ge1[OF V] by (simp add: le_or_NaN_def)
  show "le_or_NaN (Math_floor (c_runTPSBurst p)) (c_workerLimitedTPS p)"
    unfolding c_runTPSBurst_def by (rule floor_min_le)
qed

subsection \<open>Monotonicity in the poll interval\<close>

lemma poll_unchanged:
  "c_sessionDurationSeconds (p\<lparr>statusPollIntervalSeconds := s\<rparr>) = c_sessionDurationSeconds p"
  "c_maxSupportedUsers (p\<lparr>statusPollIntervalSeconds := s\<rparr>) = c_maxSupportedUsers p"
  "c_safetyMultiplier (p\<lparr>statusPollIntervalSeconds := s\<rparr>) = c_safetyMultiplier p"
  by (simp_all add: c_defs arg_defs)

lemma c_statusTPS_poll:
  assumes V: "valid_params p" and V': "valid_params (p\<lparr>statusPollIntervalSeconds := s\<rparr>)"
    and s: "js_le (statusPollIntervalSeconds p) s"
  shows "le_or_NaN (c_statusTPS (p\<lparr>statusPollIntervalSeconds := s\<rparr>)) (c_statusTPS p)"
proof -
  let ?q = "p\<lparr>statusPollIntervalSeconds := s\<rparr>"
  have ns: "nn_or_NaN s" using nn_inputs(2)[OF V'] by simp
  have "le_or_NaN (statusPollIntervalSeconds p) s" using s by (simp add: le_or_NaN_def)
  then have sc: "le_or_NaN (c_statusChecksPerGeneration ?q) (c_statusChecksPerGeneration p)"
    unfolding c_statusChecksPerGeneration_def
    using fdiv_anti_right[OF nn_inputs(1)[OF V] nn_inputs(2)[OF V] ns] by simp
  have scs: "le_or_NaN (c_statusCallsPerSession ?q) (c_statusCallsPerSession p)"
    unfolding c_statusCallsPerSession_def
    using fmul_mono_right[OF nn_inputs(3)[OF V] nn_statusChecksPerGeneration[OF V']
        nn_statusChecksPerGeneration[OF V] sc]
    by simp
  have spu: "le_or_NaN (c_statusCallsPerSecondPerUser ?q) (c_statusCallsPerSecondPerUser p)"
    unfolding c_statusCallsPerSecondPerUser_def poll_unchanged
    by (intro fdiv_mono_left nn_statusCallsPerSession V V' nn_sessionDurationSeconds scs)
  have pr: "le_or_NaN (fmul (c_statusCallsPerSecondPerUser ?q) (c_maxSupportedUsers p))
      (fmul (c_statusCallsPerSecondPerUser p) (c_maxSupportedUsers p))"
    by (intro fmul_mono_left nn_statusCallsPerSecondPerUser V V' nn_maxSupportedUsers spu)
  show ?thesis
    unfolding c_statusTPS_def poll_unchanged
    by (intro fmul_mono_left nn_fmul nn_statusCallsPerSecondPerUser V V' nn_maxSupportedUsers
        nn_safetyMultiplier pr)
qed

lemma statusTPS_limit_poll:
  assumes V: "valid_params p" and V': "valid_params (p\<lparr>statusPollIntervalSeconds := s\<rparr>)"
    and s: "js_le (statusPollIntervalSeconds p) s"
  shows "le_or_NaN (statusTPS (limits (calculateTPS (p\<lparr>statusPollIntervalSeconds := s\<rparr>))))
           (statusTPS (limits (calculateTPS p)))"
proof -
  have "le_or_NaN (toFixed2 (c_statusTPS (p\<lparr>statusPollIntervalSeconds := s\<rparr>)))
      (toFixed2 (c_statusTPS p))"
    by (intro toFixed2_mono nn_statusTPS V V' c_statusTPS_poll s)
  then show ?thesis by (simp add: calculateTPS_def Math_max_mono)
qed

subsection \<open>Monotonicity in the number of workers\<close>

lemma workers_unchanged:
  "c_runCallsPerSecondPerUser (p\<lparr>maxWorkers := w\<rparr>) = c_runCallsPerSecondPerUser p"
  "c_workerUtilizationRatio (p\<lparr>maxWorkers := w\<rparr>) = c_workerUtilizationRatio p"
  "c_safetyMultiplier (p\<lparr>maxWorkers := w\<rparr>) = c_safetyMultiplier p"
  by (simp_all add: c_defs arg_defs)

lemma c_runTPS_workers:
  assumes V: "valid_params p" and V': "valid_params (p\<lparr>maxWorkers := w\<rparr>)"
    and w: "js_le (maxWorkers p) w"
  shows "le_or_NaN (c_runTPS p) (c_runTPS (p\<lparr>maxWorkers := w\<rparr>))"
proof -
  let ?q = "p\<lparr>maxWorkers := w\<rparr>"
  have nw: "nn_or_NaN w" using nn_inputs(4)[OF V'] by simp
  have lw: "le_or_NaN (maxWorkers p) w" using w by (simp add: le_or_NaN_def)
  have msu: "le_or_NaN (c_maxSupportedUsers p) (c_maxSupportedUsers ?q)"
    unfolding c_maxSupportedUsers_def workers_unchanged
    using fdiv_mono_left[OF nn_inputs(4)[OF V] nw nn_workerUtilizationRatio[OF V] lw] by simp
  have "le_or_NaN (fdiv (maxWorkers p) (generationTimeSeconds p))
      (fdiv w (generationTimeSeconds p))"
    by (intro fdiv_mono_left nn_inputs V nw lw)
  then have wl: "le_or_NaN (c_workerLimitedTPS p) (c_workerLimitedTPS ?q)"
    unfolding c_workerLimitedTPS_def by (simp add: Math_max_mono)
  have pr: "le_or_NaN (fmul (c_runCallsPerSecondPerUser p) (c_maxSupportedUsers p))
      (fmul (c_runCallsPerSecondPerUser p) (c_maxSupportedUsers ?q))"
    by (intro fmul_mono_right nn_runCallsPerSecondPerUser nn_maxSupportedUsers V V' msu)
  have "le_or_NaN
      (fmul (fmul (c_runCallsPerSecondPerUser p) (c_maxSupportedUsers p)) (c_safetyMultiplier p))
      (fmul (fmul (c_runCallsPerSecondPerUser p) (c_maxSupportedUsers ?q)) (c_safetyMultiplier p))"
    by (intro fmul_mono_left nn_fmul nn_runCallsPerSecondPerUser nn_maxSupportedUsers
        nn_safetyMultiplier V V' pr)
  then show ?thesis
    unfolding c_runTPS_def workers_unchanged using wl by (rule Math_min_mono)
qed

lemma runTPS_limit_workers:
  assumes V: "valid_params p" and V': "valid_params (p\<lparr>maxWorkers := w\<rparr>)"
    and w: "js_le (maxWorkers p) w"
  shows "le_or_NaN (runTPS (limits (calculateTPS p)))
           (runTPS (limits (calculateTPS (p\<lparr>maxWorkers := w\<rparr>))))"
proof -
  have "le_or_NaN (toFixed2 (c_runTPS p)) (toFixed2 (c_runTPS (p\<lparr>maxWorkers := w\<rparr>)))"
    by (intro toFixed2_mono nn_runTPS V V' c_runTPS_workers w)
  then show ?thesis by (simp add: calculateTPS_def Math_max_mono)
qed

subsection \<open>A burst multiplier of one\<close>

lemma is_double_workerLimitedTPS: "valid_params p \<Longrightarrow> is_double (c_workerLimitedTPS p)"
  unfolding c_workerLimitedTPS_def
  by (intro is_double_Math_max is_double_fdiv nn_inputs) simp_all

lemma is_double_runTPS: "valid_params p \<Longrightarrow> is_double (c_runTPS p)"
  unfolding c_runTPS_def
  by (intro is_double_Math_min is_double_fmul is_double_workerLimitedTPS nn_fmul
      nn_runCallsPerSecondPerUser nn_maxSupportedUsers nn_safetyMultiplier)

lemma is_double_statusTPS: "valid_params p \<Longrightarrow> is_double (c_statusTPS p)"
  unfolding c_statusTPS_def
  by (intro is_double_fmul nn_fmul nn_statusCallsPerSecondPerUser nn_maxSupportedUsers
      nn_safetyMultiplier)

lemma burst_one:
  assumes V: "valid_params p" and b: "arg_burstTrafficMultiplier p = Fin 1"
  shows "c_runTPSBurst p = c_runTPS p" "c_statusTPSBurst p = c_statusTPS p"
proof -
  have "c_runTPSBurst p = Math_min (c_workerLimitedTPS p) (c_runTPS p)"
    unfolding c_runTPSBurst_def b by (simp add: fmul_one[OF is_double_runTPS[OF V]])
  then show "c_runTPSBurst p = c_runTPS p"
    by (simp add: c_runTPS_def Math_min_absorb)
  show "c_statusTPSBurst p = c_statusTPS p"
    unfolding c_statusTPSBurst_def b by (rule fmul_one[OF is_double_statusTPS[OF V]])
qed

subsection \<open>The session length, when its products are exact\<close>

lemma exact_per_user_rates:
  assumes V: "valid_params p" and E: "exact_products p"
  shows "\<exists>g s. generationTimeSeconds p = Fin g \<and> c_statusChecksPerGeneration p = Fin s \<and>
           c_runCallsPerSecondPerUser p = round64 (1 / g) \<and>
           c_statusCallsPerSecondPerUser p = round64 (s / g)"
proof -
  from valid_paramsD[OF V] obtain g n where
    gn: "generationTimeSeconds p = Fin g" "0 < g" "imagesPerSession p = Fin n" "0 < n"
    by metis
  from E gn obtain s where
    s: "c_statusChecksPerGeneration p = Fin s" "c_sessionDurationSeconds p = Fin (n * g)"
       "c_statusCallsPerSession p = Fin (n * s)"
    by (auto simp: exact_products_def split: number.splits)
  have ng: "n * g \<noteq> 0" using gn by simp
  have "c_runCallsPerSecondPerUser p = round64 (n / (n * g))"
    using ng by (simp add: c_runCallsPerSecondPerUser_def c_runCallsPerSession_def s gn)
  moreover have "n / (n * g) = 1 / g" using gn by simp
  moreover have "c_statusCallsPerSecondPerUser p = round64 (n * s / (n * g))"
    using ng by (simp add: c_statusCallsPerSecondPerUser_def s)
  moreover have "n * s / (n * g) = s / g" using gn by simp
  ultimately show ?thesis using gn s by simp
qed

lemma images_unchanged:
  "generationTimeSeconds (p\<lparr>imagesPerSession := n\<rparr>) = generationTimeSeconds p"
  "c_statusChecksPerGeneration (p\<lparr>imagesPerSession := n\<rparr>) = c_statusChecksPerGeneration p"
  "c_maxSupportedUsers (p\<lparr>imagesPerSession := n\<rparr>) = c_maxSupportedUsers p"
  "c_safetyMultiplier (p\<lparr>imagesPerSession := n\<rparr>) = c_safetyMultiplier p"
  "c_workerLimitedTPS (p\<lparr>imagesPerSession := n\<rparr>) = c_workerLimitedTPS p"
  "arg_burstTrafficMultiplier (p\<lparr>imagesPerSession := n\<rparr>) = arg_burstTrafficMultiplier p"
  by (simp_all add: c_defs arg_defs)

lemma exact_images:
  assumes V: "valid_params p" and V': "valid_params (p\<lparr>imagesPerSession := n\<rparr>)"
    and E: "exact_products p" and E': "exact_products (p\<lparr>imagesPerSession := n\<rparr>)"
  shows "c_runTPS (p\<lparr>imagesPerSession := n\<rparr>) = c_runTPS p"
    and "c_statusTPS (p\<lparr>imagesPerSession := n\<rparr>) = c_statusTPS p"
    and "c_runTPSBurst (p\<lparr>imagesPerSession := n\<rparr>) = c_runTPSBurst p"
    and "c_statusTPSBurst (p\<lparr>imagesPerSession := n\<rparr>) = c_statusTPSBurst p"
proof -
  let ?q = "p\<lparr>imagesPerSession := n\<rparr>"
  from exact_per_user_rates[OF V E] exact_per_user_rates[OF V' E']
  have r: "c_runCallsPerSecondPerUser ?q = c_runCallsPerSecondPerUser p"
    and s: "c_statusCallsPerSecondPerUser ?q = c_statusCallsPerSecondPerUser p"
    by (auto simp: images_unchanged)
  show rt: "c_runTPS ?q = c_runTPS p"
    by (simp add: c_runTPS_def r images_unchanged)
  show st: "c_statusTPS ?q = c_statusTPS p"
    by (simp add: c_statusTPS_def s images_unchanged)
  show "c_runTPSBurst ?q = c_runTPSBurst p"
    by (simp add: c_runTPSBurst_def rt images_unchanged)
  show "c_statusTPSBurst ?q = c_statusTPSBurst p"
    by (simp add: c_statusTPSBurst_def st images_unchanged)
qed

subsection \<open>The echoed inputs\<close>

lemma arg_inputs:
  "arg_averageThinkTimeSeconds (inputs (calculateTPS p)) = arg_averageThinkTimeSeconds p"
  "arg_safetyFactorPercent (inputs (calculateTPS p)) = arg_safetyFactorPercent p"
  "arg_burstTrafficMultiplier (inputs (calculateTPS p)) = arg_burstTrafficMultiplier p"
  "generationTimeSeconds (inputs (calculateTPS p)) = generationTimeSeconds p"
  "statusPollIntervalSeconds (inputs (calculateTPS p)) = statusPollIntervalSeconds p"
  "imagesPerSession (inputs (calculateTPS p)) = imagesPerSession p"
  "maxWorkers (inputs (calculateTPS p)) = maxWorkers p"
  by (simp_all add: calculateTPS_def arg_defs)

lemma c_inputs:
  "c_statusChecksPerGeneration (inputs (calculateTPS p)) = c_statusChecksPerGeneration p"
  "c_sessionDurationSeconds (inputs (calculateTPS p)) = c_sessionDurationSeconds p"
  "c_runCallsPerSession (inputs (calculateTPS p)) = c_runCallsPerSession p"
  "c_statusCallsPerSession (inputs (calculateTPS p)) = c_statusCallsPerSession p"
  "c_runCallsPerSecondPerUser (inputs (calculateTPS p)) = c_runCallsPerSecondPerUser p"
  "c_statusCallsPerSecondPerUser (inputs (calculateTPS p)) = c_statusCallsPerSecondPerUser p"
  "c_cycleTimeSeconds (inputs (calculateTPS p)) = c_cycleTimeSeconds p"
  "c_maxSupportedUsers (inputs (calculateTPS p)) = c_maxSupportedUsers p"
  "c_workerLimitedTPS (inputs (calculateTPS p)) = c_workerLimitedTPS p"
  "c_runTPS (inputs (calculateTPS p)) = c_runTPS p"
  "c_statusTPS (inputs (calculateTPS p)) = c_statusTPS p"
  "c_runTPSBurst (inputs (calculateTPS p)) = c_runTPSBurst p"
  "c_statusTPSBurst (inputs (calculateTPS p)) = c_statusTPSBurst p"
  by (simp_all add: c_defs arg_inputs)

lemma calculateTPS_inputs:
  "calculateTPS (inputs (calculateTPS p)) = calculateTPS p"
  by (simp add: calculateTPS_def[of "inputs (calculateTPS p)"] c_inputs arg_inputs)
     (simp add: calculateTPS_def)



section \<open>Inputs for which nothing overflows or underflows\<close>

lemma pow2_add: "(2::real) powi (a + b) = 2 powi a * 2 powi b"
  by (rule power_int_add) simp

lemma pow2_diff: "(2::real) powi (a - b) = 2 powi a / 2 powi b"
  by (rule power_int_diff) simp

lemma round64_between:
  assumes "2 powi a \<le> x" "x \<le> 2 powi b" "- 1022 \<le> a" "b < 1024"
  shows "finite_between (2 powi a) (2 powi b) (round64 x)"
proof -
  have x0: "0 \<le> x" using assms(1) by (smt (verit) zero_less_power_int)
  have ab: "a \<le> b"
  proof (rule ccontr)
    assume "\<not> a \<le> b"
    then have "(2::real) powi b < 2 powi a" by (intro power_int_strict_increasing) simp_all
    then show False using assms(1,2) by linarith
  qed
  have a2: "a < 1024" and b2: "- 1022 \<le> b" using ab assms(3,4) by simp_all
  have lo: "js_le (round64 (2 powi a)) (round64 x)"
    using assms(1) by (intro round64_mono_nonneg) simp_all
  have hi: "js_le (round64 x) (round64 (2 powi b))"
    using x0 assms(2) by (rule round64_mono_nonneg)
  show ?thesis
    using lo hi round64_exact_pow2[OF assms(3) a2] round64_exact_pow2[OF b2 assms(4)]
    by (cases "round64 x") simp_all
qed

lemma round64_upto:
  assumes "0 \<le> x" "x \<le> 2 powi b" "- 1022 \<le> b" "b < 1024"
  shows "finite_between 0 (2 powi b) (round64 x)"
proof -
  have "js_le (round64 x) (round64 (2 powi b))" using assms(1,2) by (rule round64_mono_nonneg)
  then show ?thesis
    using round64_nn[OF assms(1)] round64_exact_pow2[OF assms(3,4)]
    by (cases "round64 x") simp_all
qed

lemma bandD: "band k a \<Longrightarrow> \<exists>x. a = Fin x \<and> 2 powi (- k) \<le> x \<and> x \<le> 2 powi k"
  unfolding band_def by (cases a) simp_all

lemma band_not_NaN: "band k a \<Longrightarrow> a \<noteq> NaN"
  using bandD by blast

lemma band_fmul:
  assumes "band j a" "band k b" "j + k \<le> 1022"
  shows "band (j + k) (fmul a b)"
proof -
  from bandD[OF assms(1)] obtain x where x: "a = Fin x" "2 powi (- j) \<le> x" "x \<le> 2 powi j"
    by blast
  from bandD[OF assms(2)] obtain y where y: "b = Fin y" "2 powi (- k) \<le> y" "y \<le> 2 powi k"
    by blast
  have x0: "0 < x" using x(2) by (smt (verit) zero_less_power_int)
  have y0: "0 < y" using y(2) by (smt (verit) zero_less_power_int)
  have "(2::real) powi (- j) * 2 powi (- k) \<le> x * y"
    using x(2) y(2) x0 y0 by (intro mult_mono) simp_all
  then have lo: "2 powi (- (j + k)) \<le> x * y" using pow2_add[of "- j" "- k"] by simp
  have "x * y \<le> 2 powi j * 2 powi k"
    using x(3) y(3) x0 y0 by (intro mult_mono) simp_all
  then have hi: "x * y \<le> 2 powi (j + k)" by (simp only: pow2_add)
  show ?thesis
    unfolding band_def using x(1) y(1) assms(3) round64_between[OF lo hi] by simp
qed

lemma band_fdiv:
  assumes "band j a" "band k b" "j + k \<le> 1022"
  shows "band (j + k) (fdiv a b)"
proof -
  from bandD[OF assms(1)] obtain x where x: "a = Fin x" "2 powi (- j) \<le> x" "x \<le> 2 powi j"
    by blast
  from bandD[OF assms(2)] obtain y where y: "b = Fin y" "2 powi (- k) \<le> y" "y \<le> 2 powi k"
    by blast
  have x0: "0 < x" using x(2) by (smt (verit) zero_less_power_int)
  have y0: "0 < y" using y(2) by (smt (verit) zero_less_power_int)
  have e1: "(2::real) powi (- j) / 2 powi k = 2 powi (- (j + k))"
    using pow2_diff[of "- j" k] by simp
  have e2: "(2::real) powi j / 2 powi (- k) = 2 powi (j + k)"
    using pow2_diff[of j "- k"] by simp
  have "(2::real) powi (- j) / 2 powi k \<le> x / y"
    using x(2) y(3) x0 y0 by (intro frac_le) simp_all
  then have lo: "2 powi (- (j + k)) \<le> x / y" by (simp only: e1)
  have "x / y \<le> 2 powi j / 2 powi (- k)"
    using x(3) y(2) x0 y0 by (intro frac_le) simp_all
  then have hi: "x / y \<le> 2 powi (j + k)" by (simp only: e2)
  show ?thesis
    unfolding band_def using x(1) y(1) y0 assms(3) round64_between[OF lo hi] by simp
qed

lemma band_mono:
  assumes "band j a" "j \<le> k"
  shows "band k a"
proof -
  from bandD[OF assms(1)] obtain x where x: "a = Fin x" "2 powi (- j) \<le> x" "x \<le> 2 powi j"
    by blast
  have "(2::real) powi (- k) \<le> 2 powi (- j)" using assms(2) by (intro powi_two_mono) simp
  moreover have "(2::real) powi j \<le> 2 powi k" using assms(2) by (rule powi_two_mono)
  ultimately show ?thesis unfolding band_def using x by simp
qed

lemma band_Math_min: "band k a \<Longrightarrow> band k b \<Longrightarrow> band k (Math_min a b)"
  unfolding band_def by (cases a; cases b) simp_all

lemma in_rangeD:
  assumes "in_range p"
  shows "band 100 (generationTimeSeconds p)" "band 100 (statusPollIntervalSeconds p)"
    "band 100 (imagesPerSession p)" "band 100 (maxWorkers p)"
    "finite_between 0 (2 powi 100) (arg_averageThinkTimeSeconds p)"
    "finite_between 0 (2 powi 100) (arg_safetyFactorPercent p)"
    "finite_between 1 (2 powi 100) (arg_burstTrafficMultiplier p)"
  using assms unfolding in_range_def band_def by simp_all

lemma in_range_valid: "in_range p \<Longrightarrow> valid_params p"
proof -
  assume r: "in_range p"
  have pos: "\<And>a. band 100 a \<Longrightarrow> finite_above 0 a"
  proof -
    fix a assume "band 100 a"
    from bandD[OF this] obtain x where x: "a = Fin x" "2 powi (- 100) \<le> x" by blast
    have "0 < x" using x(2) by (smt (verit) zero_less_power_int)
    then show "finite_above 0 a" using x(1) by simp
  qed
  have fr: "\<And>c h a. finite_between c h a \<Longrightarrow> finite_from c a"
  proof -
    fix c h a assume "finite_between c h a"
    then show "finite_from c a" by (cases a) simp_all
  qed
  show ?thesis
    unfolding valid_params_def using in_rangeD[OF r] pos fr by blast
qed

lemma band_statusTPS_chain:
  assumes r: "in_range p"
  shows "band 702 (c_runTPS p)" "band 902 (c_statusTPS p)"
    "band 802 (c_runTPSBurst p)" "band 1002 (c_statusTPSBurst p)"
proof -
  note i = in_rangeD[OF r]
  have sc: "band 200 (c_statusChecksPerGeneration p)"
    unfolding c_statusChecksPerGeneration_def using band_fdiv[OF i(1) i(2)] by simp
  have sd: "band 200 (c_sessionDurationSeconds p)"
    unfolding c_sessionDurationSeconds_def using band_fmul[OF i(3) i(1)] by simp
  have scs: "band 300 (c_statusCallsPerSession p)"
    unfolding c_statusCallsPerSession_def using band_fmul[OF i(3) sc] by simp
  have rpu: "band 300 (c_runCallsPerSecondPerUser p)"
    unfolding c_runCallsPerSecondPerUser_def c_runCallsPerSession_def
    using band_fdiv[OF i(3) sd] by simp
  have spu: "band 500 (c_statusCallsPerSecondPerUser p)"
    unfolding c_statusCallsPerSecondPerUser_def using band_fdiv[OF scs sd] by simp
  have cyc: "band 101 (c_cycleTimeSeconds p)"
  proof -
    from bandD[OF i(1)] obtain g where
      g: "generationTimeSeconds p = Fin g" "2 powi (- 100) \<le> g" "g \<le> 2 powi 100"
      by blast
    from i(5) obtain t where t: "arg_averageThinkTimeSeconds p = Fin t" "0 \<le> t" "t \<le> 2 powi 100"
      by (cases "arg_averageThinkTimeSeconds p") simp_all
    have "(2::real) powi (- 101) \<le> 2 powi (- 100)" by (rule powi_two_mono) simp
    then have lo: "2 powi (- 101) \<le> g + t" using g(2) t(2) by linarith
    have "(2::real) powi 101 = 2 powi 100 + 2 powi 100" by simp
    then have hi: "g + t \<le> 2 powi 101" using g(3) t(3) by linarith
    show ?thesis
      unfolding c_cycleTimeSeconds_def band_def g(1) t(1)
      using round64_between[OF lo hi] by simp
  qed
  have ur: "band 201 (c_workerUtilizationRatio p)"
    unfolding c_workerUtilizationRatio_def using band_fdiv[OF i(1) cyc] by simp
  have msu: "band 301 (c_maxSupportedUsers p)"
    unfolding c_maxSupportedUsers_def using band_fdiv[OF i(4) ur] by simp
  have sm: "band 101 (c_safetyMultiplier p)"
  proof -
    from i(6) obtain f where f: "arg_safetyFactorPercent p = Fin f" "0 \<le> f" "f \<le> 2 powi 100"
      by (cases "arg_safetyFactorPercent p") simp_all
    have "0 \<le> f / 100" "f / 100 \<le> 2 powi 100" using f(2,3) by simp_all
    from round64_upto[OF this] obtain y where
      y: "round64 (f / 100) = Fin y" "0 \<le> y" "y \<le> 2 powi 100"
      by (cases "round64 (f / 100)") simp_all
    have "(2::real) powi (- 101) \<le> 2 powi 0" by (rule powi_two_mono) simp
    then have lo: "2 powi (- 101) \<le> 1 + y" using y(2) by simp
    have "(1::real) \<le> 2 powi 100" using powi_two_mono[of 0 100] by simp
    moreover have "(2::real) powi 101 = 2 powi 100 + 2 powi 100" by simp
    ultimately have hi: "1 + y \<le> 2 powi 101" using y(3) by linarith
    show ?thesis
      unfolding c_safetyMultiplier_def band_def f(1)
      using y(1) round64_between[OF lo hi] by simp
  qed
  have wl: "band 200 (c_workerLimitedTPS p)"
  proof -
    have q: "band 200 (fdiv (maxWorkers p) (generationTimeSeconds p))"
      using band_fdiv[OF i(4) i(1)] by simp
    from bandD[OF q] obtain x where
      x: "fdiv (maxWorkers p) (generationTimeSeconds p) = Fin x" "x \<le> 2 powi 200" by blast
    have "(2::real) powi (- 200) \<le> 2 powi 0" by (rule powi_two_mono) simp
    moreover have "(2::real) powi 0 \<le> 2 powi 200" by (rule powi_two_mono) simp
    ultimately show ?thesis
      unfolding c_workerLimitedTPS_def band_def x(1) using x(2) by simp
  qed
  have b: "band 100 (arg_burstTrafficMultiplier p)"
  proof -
    from i(7) obtain x where x: "arg_burstTrafficMultiplier p = Fin x" "1 \<le> x" "x \<le> 2 powi 100"
      by (cases "arg_burstTrafficMultiplier p") simp_all
    have "(2::real) powi (- 100) \<le> 2 powi 0" by (rule powi_two_mono) simp
    then show ?thesis unfolding band_def using x by simp
  qed
  have "band 601 (fmul (c_runCallsPerSecondPerUser p) (c_maxSupportedUsers p))"
    using band_fmul[OF rpu msu] by simp
  from band_fmul[OF this sm]
  have "band 702 (fmul (fmul (c_runCallsPerSecondPerUser p) (c_maxSupportedUsers p))
      (c_safetyMultiplier p))"
    by simp
  then show run: "band 702 (c_runTPS p)"
    unfolding c_runTPS_def using band_mono[OF wl, of 702] by (intro band_Math_min) simp_all
  have "band 801 (fmul (c_statusCallsPerSecondPerUser p) (c_maxSupportedUsers p))"
    using band_fmul[OF spu msu] by simp
  from band_fmul[OF this sm]
  show st: "band 902 (c_statusTPS p)" unfolding c_statusTPS_def by simp
  have "band 802 (fmul (c_runTPS p) (arg_burstTrafficMultiplier p))"
    using band_fmul[OF run b] by simp
  then show "band 802 (c_runTPSBurst p)"
    unfolding c_runTPSBurst_def using band_mono[OF wl, of 802] by (intro band_Math_min) simp_all
  show "band 1002 (c_statusTPSBurst p)"
    unfolding c_statusTPSBurst_def using band_fmul[OF st b] by simp
qed

lemma Math_max_one_finite: "a \<noteq> NaN \<Longrightarrow> js_le (Fin 1) (Math_max (Fin 1) a)"
  by (cases a) auto

lemma Math_floor_not_NaN: "a \<noteq> NaN \<Longrightarrow> Math_floor a \<noteq> NaN"
  by (cases a) simp_all

lemma in_range_limits:
  assumes r: "in_range p"
  shows "runTPS (limits (calculateTPS p)) \<noteq> NaN" "statusTPS (limits (calculateTPS p)) \<noteq> NaN"
    "runTPSBurst (limits (calculateTPS p)) \<noteq> NaN"
    "statusTPSBurst (limits (calculateTPS p)) \<noteq> NaN"
proof -
  note b = band_statusTPS_chain[OF r]
  have n: "toFixed2 (c_runTPS p) \<noteq> NaN" "toFixed2 (c_statusTPS p) \<noteq> NaN"
    "Math_floor (c_runTPSBurst p) \<noteq> NaN" "Math_floor (c_statusTPSBurst p) \<noteq> NaN"
    using b band_not_NaN toFixed2_not_NaN Math_floor_not_NaN by blast+
  show "runTPS (limits (calculateTPS p)) \<noteq> NaN" "statusTPS (limits (calculateTPS p)) \<noteq> NaN"
    "runTPSBurst (limits (calculateTPS p)) \<noteq> NaN"
    "statusTPSBurst (limits (calculateTPS p)) \<noteq> NaN"
    using Math_max_one_finite[OF n(1)] Math_max_one_finite[OF n(2)]
      Math_max_one_finite[OF n(3)] Math_max_one_finite[OF n(4)] js_le_not_NaN
    by (simp_all add: calculateTPS_def)
qed



section \<open>The computation where a product overflows\<close>

lemma big_pos: "0 < big"
  unfolding big_def by (rule zero_less_power_int) simp

lemma huge_pos: "0 < huge"
  unfolding huge_def by (rule zero_less_power_int) simp

lemma round64_big: "round64 big = Fin big"
  unfolding big_def by (rule round64_exact_pow2) simp_all

lemma round64_big_big: "round64 (big * big) = PInf"
proof -
  have e: "big * big = 2 powi 1200" unfolding big_def using pow2_add[of 600 600] by simp
  have "overflow_threshold \<le> 2 powi 1200"
    unfolding overflow_threshold_def by (rule powi_two_mono) simp
  then show ?thesis unfolding e by (rule round64_overflow)
qed

lemma round64_two_big: "round64 (big + big) = Fin (big + big)"
proof -
  have e: "big + big = 2 powi 601" unfolding big_def using pow2_add[of 600 1] by simp
  show ?thesis unfolding e by (rule round64_exact_pow2) simp_all
qed

lemma round64_twice_big: "round64 (2 * big) = Fin (2 * big)"
  using round64_two_big by (simp only: mult_2)

lemma big_ratio: "big / (2 * big) = 1 / 2"
  using big_pos by (simp add: field_simps)

lemma round64_half: "round64 (1 / 2) = Fin (1 / 2)"
  using round64_exact_pow2[of "- 1"] by (simp add: power_int_minus)

lemma round64_two: "round64 2 = Fin 2"
  using round64_exact_pow2[of 1] by simp

lemma round64_inv_big: "\<exists>y. round64 (1 / big) = Fin y \<and> y \<le> 1"
proof -
  have e: "1 / big = 2 powi (- 600)" unfolding big_def using pow2_diff[of 0 600] by simp
  have r: "round64 (2 powi (- 600)) = Fin (2 powi (- 600))"
    by (rule round64_exact_pow2) simp_all
  have "(2::real) powi (- 600) \<le> 2 powi 0" by (rule powi_two_mono) simp
  then have "(2::real) powi (- 600) \<le> 1" by (simp only: power_int_0_right)
  then show ?thesis unfolding e using r by blast
qed

lemma round64_huge_doubled: "round64 (huge / (1 / 2)) = PInf"
proof -
  have e: "huge / (1 / 2) = 2 powi 1024" unfolding huge_def using pow2_add[of 1023 1] by simp
  have "overflow_threshold \<le> 2 powi 1024" by (simp only: overflow_threshold_def order_refl)
  then show ?thesis unfolding e by (rule round64_overflow)
qed

lemma round64_huge_twice: "round64 (huge * 2) = PInf"
  using round64_huge_doubled by simp

lemma round64_huge_big: "round64 (huge / big) = Fin (2 powi 423)"
proof -
  have e: "huge / big = 2 powi 423" unfolding huge_def big_def using pow2_diff[of 1023 600] by simp
  show ?thesis unfolding e by (rule round64_exact_pow2) simp_all
qed

lemma one_le_pow423: "(1::real) \<le> 2 powi 423"
proof -
  have "(2::real) powi 0 \<le> 2 powi 423" by (rule powi_two_mono) simp
  then show ?thesis by (simp only: power_int_0_right)
qed

lemma valid_overflow: "valid_params overflow_params"
  using big_pos by (simp add: valid_params_def overflow_params_def arg_defs)

lemma valid_overflow_poll:
  "valid_params (overflow_params\<lparr>statusPollIntervalSeconds := Fin big\<rparr>)"
  using big_pos by (simp add: valid_params_def overflow_params_def arg_defs)

lemma valid_overflow_workers: "valid_params (overflow_params\<lparr>maxWorkers := Fin huge\<rparr>)"
  using big_pos huge_pos by (simp add: valid_params_def overflow_params_def arg_defs)

lemma overflow_sessionDurationSeconds:
  "c_sessionDurationSeconds (overflow_params\<lparr>statusPollIntervalSeconds := s, maxWorkers := w\<rparr>)
     = PInf"
  by (simp add: c_sessionDurationSeconds_def overflow_params_def round64_big_big)

lemma overflow_statusTPS: "c_statusTPS overflow_params = NaN"
proof -
  have sd: "c_sessionDurationSeconds overflow_params = PInf"
    by (simp add: c_sessionDurationSeconds_def overflow_params_def round64_big_big)
  have "c_statusChecksPerGeneration overflow_params = Fin big"
    by (simp add: c_statusChecksPerGeneration_def overflow_params_def round64_big)
  then have "c_statusCallsPerSession overflow_params = PInf"
    by (simp add: c_statusCallsPerSession_def overflow_params_def round64_big_big)
  then have "c_statusCallsPerSecondPerUser overflow_params = NaN"
    by (simp add: c_statusCallsPerSecondPerUser_def sd)
  then show ?thesis by (simp add: c_statusTPS_def)
qed

lemma overflow_limit_statusTPS: "statusTPS (limits (calculateTPS overflow_params)) = NaN"
  by (simp add: calculateTPS_def overflow_statusTPS)

lemma overflow_limit_statusTPSBurst:
  "statusTPSBurst (limits (calculateTPS overflow_params)) = NaN"
  by (simp add: calculateTPS_def c_statusTPSBurst_def overflow_statusTPS)

lemma overflow_common:
  "c_cycleTimeSeconds (overflow_params\<lparr>statusPollIntervalSeconds := s, maxWorkers := w\<rparr>)
     = Fin (big + big)"
  "c_workerUtilizationRatio (overflow_params\<lparr>statusPollIntervalSeconds := s, maxWorkers := w\<rparr>)
     = Fin (1 / 2)"
  "c_safetyMultiplier (overflow_params\<lparr>statusPollIntervalSeconds := s, maxWorkers := w\<rparr>)
     = Fin 1"
  "c_runCallsPerSecondPerUser (overflow_params\<lparr>statusPollIntervalSeconds := s, maxWorkers := w\<rparr>)
     = Fin 0"
proof -
  let ?q = "overflow_params\<lparr>statusPollIntervalSeconds := s, maxWorkers := w\<rparr>"
  show c: "c_cycleTimeSeconds ?q = Fin (big + big)"
    by (simp add: c_cycleTimeSeconds_def overflow_params_def arg_defs round64_twice_big)
  have "2 * big \<noteq> 0" using big_pos by simp
  then show "c_workerUtilizationRatio ?q = Fin (1 / 2)"
    unfolding c_workerUtilizationRatio_def c
    by (simp add: overflow_params_def big_ratio round64_half)
  show "c_safetyMultiplier ?q = Fin 1"
    by (simp add: c_safetyMultiplier_def overflow_params_def arg_defs)
  show "c_runCallsPerSecondPerUser ?q = Fin 0"
    unfolding c_runCallsPerSecondPerUser_def overflow_sessionDurationSeconds
    by (simp add: c_runCallsPerSession_def overflow_params_def)
qed

lemma overflow_runTPS: "c_runTPS overflow_params = Fin 0"
proof -
  note c = overflow_common[where s = "Fin 1" and w = "Fin 1"]
  have q: "overflow_params\<lparr>statusPollIntervalSeconds := Fin 1, maxWorkers := Fin 1\<rparr>
      = overflow_params"
    by (simp add: overflow_params_def)
  have msu: "c_maxSupportedUsers overflow_params = Fin 2"
    unfolding c_maxSupportedUsers_def using c(2)
    by (simp add: q) (simp add: overflow_params_def round64_two)
  from round64_inv_big obtain y where y: "round64 (1 / big) = Fin y" "y \<le> 1" by blast
  have wl: "c_workerLimitedTPS overflow_params = Fin 1"
    using big_pos y by (simp add: c_workerLimitedTPS_def overflow_params_def)
  show ?thesis
    unfolding c_runTPS_def using c(3,4) by (simp add: q msu wl)
qed

lemma overflow_limit_runTPS: "runTPS (limits (calculateTPS overflow_params)) = Fin 1"
  by (simp add: calculateTPS_def overflow_runTPS)

lemma overflow_workers_runTPS:
  "c_runTPS (overflow_params\<lparr>maxWorkers := Fin huge\<rparr>) = NaN"
  "c_workerLimitedTPS (overflow_params\<lparr>maxWorkers := Fin huge\<rparr>) = Fin (2 powi 423)"
proof -
  let ?q = "overflow_params\<lparr>maxWorkers := Fin huge\<rparr>"
  have q: "overflow_params\<lparr>statusPollIntervalSeconds := Fin 1, maxWorkers := Fin huge\<rparr> = ?q"
    by (simp add: overflow_params_def)
  note c = overflow_common[where s = "Fin 1" and w = "Fin huge", unfolded q]
  have msu: "c_maxSupportedUsers ?q = PInf"
    unfolding c_maxSupportedUsers_def c(2) by (simp add: round64_huge_twice)
  have "fdiv (Fin huge) (Fin big) = Fin (2 powi 423)"
    using big_pos by (simp only: fdiv.simps round64_huge_big) simp
  moreover have "Math_max (Fin (2 powi 423)) (Fin 1) = Fin (2 powi 423)"
    using one_le_pow423 by (simp only: Math_max.simps js_le.simps) simp
  ultimately show wl: "c_workerLimitedTPS ?q = Fin (2 powi 423)"
    by (simp add: c_workerLimitedTPS_def overflow_params_def del: power_int_numeral)
  show "c_runTPS ?q = NaN"
    unfolding c_runTPS_def c(3,4) msu by simp
qed

lemma overflow_workers_limits:
  "runTPS (limits (calculateTPS (overflow_params\<lparr>maxWorkers := Fin huge\<rparr>))) = NaN"
  "runTPSBurst (limits (calculateTPS (overflow_params\<lparr>maxWorkers := Fin huge\<rparr>))) = NaN"
  "workerLimitedTPS (metrics (details (calculateTPS (overflow_params\<lparr>maxWorkers := Fin huge\<rparr>))))
     = Fin (2 powi 423)"
  by (simp_all add: calculateTPS_def c_runTPSBurst_def overflow_workers_runTPS
      del: power_int_numeral)

lemma overflow_poll_limit_statusTPS:
  "statusTPS (limits (calculateTPS (overflow_params\<lparr>statusPollIntervalSeconds := Fin big\<rparr>)))
     = Fin 1"
proof -
  let ?q = "overflow_params\<lparr>statusPollIntervalSeconds := Fin big\<rparr>"
  have q: "overflow_params\<lparr>statusPollIntervalSeconds := Fin big, maxWorkers := Fin 1\<rparr> = ?q"
    by (simp add: overflow_params_def)
  note c = overflow_common[where s = "Fin big" and w = "Fin 1", unfolded q]
  have sd: "c_sessionDurationSeconds ?q = PInf"
    using overflow_sessionDurationSeconds[where s = "Fin big" and w = "Fin 1"] by (simp only: q)
  have "c_statusChecksPerGeneration ?q = Fin 1"
    using big_pos by (simp add: c_statusChecksPerGeneration_def overflow_params_def)
  then have "c_statusCallsPerSession ?q = Fin big"
    by (simp add: c_statusCallsPerSession_def overflow_params_def round64_big)
  then have spu: "c_statusCallsPerSecondPerUser ?q = Fin 0"
    by (simp add: c_statusCallsPerSecondPerUser_def sd)
  have msu: "c_maxSupportedUsers ?q = Fin 2"
    unfolding c_maxSupportedUsers_def c(2) by (simp add: overflow_params_def round64_two)
  have "c_statusTPS ?q = Fin 0"
    unfolding c_statusTPS_def spu msu c(3) by simp
  then show ?thesis by (simp add: calculateTPS_def)
qed


section \<open>Evaluation at concrete inputs\<close>

lemmas fl_eval = fl_def expo_def rne_def Let_def compute_bitlen

lemma scenario_statusChecksPerGeneration:
  "c_statusChecksPerGeneration scenario_params = Fin 6"
  by (simp add: c_statusChecksPerGeneration_def; simp add: scenario_params_def arg_defs round64_normal fl_eval)

lemma scenario_sessionDurationSeconds:
  "c_sessionDurationSeconds scenario_params = Fin 120"
  by (simp add: c_sessionDurationSeconds_def; simp add: scenario_params_def arg_defs round64_normal fl_eval)

lemma scenario_runCallsPerSession:
  "c_runCallsPerSession scenario_params = Fin 4"
  by (simp add: c_runCallsPerSession_def; simp add: scenario_params_def arg_defs round64_normal fl_eval)

lemma scenario_statusCallsPerSession:
  "c_statusCallsPerSession scenario_params = Fin 24"
  by (simp add: c_statusCallsPerSession_def scenario_statusChecksPerGeneration; simp add: scenario_params_def arg_defs round64_normal fl_eval)

lemma scenario_runCallsPerSecondPerUser:
  "c_runCallsPerSecondPerUser scenario_params = Fin (4803839602528529 / 144115188075855872)"
  by (simp add: c_runCallsPerSecondPerUser_def scenario_runCallsPerSession scenario_sessionDurationSeconds; simp add: scenario_params_def arg_defs round64_normal fl_eval)

lemma scenario_statusCallsPerSecondPerUser:
  "c_statusCallsPerSecondPerUser scenario_params = Fin (3602879701896397 / 18014398509481984)"
  by (simp add: c_statusCallsPerSecondPerUser_def scenario_statusCallsPerSession scenario_sessionDurationSeconds; simp add: scenario_params_def arg_defs round64_normal fl_eval)

lemma scenario_cycleTimeSeconds:
  "c_cycleTimeSeconds scenario_params = Fin 45"
  by (simp add: c_cycleTimeSeconds_def; simp add: scenario_params_def arg_defs round64_normal fl_eval)

lemma scenario_workerUtilizationRatio:
  "c_workerUtilizationRatio scenario_params = Fin (6004799503160661 / 9007199254740992)"
  by (simp add: c_workerUtilizationRatio_def scenario_cycleTimeSeconds; simp add: scenario_params_def arg_defs round64_normal fl_eval)

lemma scenario_maxSupportedUsers:
  "c_maxSupportedUsers scenario_params = Fin 15"
  by (simp add: c_maxSupportedUsers_def scenario_workerUtilizationRatio; simp add: scenario_params_def arg_defs round64_normal fl_eval)

lemma scenario_workerLimitedTPS:
  "c_workerLimitedTPS scenario_params = Fin 1"
  by (simp add: c_workerLimitedTPS_def; simp add: scenario_params_def arg_defs round64_normal fl_eval)

lemma scenario_safetyMultiplier:
  "c_safetyMultiplier scenario_params = Fin 1"
  by (simp add: c_safetyMultiplier_def; simp add: scenario_params_def arg_defs round64_normal fl_eval)

lemma scenario_runTPS:
  "c_runTPS scenario_params = Fin (1 / 2)"
  by (simp add: c_runTPS_def scenario_runCallsPerSecondPerUser scenario_maxSupportedUsers scenario_safetyMultiplier scenario_workerLimitedTPS; simp add: scenario_params_def arg_defs round64_normal fl_eval)

lemma scenario_statusTPS:
  "c_statusTPS scenario_params = Fin 3"
  by (simp add: c_statusTPS_def scenario_statusCallsPerSecondPerUser scenario_maxSupportedUsers scenario_safetyMultiplier; simp add: scenario_params_def arg_defs round64_normal fl_eval)

lemma scenario_runTPSBurst:
  "c_runTPSBurst scenario_params = Fin 1"
  by (simp add: c_runTPSBurst_def scenario_workerLimitedTPS scenario_runTPS; simp add: scenario_params_def arg_defs round64_normal fl_eval)

lemma scenario_statusTPSBurst:
  "c_statusTPSBurst scenario_params = Fin 6"
  by (simp add: c_statusTPSBurst_def scenario_statusTPS; simp add: scenario_params_def arg_defs round64_normal fl_eval)

lemma scenario_limit_runTPS:
  "runTPS (limits (calculateTPS scenario_params)) = Fin 1"
  by (simp add: calculateTPS_def scenario_runTPS; simp add: round64_normal fl_eval)

lemma scenario_limit_runTPSBurst:
  "runTPSBurst (limits (calculateTPS scenario_params)) = Fin 1"
  by (simp add: calculateTPS_def scenario_runTPSBurst; simp add: round64_normal fl_eval)

lemma scenario_limit_statusTPS:
  "statusTPS (limits (calculateTPS scenario_params)) = Fin 3"
  by (simp add: calculateTPS_def scenario_statusTPS; simp add: round64_normal fl_eval)

lemma scenario_limit_statusTPSBurst:
  "statusTPSBurst (limits (calculateTPS scenario_params)) = Fin 6"
  by (simp add: calculateTPS_def scenario_statusTPSBurst; simp add: round64_normal fl_eval)

lemma ceiling_sessionDurationSeconds:
  "c_sessionDurationSeconds ceiling_params = Fin 3"
  by (simp add: c_sessionDurationSeconds_def; simp add: ceiling_params_def arg_defs round64_normal fl_eval)

lemma ceiling_runCallsPerSession:
  "c_runCallsPerSession ceiling_params = Fin 1"
  by (simp add: c_runCallsPerSession_def; simp add: ceiling_params_def arg_defs round64_normal fl_eval)

lemma ceiling_runCallsPerSecondPerUser:
  "c_runCallsPerSecondPerUser ceiling_params = Fin (6004799503160661 / 18014398509481984)"
  by (simp add: c_runCallsPerSecondPerUser_def ceiling_runCallsPerSession ceiling_sessionDurationSeconds; simp add: ceiling_params_def arg_defs round64_normal fl_eval)

lemma ceiling_cycleTimeSeconds:
  "c_cycleTimeSeconds ceiling_params = Fin 18"
  by (simp add: c_cycleTimeSeconds_def; simp add: ceiling_params_def arg_defs round64_normal fl_eval)

lemma ceiling_workerUtilizationRatio:
  "c_workerUtilizationRatio ceiling_params = Fin (6004799503160661 / 36028797018963968)"
  by (simp add: c_workerUtilizationRatio_def ceiling_cycleTimeSeconds; simp add: ceiling_params_def arg_defs round64_normal fl_eval)

lemma ceiling_maxSupportedUsers:
  "c_maxSupportedUsers ceiling_params = Fin 48"
  by (simp add: c_maxSupportedUsers_def ceiling_workerUtilizationRatio; simp add: ceiling_params_def arg_defs round64_normal fl_eval)

lemma ceiling_workerLimitedTPS:
  "c_workerLimitedTPS ceiling_params = Fin (6004799503160661 / 2251799813685248)"
  by (simp add: c_workerLimitedTPS_def; simp add: ceiling_params_def arg_defs round64_normal fl_eval)

lemma ceiling_safetyMultiplier:
  "c_safetyMultiplier ceiling_params = Fin 1"
  by (simp add: c_safetyMultiplier_def; simp add: ceiling_params_def arg_defs round64_normal fl_eval)

lemma ceiling_runTPS:
  "c_runTPS ceiling_params = Fin (6004799503160661 / 2251799813685248)"
  by (simp add: c_runTPS_def ceiling_runCallsPerSecondPerUser ceiling_maxSupportedUsers ceiling_safetyMultiplier ceiling_workerLimitedTPS; simp add: ceiling_params_def arg_defs round64_normal fl_eval)

lemma ceiling_limit_runTPS:
  "runTPS (limits (calculateTPS ceiling_params)) = Fin (1503076375634903 / 562949953421312)"
  by (simp add: calculateTPS_def ceiling_runTPS; simp add: round64_normal fl_eval)

lemma slow_poll_statusChecksPerGeneration:
  "c_statusChecksPerGeneration slow_poll_params = Fin (5404319552844595 / 18014398509481984)"
  by (simp add: c_statusChecksPerGeneration_def; simp add: slow_poll_params_def arg_defs round64_normal fl_eval)

lemma slow_poll_sessionDurationSeconds:
  "c_sessionDurationSeconds slow_poll_params = Fin 120"
  by (simp add: c_sessionDurationSeconds_def; simp add: slow_poll_params_def arg_defs round64_normal fl_eval)

lemma slow_poll_statusCallsPerSession:
  "c_statusCallsPerSession slow_poll_params = Fin (5404319552844595 / 4503599627370496)"
  by (simp add: c_statusCallsPerSession_def slow_poll_statusChecksPerGeneration; simp add: slow_poll_params_def arg_defs round64_normal fl_eval)

lemma slow_poll_statusCallsPerSecondPerUser:
  "c_statusCallsPerSecondPerUser slow_poll_params = Fin (5764607523034235 / 576460752303423488)"
  by (simp add: c_statusCallsPerSecondPerUser_def slow_poll_statusCallsPerSession slow_poll_sessionDurationSeconds; simp add: slow_poll_params_def arg_defs round64_normal fl_eval)

lemma slow_poll_cycleTimeSeconds:
  "c_cycleTimeSeconds slow_poll_params = Fin 45"
  by (simp add: c_cycleTimeSeconds_def; simp add: slow_poll_params_def arg_defs round64_normal fl_eval)

lemma slow_poll_workerUtilizationRatio:
  "c_workerUtilizationRatio slow_poll_params = Fin (6004799503160661 / 9007199254740992)"
  by (simp add: c_workerUtilizationRatio_def slow_poll_cycleTimeSeconds; simp add: slow_poll_params_def arg_defs round64_normal fl_eval)

lemma slow_poll_maxSupportedUsers:
  "c_maxSupportedUsers slow_poll_params = Fin 15"
  by (simp add: c_maxSupportedUsers_def slow_poll_workerUtilizationRatio; simp add: slow_poll_params_def arg_defs round64_normal fl_eval)

lemma slow_poll_safetyMultiplier:
  "c_safetyMultiplier slow_poll_params = Fin 1"
  by (simp add: c_safetyMultiplier_def; simp add: slow_poll_params_def arg_defs round64_normal fl_eval)

lemma slow_poll_statusTPS:
  "c_statusTPS slow_poll_params = Fin (5404319552844595 / 36028797018963968)"
  by (simp add: c_statusTPS_def slow_poll_statusCallsPerSecondPerUser slow_poll_maxSupportedUsers slow_poll_safetyMultiplier; simp add: slow_poll_params_def arg_defs round64_normal fl_eval)

lemma slow_poll_limit_statusTPS:
  "statusTPS (limits (calculateTPS slow_poll_params)) = Fin 1"
  by (simp add: calculateTPS_def slow_poll_statusTPS; simp add: round64_normal fl_eval)

lemma slower_poll_statusChecksPerGeneration:
  "c_statusChecksPerGeneration (slow_poll_params\<lparr>statusPollIntervalSeconds := Fin 200\<rparr>) = Fin (5404319552844595 / 36028797018963968)"
  by (simp add: c_statusChecksPerGeneration_def; simp add: slow_poll_params_def arg_defs round64_normal fl_eval)

lemma slower_poll_sessionDurationSeconds:
  "c_sessionDurationSeconds (slow_poll_params\<lparr>statusPollIntervalSeconds := Fin 200\<rparr>) = Fin 120"
  by (simp add: c_sessionDurationSeconds_def; simp add: slow_poll_params_def arg_defs round64_normal fl_eval)

lemma slower_poll_statusCallsPerSession:
  "c_statusCallsPerSession (slow_poll_params\<lparr>statusPollIntervalSeconds := Fin 200\<rparr>) = Fin (5404319552844595 / 9007199254740992)"
  by (simp add: c_statusCallsPerSession_def slower_poll_statusChecksPerGeneration; simp add: slow_poll_params_def arg_defs round64_normal fl_eval)

lemma slower_poll_statusCallsPerSecondPerUser:
  "c_statusCallsPerSecondPerUser (slow_poll_params\<lparr>statusPollIntervalSeconds := Fin 200\<rparr>) = Fin (5764607523034235 / 1152921504606846976)"
  by (simp add: c_statusCallsPerSecondPerUser_def slower_poll_statusCallsPerSession slower_poll_sessionDurationSeconds; simp add: slow_poll_params_def arg_defs round64_normal fl_eval)

lemma slower_poll_cycleTimeSeconds:
  "c_cycleTimeSeconds (slow_poll_params\<lparr>statusPollIntervalSeconds := Fin 200\<rparr>) = Fin 45"
  by (simp add: c_cycleTimeSeconds_def; simp add: slow_poll_params_def arg_defs round64_normal fl_eval)

lemma slower_poll_workerUtilizationRatio:
  "c_workerUtilizationRatio (slow_poll_params\<lparr>statusPollIntervalSeconds := Fin 200\<rparr>) = Fin (6004799503160661 / 9007199254740992)"
  by (simp add: c_workerUtilizationRatio_def slower_poll_cycleTimeSeconds; simp add: slow_poll_params_def arg_defs round64_normal fl_eval)

lemma slower_poll_maxSupportedUsers:
  "c_maxSupportedUsers (slow_poll_params\<lparr>statusPollIntervalSeconds := Fin 200\<rparr>) = Fin 15"
  by (simp add: c_maxSupportedUsers_def slower_poll_workerUtilizationRatio; simp add: slow_poll_params_def arg_defs round64_normal fl_eval)

lemma slower_poll_safetyMultiplier:
  "c_safetyMultiplier (slow_poll_params\<lparr>statusPollIntervalSeconds := Fin 200\<rparr>) = Fin 1"
  by (simp add: c_safetyMultiplier_def; simp add: slow_poll_params_def arg_defs round64_normal fl_eval)

lemma slower_poll_statusTPS:
  "c_statusTPS (slow_poll_params\<lparr>statusPollIntervalSeconds := Fin 200\<rparr>) = Fin (5404319552844595 / 72057594037927936)"
  by (simp add: c_statusTPS_def slower_poll_statusCallsPerSecondPerUser slower_poll_maxSupportedUsers slower_poll_safetyMultiplier; simp add: slow_poll_params_def arg_defs round64_normal fl_eval)

lemma slower_poll_limit_statusTPS:
  "statusTPS (limits (calculateTPS (slow_poll_params\<lparr>statusPollIntervalSeconds := Fin 200\<rparr>))) = Fin 1"
  by (simp add: calculateTPS_def slower_poll_statusTPS; simp add: round64_normal fl_eval)

lemma unit_burst_statusChecksPerGeneration:
  "c_statusChecksPerGeneration unit_burst_params = Fin 1"
  by (simp add: c_statusChecksPerGeneration_def; simp add: unit_burst_params_def arg_defs round64_normal fl_eval)

lemma unit_burst_sessionDurationSeconds:
  "c_sessionDurationSeconds unit_burst_params = Fin 1000"
  by (simp add: c_sessionDurationSeconds_def; simp add: unit_burst_params_def arg_defs round64_normal fl_eval)

lemma unit_burst_runCallsPerSession:
  "c_runCallsPerSession unit_burst_params = Fin 1"
  by (simp add: c_runCallsPerSession_def; simp add: unit_burst_params_def arg_defs round64_normal fl_eval)

lemma unit_burst_statusCallsPerSession:
  "c_statusCallsPerSession unit_burst_params = Fin 1"
  by (simp add: c_statusCallsPerSession_def unit_burst_statusChecksPerGeneration; simp add: unit_burst_params_def arg_defs round64_normal fl_eval)

lemma unit_burst_runCallsPerSecondPerUser:
  "c_runCallsPerSecondPerUser unit_burst_params = Fin (1152921504606847 / 1152921504606846976)"
  by (simp add: c_runCallsPerSecondPerUser_def unit_burst_runCallsPerSession unit_burst_sessionDurationSeconds; simp add: unit_burst_params_def arg_defs round64_normal fl_eval)

lemma unit_burst_statusCallsPerSecondPerUser:
  "c_statusCallsPerSecondPerUser unit_burst_params = Fin (1152921504606847 / 1152921504606846976)"
  by (simp add: c_statusCallsPerSecondPerUser_def unit_burst_statusCallsPerSession unit_burst_sessionDurationSeconds; simp add: unit_burst_params_def arg_defs round64_normal fl_eval)

lemma unit_burst_cycleTimeSeconds:
  "c_cycleTimeSeconds unit_burst_params = Fin 1000"
  by (simp add: c_cycleTimeSeconds_def; simp add: unit_burst_params_def arg_defs round64_normal fl_eval)

lemma unit_burst_workerUtilizationRatio:
  "c_workerUtilizationRatio unit_burst_params = Fin 1"
  by (simp add: c_workerUtilizationRatio_def unit_burst_cycleTimeSeconds; simp add: unit_burst_params_def arg_defs round64_normal fl_eval)

lemma unit_burst_maxSupportedUsers:
  "c_maxSupportedUsers unit_burst_params = Fin 1999"
  by (simp add: c_maxSupportedUsers_def unit_burst_workerUtilizationRatio; simp add: unit_burst_params_def arg_defs round64_normal fl_eval)

lemma unit_burst_workerLimitedTPS:
  "c_workerLimitedTPS unit_burst_params = Fin (4501347827556811 / 2251799813685248)"
  by (simp add: c_workerLimitedTPS_def; simp add: unit_burst_params_def arg_defs round64_normal fl_eval)

lemma unit_burst_safetyMultiplier:
  "c_safetyMultiplier unit_burst_params = Fin 1"
  by (simp add: c_safetyMultiplier_def; simp add: unit_burst_params_def arg_defs round64_normal fl_eval)

lemma unit_burst_runTPS:
  "c_runTPS unit_burst_params = Fin (4501347827556811 / 2251799813685248)"
  by (simp add: c_runTPS_def unit_burst_runCallsPerSecondPerUser unit_burst_maxSupportedUsers unit_burst_safetyMultiplier unit_burst_workerLimitedTPS; simp add: unit_burst_params_def arg_defs round64_normal fl_eval)

lemma unit_burst_statusTPS:
  "c_statusTPS unit_burst_params = Fin (4501347827556811 / 2251799813685248)"
  by (simp add: c_statusTPS_def unit_burst_statusCallsPerSecondPerUser unit_burst_maxSupportedUsers unit_burst_safetyMultiplier; simp add: unit_burst_params_def arg_defs round64_normal fl_eval)

lemma unit_burst_runTPSBurst:
  "c_runTPSBurst unit_burst_params = Fin (4501347827556811 / 2251799813685248)"
  by (simp add: c_runTPSBurst_def unit_burst_workerLimitedTPS unit_burst_runTPS; simp add: unit_burst_params_def arg_defs round64_normal fl_eval)

lemma unit_burst_statusTPSBurst:
  "c_statusTPSBurst unit_burst_params = Fin (4501347827556811 / 2251799813685248)"
  by (simp add: c_statusTPSBurst_def unit_burst_statusTPS; simp add: unit_burst_params_def arg_defs round64_normal fl_eval)

lemma unit_burst_limit_runTPS:
  "runTPS (limits (calculateTPS unit_burst_params)) = Fin 2"
  by (simp add: calculateTPS_def unit_burst_runTPS; simp add: round64_normal fl_eval)

lemma unit_burst_limit_statusTPS:
  "statusTPS (limits (calculateTPS unit_burst_params)) = Fin 2"
  by (simp add: calculateTPS_def unit_burst_statusTPS; simp add: round64_normal fl_eval)

lemma unit_burst_limit_runTPSBurst:
  "runTPSBurst (limits (calculateTPS unit_burst_params)) = Fin 1"
  by (simp add: calculateTPS_def unit_burst_runTPSBurst; simp add: round64_normal fl_eval)

lemma unit_burst_limit_statusTPSBurst:
  "statusTPSBurst (limits (calculateTPS unit_burst_params)) = Fin 1"
  by (simp add: calculateTPS_def unit_burst_statusTPSBurst; simp add: round64_normal fl_eval)

lemma session_statusChecksPerGeneration:
  "c_statusChecksPerGeneration session_params = Fin (4278419646001971 / 562949953421312)"
  by (simp add: c_statusChecksPerGeneration_def; simp add: session_params_def arg_defs round64_normal fl_eval)

lemma session_sessionDurationSeconds:
  "c_sessionDurationSeconds session_params = Fin 190"
  by (simp add: c_sessionDurationSeconds_def; simp add: session_params_def arg_defs round64_normal fl_eval)

lemma session_statusCallsPerSession:
  "c_statusCallsPerSession session_params = Fin 38"
  by (simp add: c_statusCallsPerSession_def session_statusChecksPerGeneration; simp add: session_params_def arg_defs round64_normal fl_eval)

lemma session_statusCallsPerSecondPerUser:
  "c_statusCallsPerSecondPerUser session_params = Fin (3602879701896397 / 18014398509481984)"
  by (simp add: c_statusCallsPerSecondPerUser_def session_statusCallsPerSession session_sessionDurationSeconds; simp add: session_params_def arg_defs round64_normal fl_eval)

lemma session_cycleTimeSeconds:
  "c_cycleTimeSeconds session_params = Fin 95"
  by (simp add: c_cycleTimeSeconds_def; simp add: session_params_def arg_defs round64_normal fl_eval)

lemma session_workerUtilizationRatio:
  "c_workerUtilizationRatio session_params = Fin (3602879701896397 / 9007199254740992)"
  by (simp add: c_workerUtilizationRatio_def session_cycleTimeSeconds; simp add: session_params_def arg_defs round64_normal fl_eval)

lemma session_maxSupportedUsers:
  "c_maxSupportedUsers session_params = Fin (265 / 2)"
  by (simp add: c_maxSupportedUsers_def session_workerUtilizationRatio; simp add: session_params_def arg_defs round64_normal fl_eval)

lemma session_safetyMultiplier:
  "c_safetyMultiplier session_params = Fin 1"
  by (simp add: c_safetyMultiplier_def; simp add: session_params_def arg_defs round64_normal fl_eval)

lemma session_statusTPS:
  "c_statusTPS session_params = Fin (53 / 2)"
  by (simp add: c_statusTPS_def session_statusCallsPerSecondPerUser session_maxSupportedUsers session_safetyMultiplier; simp add: session_params_def arg_defs round64_normal fl_eval)

lemma session_statusTPSBurst:
  "c_statusTPSBurst session_params = Fin 53"
  by (simp add: c_statusTPSBurst_def session_statusTPS; simp add: session_params_def arg_defs round64_normal fl_eval)

lemma session_limit_statusTPSBurst:
  "statusTPSBurst (limits (calculateTPS session_params)) = Fin 53"
  by (simp add: calculateTPS_def session_statusTPSBurst; simp add: round64_normal fl_eval)

lemma long_session_statusChecksPerGeneration:
  "c_statusChecksPerGeneration (session_params\<lparr>imagesPerSession := Fin 18\<rparr>) = Fin (4278419646001971 / 562949953421312)"
  by (simp add: c_statusChecksPerGeneration_def; simp add: session_params_def arg_defs round64_normal fl_eval)

lemma long_session_sessionDurationSeconds:
  "c_sessionDurationSeconds (session_params\<lparr>imagesPerSession := Fin 18\<rparr>) = Fin 684"
  by (simp add: c_sessionDurationSeconds_def; simp add: session_params_def arg_defs round64_normal fl_eval)

lemma long_session_statusCallsPerSession:
  "c_statusCallsPerSession (session_params\<lparr>imagesPerSession := Fin 18\<rparr>) = Fin (4813222101752217 / 35184372088832)"
  by (simp add: c_statusCallsPerSession_def long_session_statusChecksPerGeneration; simp add: session_params_def arg_defs round64_normal fl_eval)

lemma long_session_statusCallsPerSecondPerUser:
  "c_statusCallsPerSecondPerUser (session_params\<lparr>imagesPerSession := Fin 18\<rparr>) = Fin (7205759403792793 / 36028797018963968)"
  by (simp add: c_statusCallsPerSecondPerUser_def long_session_statusCallsPerSession long_session_sessionDurationSeconds; simp add: session_params_def arg_defs round64_normal fl_eval)

lemma long_session_cycleTimeSeconds:
  "c_cycleTimeSeconds (session_params\<lparr>imagesPerSession := Fin 18\<rparr>) = Fin 95"
  by (simp add: c_cycleTimeSeconds_def; simp add: session_params_def arg_defs round64_normal fl_eval)

lemma long_session_workerUtilizationRatio:
  "c_workerUtilizationRatio (session_params\<lparr>imagesPerSession := Fin 18\<rparr>) = Fin (3602879701896397 / 9007199254740992)"
  by (simp add: c_workerUtilizationRatio_def long_session_cycleTimeSeconds; simp add: session_params_def arg_defs round64_normal fl_eval)

lemma long_session_maxSupportedUsers:
  "c_maxSupportedUsers (session_params\<lparr>imagesPerSession := Fin 18\<rparr>) = Fin (265 / 2)"
  by (simp add: c_maxSupportedUsers_def long_session_workerUtilizationRatio; simp add: session_params_def arg_defs round64_normal fl_eval)

lemma long_session_safetyMultiplier:
  "c_safetyMultiplier (session_params\<lparr>imagesPerSession := Fin 18\<rparr>) = Fin 1"
  by (simp add: c_safetyMultiplier_def; simp add: session_params_def arg_defs round64_normal fl_eval)

lemma long_session_statusTPS:
  "c_statusTPS (session_params\<lparr>imagesPerSession := Fin 18\<rparr>) = Fin (7459086882832383 / 281474976710656)"
  by (simp add: c_statusTPS_def long_session_statusCallsPerSecondPerUser long_session_maxSupportedUsers long_session_safetyMultiplier; simp add: session_params_def arg_defs round64_normal fl_eval)

lemma long_session_statusTPSBurst:
  "c_statusTPSBurst (session_params\<lparr>imagesPerSession := Fin 18\<rparr>) = Fin (7459086882832383 / 140737488355328)"
  by (simp add: c_statusTPSBurst_def long_session_statusTPS; simp add: session_params_def arg_defs round64_normal fl_eval)

lemma long_session_limit_statusTPSBurst:
  "statusTPSBurst (limits (calculateTPS (session_params\<lparr>imagesPerSession := Fin 18\<rparr>))) = Fin 52"
  by (simp add: calculateTPS_def long_session_statusTPSBurst; simp add: round64_normal fl_eval)

lemma slow_unit_statusChecksPerGeneration:
  "c_statusChecksPerGeneration (slow_poll_params\<lparr>burstTrafficMultiplier := Some (Fin 1)\<rparr>) = Fin (5404319552844595 / 18014398509481984)"
  by (simp add: c_statusChecksPerGeneration_def; simp add: slow_poll_params_def arg_defs round64_normal fl_eval)

lemma slow_unit_sessionDurationSeconds:
  "c_sessionDurationSeconds (slow_poll_params\<lparr>burstTrafficMultiplier := Some (Fin 1)\<rparr>) = Fin 120"
  by (simp add: c_sessionDurationSeconds_def; simp add: slow_poll_params_def arg_defs round64_normal fl_eval)

lemma slow_unit_statusCallsPerSession:
  "c_statusCallsPerSession (slow_poll_params\<lparr>burstTrafficMultiplier := Some (Fin 1)\<rparr>) = Fin (5404319552844595 / 4503599627370496)"
  by (simp add: c_statusCallsPerSession_def slow_unit_statusChecksPerGeneration; simp add: slow_poll_params_def arg_defs round64_normal fl_eval)

lemma slow_unit_statusCallsPerSecondPerUser:
  "c_statusCallsPerSecondPerUser (slow_poll_params\<lparr>burstTrafficMultiplier := Some (Fin 1)\<rparr>) = Fin (5764607523034235 / 576460752303423488)"
  by (simp add: c_statusCallsPerSecondPerUser_def slow_unit_statusCallsPerSession slow_unit_sessionDurationSeconds; simp add: slow_poll_params_def arg_defs round64_normal fl_eval)

lemma slow_unit_cycleTimeSeconds:
  "c_cycleTimeSeconds (slow_poll_params\<lparr>burstTrafficMultiplier := Some (Fin 1)\<rparr>) = Fin 45"
  by (simp add: c_cycleTimeSeconds_def; simp add: slow_poll_params_def arg_defs round64_normal fl_eval)

lemma slow_unit_workerUtilizationRatio:
  "c_workerUtilizationRatio (slow_poll_params\<lparr>burstTrafficMultiplier := Some (Fin 1)\<rparr>) = Fin (6004799503160661 / 9007199254740992)"
  by (simp add: c_workerUtilizationRatio_def slow_unit_cycleTimeSeconds; simp add: slow_poll_params_def arg_defs round64_normal fl_eval)

lemma slow_unit_maxSupportedUsers:
  "c_maxSupportedUsers (slow_poll_params\<lparr>burstTrafficMultiplier := Some (Fin 1)\<rparr>) = Fin 15"
  by (simp add: c_maxSupportedUsers_def slow_unit_workerUtilizationRatio; simp add: slow_poll_params_def arg_defs round64_normal fl_eval)

lemma slow_unit_safetyMultiplier:
  "c_safetyMultiplier (slow_poll_params\<lparr>burstTrafficMultiplier := Some (Fin 1)\<rparr>) = Fin 1"
  by (simp add: c_safetyMultiplier_def; simp add: slow_poll_params_def arg_defs round64_normal fl_eval)

lemma slow_unit_statusTPS:
  "c_statusTPS (slow_poll_params\<lparr>burstTrafficMultiplier := Some (Fin 1)\<rparr>) = Fin (5404319552844595 / 36028797018963968)"
  by (simp add: c_statusTPS_def slow_unit_statusCallsPerSecondPerUser slow_unit_maxSupportedUsers slow_unit_safetyMultiplier; simp add: slow_poll_params_def arg_defs round64_normal fl_eval)

lemma slow_unit_statusTPSBurst:
  "c_statusTPSBurst (slow_poll_params\<lparr>burstTrafficMultiplier := Some (Fin 1)\<rparr>) = Fin (5404319552844595 / 36028797018963968)"
  by (simp add: c_statusTPSBurst_def slow_unit_statusTPS; simp add: slow_poll_params_def arg_defs round64_normal fl_eval)

lemma slow_unit_limit_statusTPSBurst:
  "statusTPSBurst (limits (calculateTPS (slow_poll_params\<lparr>burstTrafficMultiplier := Some (Fin 1)\<rparr>))) = Fin 1"
  by (simp add: calculateTPS_def slow_unit_statusTPSBurst; simp add: round64_normal fl_eval)

lemma wide_session_statusChecksPerGeneration:
  "c_statusChecksPerGeneration (scenario_params\<lparr>imagesPerSession := Fin 7\<rparr>) = Fin 6"
  by (simp add: c_statusChecksPerGeneration_def; simp add: scenario_params_def arg_defs round64_normal fl_eval)

lemma wide_session_sessionDurationSeconds:
  "c_sessionDurationSeconds (scenario_params\<lparr>imagesPerSession := Fin 7\<rparr>) = Fin 210"
  by (simp add: c_sessionDurationSeconds_def; simp add: scenario_params_def arg_defs round64_normal fl_eval)

lemma wide_session_statusCallsPerSession:
  "c_statusCallsPerSession (scenario_params\<lparr>imagesPerSession := Fin 7\<rparr>) = Fin 42"
  by (simp add: c_statusCallsPerSession_def wide_session_statusChecksPerGeneration; simp add: scenario_params_def arg_defs round64_normal fl_eval)




section \<open>The claims about \<open>calculateTPS\<close>\<close>

lemma valid_scenario: "valid_params scenario_params"
  by (simp add: valid_params_def scenario_params_def arg_defs)

lemma in_range_scenario: "in_range scenario_params"
  by (simp add: in_range_def scenario_params_def arg_defs power_int_minus)

text \<open>
  C1. The claim: for every valid input, \<open>limits.runTPS\<close> and \<open>limits.runTPSBurst\<close> are at
  most \<open>details.metrics.workerLimitedTPS\<close>. It fails in two ways. \<open>runTPS\<close> is clamped
  to the ceiling and then rounded to two decimals by \<open>toFixed(2)\<close>, to the nearest, so
  it can end up to half a hundredth above the ceiling. And when an intermediate result
  overflows, the product \<open>0 * Infinity\<close> makes both limits \<open>NaN\<close>, which is at most
  nothing. What holds for every valid input: \<open>limits.runTPS\<close> is \<open>NaN\<close> or at most the
  ceiling rounded in the same way, and \<open>limits.runTPSBurst\<close> is \<open>NaN\<close> or at most the
  ceiling; and for inputs between \<open>2 powi (-100)\<close> and \<open>2 powi 100\<close> neither is \<open>NaN\<close>.
\<close>

theorem runTPS_within_rounded_ceiling:
  assumes "valid_params p"
  shows "(runTPS (limits (calculateTPS p)) = NaN \<or>
          js_le (runTPS (limits (calculateTPS p)))
                (toFixed2 (workerLimitedTPS (metrics (details (calculateTPS p)))))) \<and>
         (runTPSBurst (limits (calculateTPS p)) = NaN \<or>
          js_le (runTPSBurst (limits (calculateTPS p)))
                (workerLimitedTPS (metrics (details (calculateTPS p))))) \<and>
         (in_range p \<longrightarrow>
            js_le (runTPS (limits (calculateTPS p)))
                  (toFixed2 (workerLimitedTPS (metrics (details (calculateTPS p))))) \<and>
            js_le (runTPSBurst (limits (calculateTPS p)))
                  (workerLimitedTPS (metrics (details (calculateTPS p)))))"
proof -
  have w: "c_workerLimitedTPS p \<noteq> NaN" "toFixed2 (c_workerLimitedTPS p) \<noteq> NaN"
    using workerLimitedTPS_not_NaN[OF assms] toFixed2_not_NaN by blast+
  have a: "runTPS (limits (calculateTPS p)) = NaN \<or>
      js_le (runTPS (limits (calculateTPS p)))
            (toFixed2 (workerLimitedTPS (metrics (details (calculateTPS p)))))"
    using runTPS_limit_le[OF assms] w(2) by (simp add: calculateTPS_def le_or_NaN_def)
  have b: "runTPSBurst (limits (calculateTPS p)) = NaN \<or>
      js_le (runTPSBurst (limits (calculateTPS p)))
            (workerLimitedTPS (metrics (details (calculateTPS p))))"
    using runTPSBurst_limit_le[OF assms] w(1) by (simp add: calculateTPS_def le_or_NaN_def)
  show ?thesis using a b in_range_limits(1,3)[of p] by blast
qed

theorem runTPS_within_rounded_ceiling_witness:
  "valid_params scenario_params \<and> in_range scenario_params \<and>
   js_le (runTPS (limits (calculateTPS scenario_params)))
         (toFixed2 (workerLimitedTPS (metrics (details (calculateTPS scenario_params))))) \<and>
   js_le (runTPSBurst (limits (calculateTPS scenario_params)))
         (workerLimitedTPS (metrics (details (calculateTPS scenario_params))))"
  using runTPS_within_rounded_ceiling[OF valid_scenario] valid_scenario in_range_scenario
  by blast

text \<open>
  The input \<open>generationTimeSeconds = 3\<close>, \<open>statusPollIntervalSeconds = 1\<close>,
  \<open>imagesPerSession = 1\<close>, \<open>maxWorkers = 8\<close> with the defaults: the ceiling is the number
  nearest to \<open>8 / 3\<close>, \<open>runTPS\<close> is clamped to it and printed as \<open>2.67\<close>, which is larger.
  The input \<open>generationTimeSeconds = imagesPerSession = averageThinkTimeSeconds = big\<close>,
  \<open>statusPollIntervalSeconds = 1\<close>, \<open>maxWorkers = huge\<close>: the session duration
  overflows, the per-user rate is \<open>0\<close>, the supported users overflow, and both limits are
  \<open>NaN\<close> against a finite ceiling.
\<close>

theorem runTPS_exceeds_ceiling:
  "valid_params ceiling_params \<and>
   \<not> js_le (runTPS (limits (calculateTPS ceiling_params)))
            (workerLimitedTPS (metrics (details (calculateTPS ceiling_params)))) \<and>
   valid_params (overflow_params\<lparr>maxWorkers := Fin huge\<rparr>) \<and>
   \<not> js_le (runTPS (limits (calculateTPS (overflow_params\<lparr>maxWorkers := Fin huge\<rparr>))))
            (workerLimitedTPS (metrics (details (calculateTPS
               (overflow_params\<lparr>maxWorkers := Fin huge\<rparr>))))) \<and>
   \<not> js_le (runTPSBurst (limits (calculateTPS (overflow_params\<lparr>maxWorkers := Fin huge\<rparr>))))
            (workerLimitedTPS (metrics (details (calculateTPS
               (overflow_params\<lparr>maxWorkers := Fin huge\<rparr>)))))"
proof -
  have "valid_params ceiling_params"
    by (simp add: valid_params_def ceiling_params_def arg_defs)
  moreover have "workerLimitedTPS (metrics (details (calculateTPS ceiling_params)))
      = Fin (6004799503160661 / 2251799813685248)"
    by (simp add: calculateTPS_def ceiling_workerLimitedTPS)
  ultimately show ?thesis
    using valid_overflow_workers
    by (simp add: ceiling_limit_runTPS overflow_workers_limits(1,2))
qed

text \<open>
  C2. For \<open>generationTimeSeconds = 30\<close>, \<open>statusPollIntervalSeconds = 5\<close>,
  \<open>imagesPerSession = 4\<close>, \<open>averageThinkTimeSeconds = 15\<close>, \<open>maxWorkers = 10\<close>,
  \<open>safetyFactorPercent = 0\<close>, \<open>burstTrafficMultiplier = 2\<close> the plan has
  \<open>statusChecksPerGeneration = 6\<close>, \<open>cycleTimeSeconds = 45\<close>, \<open>maxSupportedUsers = 15\<close>,
  \<open>workerLimitedTPS = 1\<close>, and the limits \<open>runTPS = 1\<close> and \<open>runTPSBurst = 1\<close>.
\<close>

theorem scenario_plan:
  "statusChecksPerGeneration (metrics (details (calculateTPS scenario_params))) = Fin 6 \<and>
   cycleTimeSeconds (metrics (details (calculateTPS scenario_params))) = Fin 45 \<and>
   maxSupportedUsers (metrics (details (calculateTPS scenario_params))) = Fin 15 \<and>
   workerLimitedTPS (metrics (details (calculateTPS scenario_params))) = Fin 1 \<and>
   runTPS (limits (calculateTPS scenario_params)) = Fin 1 \<and>
   runTPSBurst (limits (calculateTPS scenario_params)) = Fin 1"
proof -
  have "metrics (details (calculateTPS scenario_params)) =
      \<lparr> statusChecksPerGeneration = Fin 6,
        sessionDurationSeconds = Fin 120,
        runCallsPerSession = Fin 4,
        statusCallsPerSession = Fin 24,
        cycleTimeSeconds = Fin 45,
        maxSupportedUsers = Fin 15,
        workerLimitedTPS = Fin 1 \<rparr>"
    by (simp add: calculateTPS_def scenario_statusChecksPerGeneration
        scenario_sessionDurationSeconds scenario_runCallsPerSession
        scenario_statusCallsPerSession scenario_cycleTimeSeconds
        scenario_maxSupportedUsers scenario_workerLimitedTPS)
  then show ?thesis
    by (simp add: scenario_limit_runTPS scenario_limit_runTPSBurst)
qed

text \<open>
  C3. The claim: for every valid input each of the four returned limits is at least 1.
  Each limit is \<open>Math.max(1, x)\<close>, which is \<open>NaN\<close> when \<open>x\<close> is; and \<open>x\<close> is \<open>NaN\<close> when an
  intermediate product overflows and is then divided by another infinity. What holds
  for every valid input: each limit is at least 1 or is \<open>NaN\<close>; and for inputs between
  \<open>2 powi (-100)\<close> and \<open>2 powi 100\<close> each limit is at least 1.
\<close>

theorem limits_at_least_one:
  assumes "valid_params p"
  shows "(runTPS (limits (calculateTPS p)) = NaN \<or>
            js_le (Fin 1) (runTPS (limits (calculateTPS p)))) \<and>
         (statusTPS (limits (calculateTPS p)) = NaN \<or>
            js_le (Fin 1) (statusTPS (limits (calculateTPS p)))) \<and>
         (runTPSBurst (limits (calculateTPS p)) = NaN \<or>
            js_le (Fin 1) (runTPSBurst (limits (calculateTPS p)))) \<and>
         (statusTPSBurst (limits (calculateTPS p)) = NaN \<or>
            js_le (Fin 1) (statusTPSBurst (limits (calculateTPS p)))) \<and>
         (in_range p \<longrightarrow>
            js_le (Fin 1) (runTPS (limits (calculateTPS p))) \<and>
            js_le (Fin 1) (statusTPS (limits (calculateTPS p))) \<and>
            js_le (Fin 1) (runTPSBurst (limits (calculateTPS p))) \<and>
            js_le (Fin 1) (statusTPSBurst (limits (calculateTPS p))))"
proof -
  have a: "runTPS (limits (calculateTPS p)) = NaN \<or>
      js_le (Fin 1) (runTPS (limits (calculateTPS p)))"
    "statusTPS (limits (calculateTPS p)) = NaN \<or>
      js_le (Fin 1) (statusTPS (limits (calculateTPS p)))"
    "runTPSBurst (limits (calculateTPS p)) = NaN \<or>
      js_le (Fin 1) (runTPSBurst (limits (calculateTPS p)))"
    "statusTPSBurst (limits (calculateTPS p)) = NaN \<or>
      js_le (Fin 1) (statusTPSBurst (limits (calculateTPS p)))"
    by (simp_all add: calculateTPS_def Math_max_one)
  show ?thesis using a in_range_limits[of p] by blast
qed

theorem limits_at_least_one_witness:
  "valid_params scenario_params \<and> in_range scenario_params \<and>
   js_le (Fin 1) (runTPS (limits (calculateTPS scenario_params))) \<and>
   js_le (Fin 1) (statusTPS (limits (calculateTPS scenario_params))) \<and>
   js_le (Fin 1) (runTPSBurst (limits (calculateTPS scenario_params))) \<and>
   js_le (Fin 1) (statusTPSBurst (limits (calculateTPS scenario_params)))"
  using limits_at_least_one[OF valid_scenario] valid_scenario in_range_scenario by blast

text \<open>
  With \<open>generationTimeSeconds = imagesPerSession = averageThinkTimeSeconds = big\<close>,
  \<open>statusPollIntervalSeconds = 1\<close> and \<open>maxWorkers = 1\<close>, the session duration and the
  status calls per session both overflow, their quotient is \<open>NaN\<close>, and so are
  \<open>limits.statusTPS\<close> and \<open>limits.statusTPSBurst\<close>.
\<close>

theorem limits_NaN_on_overflow:
  "valid_params overflow_params \<and>
   \<not> js_le (Fin 1) (statusTPS (limits (calculateTPS overflow_params))) \<and>
   \<not> js_le (Fin 1) (statusTPSBurst (limits (calculateTPS overflow_params)))"
  using valid_overflow
  by (simp add: overflow_limit_statusTPS overflow_limit_statusTPSBurst)

text \<open>
  C4. The claim: with the other fields fixed, a strictly larger
  \<open>statusPollIntervalSeconds\<close> gives a strictly smaller \<open>limits.statusTPS\<close>. The returned
  limit is rounded to two decimals and floored at 1, so two different intervals can give
  the same limit; and a limit that is \<open>NaN\<close> after an overflow is smaller than nothing.
  What holds for valid inputs: the limit of the larger interval is at most that of the
  smaller one unless one of the two is \<open>NaN\<close>, and it is at most that of the smaller one
  whenever both inputs lie between \<open>2 powi (-100)\<close> and \<open>2 powi 100\<close>.
\<close>

theorem statusTPS_antimono_poll:
  assumes "valid_params p" and "valid_params (p\<lparr>statusPollIntervalSeconds := s\<rparr>)"
    and "js_lt (statusPollIntervalSeconds p) s"
  shows "(statusTPS (limits (calculateTPS (p\<lparr>statusPollIntervalSeconds := s\<rparr>))) = NaN \<or>
          statusTPS (limits (calculateTPS p)) = NaN \<or>
          js_le (statusTPS (limits (calculateTPS (p\<lparr>statusPollIntervalSeconds := s\<rparr>))))
                (statusTPS (limits (calculateTPS p)))) \<and>
         (in_range p \<and> in_range (p\<lparr>statusPollIntervalSeconds := s\<rparr>) \<longrightarrow>
          js_le (statusTPS (limits (calculateTPS (p\<lparr>statusPollIntervalSeconds := s\<rparr>))))
                (statusTPS (limits (calculateTPS p))))"
proof -
  have "js_le (statusPollIntervalSeconds p) s"
    using assms(3) by (cases "statusPollIntervalSeconds p"; cases s) simp_all
  from statusTPS_limit_poll[OF assms(1,2) this]
  have "statusTPS (limits (calculateTPS (p\<lparr>statusPollIntervalSeconds := s\<rparr>))) = NaN \<or>
      statusTPS (limits (calculateTPS p)) = NaN \<or>
      js_le (statusTPS (limits (calculateTPS (p\<lparr>statusPollIntervalSeconds := s\<rparr>))))
            (statusTPS (limits (calculateTPS p)))"
    by (simp add: le_or_NaN_def)
  then show ?thesis
    using in_range_limits(2)[of p] in_range_limits(2)[of "p\<lparr>statusPollIntervalSeconds := s\<rparr>"]
    by blast
qed

theorem statusTPS_antimono_poll_witness:
  "valid_params scenario_params \<and>
   valid_params (scenario_params\<lparr>statusPollIntervalSeconds := Fin 10\<rparr>) \<and>
   js_lt (statusPollIntervalSeconds scenario_params) (Fin 10) \<and>
   in_range scenario_params \<and>
   in_range (scenario_params\<lparr>statusPollIntervalSeconds := Fin 10\<rparr>) \<and>
   js_le (statusTPS (limits (calculateTPS (scenario_params\<lparr>statusPollIntervalSeconds := Fin 10\<rparr>))))
         (statusTPS (limits (calculateTPS scenario_params)))"
proof -
  have v: "valid_params (scenario_params\<lparr>statusPollIntervalSeconds := Fin 10\<rparr>)"
    by (simp add: valid_params_def scenario_params_def arg_defs)
  have s: "js_lt (statusPollIntervalSeconds scenario_params) (Fin 10)"
    by (simp add: scenario_params_def)
  have r: "in_range (scenario_params\<lparr>statusPollIntervalSeconds := Fin 10\<rparr>)"
    by (simp add: in_range_def scenario_params_def arg_defs power_int_minus)
  show ?thesis
    using statusTPS_antimono_poll[OF valid_scenario v s] valid_scenario v s
      in_range_scenario r
    by blast
qed

text \<open>
  With \<open>generationTimeSeconds = 30\<close>, \<open>imagesPerSession = 4\<close>, \<open>maxWorkers = 10\<close> and the
  defaults, the poll intervals 100 and 200 both give \<open>limits.statusTPS = 1\<close>. With the
  overflowing input above, the poll interval 1 gives \<open>NaN\<close> and the poll interval \<open>big\<close>
  gives 1.
\<close>

theorem statusTPS_not_strictly_decreasing:
  "valid_params slow_poll_params \<and>
   valid_params (slow_poll_params\<lparr>statusPollIntervalSeconds := Fin 200\<rparr>) \<and>
   js_lt (statusPollIntervalSeconds slow_poll_params) (Fin 200) \<and>
   \<not> js_lt (statusTPS (limits (calculateTPS
               (slow_poll_params\<lparr>statusPollIntervalSeconds := Fin 200\<rparr>))))
            (statusTPS (limits (calculateTPS slow_poll_params))) \<and>
   valid_params overflow_params \<and>
   valid_params (overflow_params\<lparr>statusPollIntervalSeconds := Fin big\<rparr>) \<and>
   js_lt (statusPollIntervalSeconds overflow_params) (Fin big) \<and>
   \<not> js_lt (statusTPS (limits (calculateTPS
               (overflow_params\<lparr>statusPollIntervalSeconds := Fin big\<rparr>))))
            (statusTPS (limits (calculateTPS overflow_params)))"
proof -
  have "valid_params slow_poll_params"
    by (simp add: valid_params_def slow_poll_params_def arg_defs)
  moreover have "valid_params (slow_poll_params\<lparr>statusPollIntervalSeconds := Fin 200\<rparr>)"
    by (simp add: valid_params_def slow_poll_params_def arg_defs)
  moreover have "js_lt (statusPollIntervalSeconds slow_poll_params) (Fin 200)"
    by (simp add: slow_poll_params_def)
  moreover have "js_lt (statusPollIntervalSeconds overflow_params) (Fin big)"
  proof -
    have "(2::real) powi 0 < 2 powi 600" by (rule power_int_strict_increasing) simp_all
    then have "1 < big" unfolding big_def by (simp only: power_int_0_right)
    then show ?thesis by (simp add: overflow_params_def)
  qed
  ultimately show ?thesis
    using valid_overflow valid_overflow_poll
    by (simp add: slow_poll_limit_statusTPS slower_poll_limit_statusTPS
        overflow_limit_statusTPS overflow_poll_limit_statusTPS)
qed

text \<open>
  C5. The claim: with the other fields fixed, a larger \<open>maxWorkers\<close> gives a
  \<open>limits.runTPS\<close> that is greater than or equal to the smaller one's. It fails when the
  larger pool makes \<open>maxSupportedUsers\<close> overflow while the per-user rate is \<open>0\<close>: the
  limit is then \<open>NaN\<close>. What holds for valid inputs: the limit of the larger pool is at
  least that of the smaller one unless one of the two is \<open>NaN\<close>, and it is at least that
  of the smaller one whenever both inputs lie between \<open>2 powi (-100)\<close> and \<open>2 powi 100\<close>.
\<close>

theorem runTPS_mono_workers:
  assumes "valid_params p" and "valid_params (p\<lparr>maxWorkers := w\<rparr>)"
    and "js_le (maxWorkers p) w"
  shows "(runTPS (limits (calculateTPS p)) = NaN \<or>
          runTPS (limits (calculateTPS (p\<lparr>maxWorkers := w\<rparr>))) = NaN \<or>
          js_le (runTPS (limits (calculateTPS p)))
                (runTPS (limits (calculateTPS (p\<lparr>maxWorkers := w\<rparr>))))) \<and>
         (in_range p \<and> in_range (p\<lparr>maxWorkers := w\<rparr>) \<longrightarrow>
          js_le (runTPS (limits (calculateTPS p)))
                (runTPS (limits (calculateTPS (p\<lparr>maxWorkers := w\<rparr>)))))"
proof -
  from runTPS_limit_workers[OF assms]
  have "runTPS (limits (calculateTPS p)) = NaN \<or>
      runTPS (limits (calculateTPS (p\<lparr>maxWorkers := w\<rparr>))) = NaN \<or>
      js_le (runTPS (limits (calculateTPS p)))
            (runTPS (limits (calculateTPS (p\<lparr>maxWorkers := w\<rparr>))))"
    by (simp add: le_or_NaN_def)
  then show ?thesis
    using in_range_limits(1)[of p] in_range_limits(1)[of "p\<lparr>maxWorkers := w\<rparr>"]
    by blast
qed

theorem runTPS_mono_workers_witness:
  "valid_params scenario_params \<and> valid_params (scenario_params\<lparr>maxWorkers := Fin 2000\<rparr>) \<and>
   js_le (maxWorkers scenario_params) (Fin 2000) \<and>
   in_range scenario_params \<and> in_range (scenario_params\<lparr>maxWorkers := Fin 2000\<rparr>) \<and>
   js_le (runTPS (limits (calculateTPS scenario_params)))
         (runTPS (limits (calculateTPS (scenario_params\<lparr>maxWorkers := Fin 2000\<rparr>))))"
proof -
  have v: "valid_params (scenario_params\<lparr>maxWorkers := Fin 2000\<rparr>)"
    by (simp add: valid_params_def scenario_params_def arg_defs)
  have w: "js_le (maxWorkers scenario_params) (Fin 2000)"
    by (simp add: scenario_params_def)
  have r: "in_range (scenario_params\<lparr>maxWorkers := Fin 2000\<rparr>)"
    by (simp add: in_range_def scenario_params_def arg_defs power_int_minus)
  show ?thesis
    using runTPS_mono_workers[OF valid_scenario v w] valid_scenario v w in_range_scenario r
    by blast
qed

text \<open>
  With \<open>generationTimeSeconds = imagesPerSession = averageThinkTimeSeconds = big\<close> and
  \<open>statusPollIntervalSeconds = 1\<close>, \<open>maxWorkers = 1\<close> gives \<open>limits.runTPS = 1\<close> and
  \<open>maxWorkers = huge\<close> gives \<open>NaN\<close>.
\<close>

theorem runTPS_NaN_for_more_workers:
  "valid_params overflow_params \<and>
   valid_params (overflow_params\<lparr>maxWorkers := Fin huge\<rparr>) \<and>
   js_le (maxWorkers overflow_params) (Fin huge) \<and>
   runTPS (limits (calculateTPS overflow_params)) = Fin 1 \<and>
   \<not> js_le (runTPS (limits (calculateTPS overflow_params)))
            (runTPS (limits (calculateTPS (overflow_params\<lparr>maxWorkers := Fin huge\<rparr>))))"
proof -
  have "(2::real) powi 0 \<le> 2 powi 1023" by (rule powi_two_mono) simp
  then have "1 \<le> huge" unfolding huge_def by (simp only: power_int_0_right)
  then have "js_le (maxWorkers overflow_params) (Fin huge)"
    by (simp add: overflow_params_def)
  then show ?thesis
    using valid_overflow valid_overflow_workers
    by (simp add: overflow_limit_runTPS overflow_workers_limits(1))
qed

text \<open>
  C6. The claim: with \<open>burstTrafficMultiplier = 1\<close>, \<open>limits.runTPSBurst\<close> is the floor or
  the ceiling of \<open>limits.runTPS\<close> and \<open>limits.statusTPSBurst\<close> is the floor of
  \<open>limits.statusTPS\<close>. The returned steady limits are rounded to two decimals first, which
  can carry them to the next integer, while the burst limits are floors of the values
  before that rounding. What holds: with multiplier 1, each burst limit is the floor of
  the steady rate as it is before \<open>toFixed(2)\<close> (the locals \<open>runTPS\<close> and \<open>statusTPS\<close>),
  itself floored at 1.
\<close>

theorem burst_one_is_floor_of_unrounded:
  assumes "valid_params p" and "burstTrafficMultiplier p = Some (Fin 1)"
  shows "runTPSBurst (limits (calculateTPS p)) = Math_max (Fin 1) (Math_floor (c_runTPS p)) \<and>
         statusTPSBurst (limits (calculateTPS p))
           = Math_max (Fin 1) (Math_floor (c_statusTPS p))"
proof -
  have b: "arg_burstTrafficMultiplier p = Fin 1"
    using assms(2) by (simp add: arg_burstTrafficMultiplier_def)
  show ?thesis
    by (simp add: calculateTPS_def burst_one[OF assms(1) b])
qed

theorem burst_one_is_floor_of_unrounded_witness:
  "valid_params unit_burst_params \<and> burstTrafficMultiplier unit_burst_params = Some (Fin 1) \<and>
   runTPSBurst (limits (calculateTPS unit_burst_params))
     = Math_max (Fin 1) (Math_floor (c_runTPS unit_burst_params)) \<and>
   statusTPSBurst (limits (calculateTPS unit_burst_params))
     = Math_max (Fin 1) (Math_floor (c_statusTPS unit_burst_params))"
proof -
  have v: "valid_params unit_burst_params"
    by (simp add: valid_params_def unit_burst_params_def arg_defs)
  have b: "burstTrafficMultiplier unit_burst_params = Some (Fin 1)"
    by (simp add: unit_burst_params_def)
  show ?thesis
    using burst_one_is_floor_of_unrounded[OF v b] v b by simp
qed

text \<open>
  With \<open>generationTimeSeconds = 1000\<close>, \<open>statusPollIntervalSeconds = 1000\<close>,
  \<open>imagesPerSession = 1\<close>, \<open>averageThinkTimeSeconds = 0\<close>, \<open>maxWorkers = 1999\<close> and
  multiplier 1, both steady rates are \<open>1.999\<close>: the steady limits are \<open>2\<close> and the burst
  limits are \<open>1\<close>.
\<close>

theorem burst_one_differs_from_rounded:
  "valid_params unit_burst_params \<and> burstTrafficMultiplier unit_burst_params = Some (Fin 1) \<and>
   runTPSBurst (limits (calculateTPS unit_burst_params))
     \<noteq> Math_floor (runTPS (limits (calculateTPS unit_burst_params))) \<and>
   runTPSBurst (limits (calculateTPS unit_burst_params))
     \<noteq> Math_ceil (runTPS (limits (calculateTPS unit_burst_params))) \<and>
   statusTPSBurst (limits (calculateTPS unit_burst_params))
     \<noteq> Math_floor (statusTPS (limits (calculateTPS unit_burst_params)))"
proof -
  have "valid_params unit_burst_params"
    by (simp add: valid_params_def unit_burst_params_def arg_defs)
  moreover have "burstTrafficMultiplier unit_burst_params = Some (Fin 1)"
    by (simp add: unit_burst_params_def)
  ultimately show ?thesis
    by (simp add: unit_burst_limit_runTPS unit_burst_limit_runTPSBurst
        unit_burst_limit_statusTPS unit_burst_limit_statusTPSBurst)
qed

text \<open>
  Read against the rates before rounding, the poll half of the claim fails as well: a
  poll rate below 1 has floor 0, and the burst limit is 1.
\<close>

lemma burst_one_differs_from_unrounded_floor:
  "statusTPSBurst (limits (calculateTPS (slow_poll_params\<lparr>burstTrafficMultiplier := Some (Fin 1)\<rparr>)))
     \<noteq> Math_floor (c_statusTPS (slow_poll_params\<lparr>burstTrafficMultiplier := Some (Fin 1)\<rparr>))"
  by (simp add: slow_unit_limit_statusTPSBurst slow_unit_statusTPS)

text \<open>
  C7. For every valid input, calling \<open>calculateTPS\<close> on the \<open>inputs\<close> field of its own
  result returns the same result, field for field.
\<close>

theorem calculateTPS_round_trip:
  assumes "valid_params p"
  shows "calculateTPS (inputs (calculateTPS p)) = calculateTPS p"
  by (rule calculateTPS_inputs)

theorem calculateTPS_round_trip_witness:
  "valid_params scenario_params \<and>
   calculateTPS (inputs (calculateTPS scenario_params)) = calculateTPS scenario_params"
  using calculateTPS_round_trip[OF valid_scenario] valid_scenario by simp

text \<open>
  C9. The claim: two valid inputs that differ only in \<open>imagesPerSession\<close> get identical
  \<open>limits\<close>. \<open>imagesPerSession\<close> enters the limits through two products,
  \<open>imagesPerSession * generationTimeSeconds\<close> and
  \<open>imagesPerSession * statusChecksPerGeneration\<close>, each divided again by the first. When
  a product is rounded the quotient can differ in the last place, and the floor of a
  burst limit turns that into a difference of 1. What holds: two valid inputs that
  differ only in \<open>imagesPerSession\<close> get identical \<open>limits\<close> whenever, for both, the two
  products are finite and are not changed by rounding.
\<close>

theorem limits_independent_of_images:
  assumes "valid_params p" and "valid_params (p\<lparr>imagesPerSession := n\<rparr>)"
    and "exact_products p" and "exact_products (p\<lparr>imagesPerSession := n\<rparr>)"
  shows "limits (calculateTPS (p\<lparr>imagesPerSession := n\<rparr>)) = limits (calculateTPS p)"
  by (simp add: calculateTPS_def exact_images[OF assms])

theorem limits_independent_of_images_witness:
  "valid_params scenario_params \<and> valid_params (scenario_params\<lparr>imagesPerSession := Fin 7\<rparr>) \<and>
   exact_products scenario_params \<and>
   exact_products (scenario_params\<lparr>imagesPerSession := Fin 7\<rparr>) \<and>
   limits (calculateTPS (scenario_params\<lparr>imagesPerSession := Fin 7\<rparr>))
     = limits (calculateTPS scenario_params)"
proof -
  have v: "valid_params (scenario_params\<lparr>imagesPerSession := Fin 7\<rparr>)"
    by (simp add: valid_params_def scenario_params_def arg_defs)
  have e: "exact_products scenario_params"
    unfolding exact_products_def scenario_statusChecksPerGeneration
      scenario_sessionDurationSeconds scenario_statusCallsPerSession
    by (simp add: scenario_params_def)
  have e': "exact_products (scenario_params\<lparr>imagesPerSession := Fin 7\<rparr>)"
    unfolding exact_products_def wide_session_statusChecksPerGeneration
      wide_session_sessionDurationSeconds wide_session_statusCallsPerSession
    by (simp add: scenario_params_def)
  show ?thesis
    using limits_independent_of_images[OF valid_scenario v e e'] valid_scenario v e e'
    by simp
qed

text \<open>
  With \<open>generationTimeSeconds = 38\<close>, \<open>statusPollIntervalSeconds = 5\<close>,
  \<open>averageThinkTimeSeconds = 57\<close>, \<open>maxWorkers = 53\<close> and the other defaults,
  \<open>imagesPerSession = 5\<close> gives \<open>statusTPSBurst = 53\<close> and \<open>imagesPerSession = 18\<close> gives
  \<open>statusTPSBurst = 52\<close>.
\<close>

theorem limits_depend_on_images:
  "valid_params session_params \<and>
   valid_params (session_params\<lparr>imagesPerSession := Fin 18\<rparr>) \<and>
   limits (calculateTPS (session_params\<lparr>imagesPerSession := Fin 18\<rparr>))
     \<noteq> limits (calculateTPS session_params)"
proof -
  have "valid_params session_params"
    by (simp add: valid_params_def session_params_def arg_defs)
  moreover have "valid_params (session_params\<lparr>imagesPerSession := Fin 18\<rparr>)"
    by (simp add: valid_params_def session_params_def arg_defs)
  moreover have "statusTPSBurst (limits (calculateTPS (session_params\<lparr>imagesPerSession := Fin 18\<rparr>)))
      \<noteq> statusTPSBurst (limits (calculateTPS session_params))"
    by (simp add: session_limit_statusTPSBurst long_session_limit_statusTPSBurst)
  ultimately show ?thesis by auto
qed

text \<open>
  At that input the product \<open>18 * statusChecksPerGeneration\<close> is one that rounding
  changes.
\<close>

lemma long_session_product_rounded:
  "\<not> exact_products (session_params\<lparr>imagesPerSession := Fin 18\<rparr>)"
  unfolding exact_products_def long_session_statusChecksPerGeneration
    long_session_sessionDurationSeconds long_session_statusCallsPerSession
  by (simp add: session_params_def)

text \<open>
  C10. For every input, the \<open>inputs\<close> field of the result is the caller's input with an
  omitted \<open>averageThinkTimeSeconds\<close> replaced by 15, an omitted \<open>safetyFactorPercent\<close> by 0
  and an omitted \<open>burstTrafficMultiplier\<close> by 2; supplied fields are echoed unchanged.
\<close>

theorem inputs_echo_with_defaults:
  "inputs (calculateTPS p) =
     p\<lparr> averageThinkTimeSeconds :=
            Some (case averageThinkTimeSeconds p of None \<Rightarrow> Fin 15 | Some v \<Rightarrow> v),
        safetyFactorPercent :=
            Some (case safetyFactorPercent p of None \<Rightarrow> Fin 0 | Some v \<Rightarrow> v),
        burstTrafficMultiplier :=
            Some (case burstTrafficMultiplier p of None \<Rightarrow> Fin 2 | Some v \<Rightarrow> v) \<rparr>"
  by (cases p) (simp add: calculateTPS_def arg_defs)


section \<open>The claim about the upload handler\<close>

lemma handler_reaches_presign:
  assumes "snd (handler en ev) \<noteq> [] \<or> issues_authorization (handler en ev)"
  shows "\<exists>b. parsed_body ev = Inr b \<and> b \<noteq> JNull \<and> b \<noteq> JUndefined \<and>
           truthy (read_property b ''fileName'') \<and> truthy (read_property b ''fileType'') \<and>
           array_includes ALLOWED_FILE_TYPES (read_property b ''fileType'') \<and>
           \<not> string_conversion_throws (read_property b ''fileName'') \<and>
           snd (handler en ev)
             = [make_post_params en (read_property b ''fileName'') (read_property b ''fileType'')]"
  using assms
  by (auto simp: handler_def get_property_def issues_authorization_def bad_request_def
      server_error_def Let_def split: sum.splits if_splits)

lemma handler_checked:
  assumes "parsed_body ev = Inr b" "b \<noteq> JNull" "b \<noteq> JUndefined"
  shows "handler en ev =
    (if \<not> truthy (read_property b ''fileName'') \<or> \<not> truthy (read_property b ''fileType'') then
       (bad_request ''fileName and fileType are required'', [])
     else if \<not> array_includes ALLOWED_FILE_TYPES (read_property b ''fileType'') then
       (bad_request ''Invalid file type. Allowed types: image/png, image/jpeg'', [])
     else if string_conversion_throws (read_property b ''fileName'') then
       (server_error (TypeError ''Cannot convert object to primitive value''), [])
     else
       (case createPresignedPost en
               (make_post_params en (read_property b ''fileName'') (read_property b ''fileType'')) of
          Inl e \<Rightarrow> (server_error e,
            [make_post_params en (read_property b ''fileName'') (read_property b ''fileType'')])
        | Inr post \<Rightarrow>
            (\<lparr> statusCode = 200,
               body = UploadBody (url post) (form_fields post)
                 (Key (make_post_params en (read_property b ''fileName'')
                        (read_property b ''fileType''))) \<rparr>,
             [make_post_params en (read_property b ''fileName'') (read_property b ''fileType'')])))"
  using assms by (simp add: handler_def get_property_def Let_def)

text \<open>
  C8. The claim: a request whose body is malformed or lacks \<open>fileName\<close> or \<open>fileType\<close>
  gets a client error and no upload authorization; one whose \<open>fileType\<close> is not
  \<open>image/png\<close> or \<open>image/jpeg\<close> gets a client error and no upload authorization; only
  requests passing both checks reach \<open>createPresignedPost\<close>; an internal failure gives
  status 500. All of it holds but the status of a malformed body: \<open>JSON.parse\<close> and the
  two property reads are inside the \<open>try\<close> block, so a body that does not parse, or that
  parses to \<open>null\<close>, is answered by the \<open>catch\<close> block with status 500. What holds, for
  every request: a body that parses to a value other than \<open>null\<close> and whose \<open>fileName\<close> or
  \<open>fileType\<close> is missing or falsy gets status 400, no call of \<open>createPresignedPost\<close> and
  no authorization; so does one whose \<open>fileType\<close> is not in the allow-list; a body that
  does not parse, or parses to \<open>null\<close>, gets status 500, no call and no authorization;
  \<open>createPresignedPost\<close> is called, and an authorization returned, only when the body
  parsed to a value other than \<open>null\<close>, passed both checks and has a \<open>fileName\<close> that
  converts to a string; and a failure of that call, like a \<open>fileName\<close> that does not
  convert, gives the 500 response without an authorization.
\<close>

theorem handler_validation:
  "(parsed_body ev = Inr b \<and> b \<noteq> JNull \<and> b \<noteq> JUndefined \<and>
      (\<not> truthy (read_property b ''fileName'') \<or> \<not> truthy (read_property b ''fileType''))
     \<longrightarrow> statusCode (fst (handler en ev)) = 400 \<and> snd (handler en ev) = [] \<and>
         \<not> issues_authorization (handler en ev))
   \<and> (parsed_body ev = Inr b \<and> b \<noteq> JNull \<and> b \<noteq> JUndefined \<and>
      \<not> array_includes ALLOWED_FILE_TYPES (read_property b ''fileType'')
     \<longrightarrow> statusCode (fst (handler en ev)) = 400 \<and> snd (handler en ev) = [] \<and>
         \<not> issues_authorization (handler en ev))
   \<and> (parsed_body ev = Inl e \<or> parsed_body ev = Inr JNull
     \<longrightarrow> statusCode (fst (handler en ev)) = 500 \<and> snd (handler en ev) = [] \<and>
         \<not> issues_authorization (handler en ev))
   \<and> (snd (handler en ev) \<noteq> [] \<or> issues_authorization (handler en ev)
     \<longrightarrow> (\<exists>b. parsed_body ev = Inr b \<and> b \<noteq> JNull \<and>
           truthy (read_property b ''fileName'') \<and> truthy (read_property b ''fileType'') \<and>
           array_includes ALLOWED_FILE_TYPES (read_property b ''fileType'') \<and>
           \<not> string_conversion_throws (read_property b ''fileName'') \<and>
           snd (handler en ev)
             = [make_post_params en (read_property b ''fileName'')
                  (read_property b ''fileType'')]))
   \<and> (pp \<in> set (snd (handler en ev)) \<and> createPresignedPost en pp = Inl e'
     \<longrightarrow> fst (handler en ev) = server_error e' \<and> \<not> issues_authorization (handler en ev))
   \<and> (parsed_body ev = Inr b \<and> b \<noteq> JNull \<and> b \<noteq> JUndefined \<and>
      truthy (read_property b ''fileName'') \<and>
      array_includes ALLOWED_FILE_TYPES (read_property b ''fileType'') \<and>
      string_conversion_throws (read_property b ''fileName'')
     \<longrightarrow> statusCode (fst (handler en ev)) = 500 \<and> snd (handler en ev) = [] \<and>
         \<not> issues_authorization (handler en ev))"
proof (intro conjI impI)
  assume a: "parsed_body ev = Inr b \<and> b \<noteq> JNull \<and> b \<noteq> JUndefined \<and>
      (\<not> truthy (read_property b ''fileName'') \<or> \<not> truthy (read_property b ''fileType''))"
  then have h: "handler en ev = (bad_request ''fileName and fileType are required'', [])"
    using handler_checked[of ev b en] by auto
  show "statusCode (fst (handler en ev)) = 400" by (simp add: h bad_request_def)
  show "snd (handler en ev) = []" by (simp add: h)
  show "\<not> issues_authorization (handler en ev)"
    by (simp add: h bad_request_def issues_authorization_def)
next
  assume a: "parsed_body ev = Inr b \<and> b \<noteq> JNull \<and> b \<noteq> JUndefined \<and>
      \<not> array_includes ALLOWED_FILE_TYPES (read_property b ''fileType'')"
  then have "\<exists>m. handler en ev = (bad_request m, [])"
    using handler_checked[of ev b en] by auto
  then obtain m where h: "handler en ev = (bad_request m, [])" by blast
  show "statusCode (fst (handler en ev)) = 400" by (simp add: h bad_request_def)
  show "snd (handler en ev) = []" by (simp add: h)
  show "\<not> issues_authorization (handler en ev)"
    by (simp add: h bad_request_def issues_authorization_def)
next
  assume a: "parsed_body ev = Inl e \<or> parsed_body ev = Inr JNull"
  then have "\<exists>x. handler en ev = (server_error x, [])"
    by (auto simp: handler_def get_property_def)
  then obtain x where h: "handler en ev = (server_error x, [])" by blast
  show "statusCode (fst (handler en ev)) = 500" by (simp add: h server_error_def)
  show "snd (handler en ev) = []" by (simp add: h)
  show "\<not> issues_authorization (handler en ev)"
    by (simp add: h server_error_def issues_authorization_def)
next
  assume "snd (handler en ev) \<noteq> [] \<or> issues_authorization (handler en ev)"
  from handler_reaches_presign[OF this]
  show "\<exists>b. parsed_body ev = Inr b \<and> b \<noteq> JNull \<and>
           truthy (read_property b ''fileName'') \<and> truthy (read_property b ''fileType'') \<and>
           array_includes ALLOWED_FILE_TYPES (read_property b ''fileType'') \<and>
           \<not> string_conversion_throws (read_property b ''fileName'') \<and>
           snd (handler en ev)
             = [make_post_params en (read_property b ''fileName'')
                  (read_property b ''fileType'')]"
    by blast
next
  assume a: "pp \<in> set (snd (handler en ev)) \<and> createPresignedPost en pp = Inl e'"
  then have ne: "snd (handler en ev) \<noteq> []" by auto
  from handler_reaches_presign[OF disjI1[OF ne]] obtain b where
    p: "parsed_body ev = Inr b" "b \<noteq> JNull" "b \<noteq> JUndefined"
       "truthy (read_property b ''fileName'')" "truthy (read_property b ''fileType'')"
       "array_includes ALLOWED_FILE_TYPES (read_property b ''fileType'')"
       "\<not> string_conversion_throws (read_property b ''fileName'')"
       "snd (handler en ev)
          = [make_post_params en (read_property b ''fileName'') (read_property b ''fileType'')]"
    by blast
  have pp: "pp = make_post_params en (read_property b ''fileName'') (read_property b ''fileType'')"
    using a p(8) by simp
  have h: "handler en ev = (server_error e', [pp])"
    using handler_checked[OF p(1,2,3), of en] p(4,5,6,7) a by (simp add: pp)
  show "fst (handler en ev) = server_error e'" by (simp add: h)
  show "\<not> issues_authorization (handler en ev)"
    by (simp add: h server_error_def issues_authorization_def)
next
  assume a: "parsed_body ev = Inr b \<and> b \<noteq> JNull \<and> b \<noteq> JUndefined \<and>
      truthy (read_property b ''fileName'') \<and>
      array_includes ALLOWED_FILE_TYPES (read_property b ''fileType'') \<and>
      string_conversion_throws (read_property b ''fileName'')"
  have t: "truthy (read_property b ''fileType'')"
    using a by (cases "read_property b ''fileType''") (simp_all add: ALLOWED_FILE_TYPES_def, auto)
  have h: "handler en ev
      = (server_error (TypeError ''Cannot convert object to primitive value''), [])"
    using handler_checked[of ev b en] a t by simp
  show "statusCode (fst (handler en ev)) = 500" by (simp add: h server_error_def)
  show "snd (handler en ev) = []" by (simp add: h)
  show "\<not> issues_authorization (handler en ev)"
    by (simp add: h server_error_def issues_authorization_def)
qed

text \<open>
  The theorem at seven requests: one without \<open>fileName\<close>, one with
  \<open>fileType = image/gif\<close>, one whose body does not parse, one whose body is \<open>null\<close>, an
  accepted one, an accepted one for which \<open>createPresignedPost\<close> fails, and one whose
  \<open>fileName\<close> is an object that cannot be converted to a string.
\<close>

theorem handler_validation_witness:
  "(statusCode (fst (handler example_env nameless_event)) = 400 \<and>
    snd (handler example_env nameless_event) = [] \<and>
    \<not> issues_authorization (handler example_env nameless_event))
   \<and> (statusCode (fst (handler example_env gif_event)) = 400 \<and>
    snd (handler example_env gif_event) = [] \<and>
    \<not> issues_authorization (handler example_env gif_event))
   \<and> (statusCode (fst (handler example_env unparseable_event)) = 500 \<and>
    snd (handler example_env unparseable_event) = [] \<and>
    \<not> issues_authorization (handler example_env unparseable_event))
   \<and> (statusCode (fst (handler example_env null_event)) = 500 \<and>
    snd (handler example_env null_event) = [] \<and>
    \<not> issues_authorization (handler example_env null_event))
   \<and> (issues_authorization (handler example_env png_event) \<and>
    snd (handler example_env png_event)
      = [make_post_params example_env (JStr ''a.png'') (JStr ''image/png'')])
   \<and> (fst (handler failing_env png_event) = server_error (Error ''AccessDenied'') \<and>
    \<not> issues_authorization (handler failing_env png_event))
   \<and> (statusCode (fst (handler example_env object_name_event)) = 500 \<and>
    snd (handler example_env object_name_event) = [] \<and>
    \<not> issues_authorization (handler example_env object_name_event))"
proof -
  let ?nameless = "JObj [(''fileType'', JStr ''image/png'')]"
  let ?gif = "JObj [(''fileName'', JStr ''a.gif''), (''fileType'', JStr ''image/gif'')]"
  let ?png = "JObj [(''fileName'', JStr ''a.png''), (''fileType'', JStr ''image/png'')]"
  let ?obj = "JObj [(''fileName'', JObj [(''toString'', JNum 1)]),
                    (''fileType'', JStr ''image/png'')]"
  have 1: "parsed_body nameless_event = Inr ?nameless \<and> ?nameless \<noteq> JNull \<and>
      ?nameless \<noteq> JUndefined \<and>
      (\<not> truthy (read_property ?nameless ''fileName'') \<or>
       \<not> truthy (read_property ?nameless ''fileType''))"
    by (simp add: nameless_event_def)
  have 2: "parsed_body gif_event = Inr ?gif \<and> ?gif \<noteq> JNull \<and> ?gif \<noteq> JUndefined \<and>
      \<not> array_includes ALLOWED_FILE_TYPES (read_property ?gif ''fileType'')"
    by (simp add: gif_event_def ALLOWED_FILE_TYPES_def)
  have 3: "parsed_body unparseable_event = Inl (SyntaxError ''Unexpected end of JSON input'')
      \<or> parsed_body unparseable_event = Inr JNull"
    by (simp add: unparseable_event_def)
  have 7: "parsed_body null_event = Inl (SyntaxError [])
      \<or> parsed_body null_event = Inr JNull"
    by (simp add: null_event_def)
  have 4: "issues_authorization (handler example_env png_event)"
    by (simp add: handler_def get_property_def png_event_def example_env_def
        ALLOWED_FILE_TYPES_def issues_authorization_def Let_def)
  have 5: "make_post_params failing_env (JStr ''a.png'') (JStr ''image/png'')
        \<in> set (snd (handler failing_env png_event)) \<and>
      createPresignedPost failing_env
        (make_post_params failing_env (JStr ''a.png'') (JStr ''image/png''))
        = Inl (Error ''AccessDenied'')"
    by (simp add: handler_def get_property_def png_event_def failing_env_def example_env_def
        ALLOWED_FILE_TYPES_def Let_def)
  have 6: "parsed_body object_name_event = Inr ?obj \<and> ?obj \<noteq> JNull \<and> ?obj \<noteq> JUndefined \<and>
      truthy (read_property ?obj ''fileName'') \<and>
      array_includes ALLOWED_FILE_TYPES (read_property ?obj ''fileType'') \<and>
      string_conversion_throws (read_property ?obj ''fileName'')"
    by (simp add: object_name_event_def ALLOWED_FILE_TYPES_def)
  note a = handler_validation[where ev = nameless_event and en = example_env,
      THEN conjunct1, THEN mp, OF 1]
  note b = handler_validation[where ev = gif_event and en = example_env,
      THEN conjunct2, THEN conjunct1, THEN mp, OF 2]
  note c = handler_validation[where ev = unparseable_event and en = example_env,
      THEN conjunct2, THEN conjunct2, THEN conjunct1, THEN mp, OF 3]
  note c' = handler_validation[where ev = null_event and en = example_env,
      THEN conjunct2, THEN conjunct2, THEN conjunct1, THEN mp, OF 7]
  note d = handler_validation[where ev = png_event and en = example_env,
      THEN conjunct2, THEN conjunct2, THEN conjunct2, THEN conjunct1, THEN mp, OF disjI2[OF 4]]
  note e = handler_validation[where ev = png_event and en = failing_env,
      THEN conjunct2, THEN conjunct2, THEN conjunct2, THEN conjunct2, THEN conjunct1,
      THEN mp, OF 5]
  note f = handler_validation[where ev = object_name_event and en = example_env,
      THEN conjunct2, THEN conjunct2, THEN conjunct2, THEN conjunct2, THEN conjunct2,
      THEN mp, OF 6]
  have d': "snd (handler example_env png_event)
      = [make_post_params example_env (JStr ''a.png'') (JStr ''image/png'')]"
    using d by (auto simp: png_event_def)
  show ?thesis using a b c c' 4 d' e f by simp
qed

text \<open>
  A body that does not parse, and a body that is \<open>null\<close>: the response has status 500,
  which is not a client error.
\<close>

theorem handler_malformed_body_500:
  "parsed_body unparseable_event = Inl (SyntaxError ''Unexpected end of JSON input'') \<and>
   statusCode (fst (handler example_env unparseable_event)) = 500 \<and>
   \<not> client_error (fst (handler example_env unparseable_event)) \<and>
   parsed_body null_event = Inr JNull \<and>
   statusCode (fst (handler example_env null_event)) = 500 \<and>
   \<not> client_error (fst (handler example_env null_event))"
  by (simp add: handler_def get_property_def unparseable_event_def null_event_def
      server_error_def client_error_def)

end
